theory Spec2Isabelle
  imports Main
begin

section \<open>Drag-to-new-tab reordering engine of \<^verbatim>\<open>src/tabbookmark.cc\<close>\<close>

text \<open>
  The engine is the group of functions of \<^verbatim>\<open>tabbookmark.cc\<close> around the global
  \<^verbatim>\<open>drag_new_tab_state\<close>: the snapshot helpers, the poll timer procedure, the restore
  timer procedure, the queueing functions and the three branches of \<^verbatim>\<open>MouseProc\<close> that
  touch the state (pointer move, primary button down, primary button up).

  Modelling decisions.
  \<^item> A \<^verbatim>\<open>NodePtr\<close> is a nullable reference to a host-owned accessibility node; equality
    is equality of the raw pointer (\<^verbatim>\<open>a.Get() == b.Get()\<close>). It is an optional address,
    \<open>None\<close> being \<^verbatim>\<open>nullptr\<close>. A \<^verbatim>\<open>HWND\<close> is modelled the same way.
  \<^item> C++ \<^verbatim>\<open>int\<close> values (indices, counters, the mode) are HOL integers: the counters
    stay between 0 and 12, and an index is bounded by the number of tabs of one window.
    The exception is the pointer arithmetic of \<^verbatim>\<open>HandleDrag\<close>, where the coordinates
    are arbitrary 32-bit values: there the wrap-around is written out.
  \<^item> The host application, the configuration and the operating system are not part of the
    repository. What each call to them returns is an input of the model (the observations
    of one event); what the engine sends to them (select a tab, move the selected tab, set
    or kill a timer) is recorded in the state of the model.
\<close>

subsection \<open>Data\<close>

type_synonym NodePtr = "nat option"

type_synonym HWND = "nat option"

record POINT =
  pt_x :: int
  pt_y :: int

text \<open>\<^verbatim>\<open>struct DragNewTabState\<close>, field by field.\<close>

record DragNewTabState =
  mode :: int
  hwnd :: HWND
  drop_point :: POINT
  start_tab_count :: int
  start_selected_tab :: NodePtr
  start_selected_index :: int
  start_tabs :: "NodePtr list"
  check_attempts :: int
  armed :: bool
  pending :: bool

definition kDragNewTabCheckIntervalMs :: nat where
  "kDragNewTabCheckIntervalMs = 80"

definition kDragNewTabMaxAttempts :: int where
  "kDragNewTabMaxAttempts = 12"

definition kDragNewTabRestoreAttempts :: int where
  "kDragNewTabRestoreAttempts = 4"

subsection \<open>Snapshot helpers\<close>

text \<open>The inner loop of \<^verbatim>\<open>FindNewTabAfterDrag\<close>: is \<open>tab\<close> one of the old tabs?\<close>

fun existed :: "NodePtr list \<Rightarrow> NodePtr \<Rightarrow> bool" where
  "existed [] tab = False"
| "existed (old_tab # olds) tab = (if tab = old_tab then True else existed olds tab)"

text \<open>The outer loop: the first tab of the current list that did not exist.\<close>

fun FindNewTabAfterDrag_loop :: "NodePtr list \<Rightarrow> NodePtr list \<Rightarrow> NodePtr" where
  "FindNewTabAfterDrag_loop olds [] = None"
| "FindNewTabAfterDrag_loop olds (tab # tabs) =
     (if \<not> existed olds tab then tab else FindNewTabAfterDrag_loop olds tabs)"

definition FindNewTabAfterDrag :: "DragNewTabState \<Rightarrow> NodePtr list \<Rightarrow> NodePtr" where
  "FindNewTabAfterDrag s tabs =
     (if start_tabs s = [] then None else FindNewTabAfterDrag_loop (start_tabs s) tabs)"

text \<open>\<^verbatim>\<open>GetTabIndex\<close>: the loop over \<open>i\<close>, then the function.\<close>

fun GetTabIndex_from :: "int \<Rightarrow> NodePtr list \<Rightarrow> NodePtr \<Rightarrow> int" where
  "GetTabIndex_from i [] target_tab = - 1"
| "GetTabIndex_from i (t # tabs) target_tab =
     (if t = target_tab then i else GetTabIndex_from (i + 1) tabs target_tab)"

definition GetTabIndex :: "NodePtr list \<Rightarrow> NodePtr \<Rightarrow> int" where
  "GetTabIndex tabs target_tab =
     (if target_tab = None then - 1 else GetTabIndex_from 0 tabs target_tab)"

definition IsTabInList :: "NodePtr list \<Rightarrow> NodePtr \<Rightarrow> bool" where
  "IsTabInList tabs target_tab = (GetTabIndex tabs target_tab \<ge> 0)"

definition GetTabByIndex :: "NodePtr list \<Rightarrow> int \<Rightarrow> NodePtr" where
  "GetTabByIndex tabs index =
     (if index < 0 \<or> index \<ge> int (length tabs) then None else tabs ! nat index)"

definition GetMoveStepsToEnd :: "NodePtr list \<Rightarrow> NodePtr \<Rightarrow> int" where
  "GetMoveStepsToEnd tabs target_tab =
     (let index = GetTabIndex tabs target_tab in
      if index < 0 then 0
      else let last_index = int (length tabs) - 1 in
           if last_index > index then last_index - index else 0)"

definition ResolveRestoreTab :: "DragNewTabState \<Rightarrow> NodePtr list \<Rightarrow> NodePtr" where
  "ResolveRestoreTab s tabs =
     (if start_selected_tab s \<noteq> None \<and> GetTabIndex tabs (start_selected_tab s) \<ge> 0
      then tabs ! nat (GetTabIndex tabs (start_selected_tab s))
      else GetTabByIndex tabs (start_selected_index s))"

subsection \<open>Timers and commands\<close>

text \<open>
  The two timer procedures, as the values passed to \<^verbatim>\<open>SetTimer\<close>. An entry of the
  timer table is one outstanding timer of the operating system: its identifier, its period
  in milliseconds and the procedure it calls. \<^verbatim>\<open>SetTimer(nullptr, 0, ms, proc)\<close> makes a
  new timer under an identifier that was never used before (here the successor of the last
  one issued, so never 0) and \<^verbatim>\<open>KillTimer(nullptr, id)\<close> removes the timer of that
  identifier. A timer of the operating system is periodic: it stays in the table after it
  fires, until it is killed.
\<close>

datatype TIMERPROC = DragNewTabTimerProc_ptr | DragNewTabRestoreTimerProc_ptr

record Timer =
  timer_id :: nat
  timer_elapse :: nat
  timer_proc :: TIMERPROC

text \<open>
  What the engine sends to the host: \<^verbatim>\<open>SelectTab(tab)\<close> and
  \<^verbatim>\<open>ExecuteCommand(IDC_MOVE_TAB_NEXT, hwnd)\<close>.
\<close>

datatype Command = CmdSelectTab NodePtr | CmdMoveTabNext HWND

text \<open>
  The globals of the anonymous namespace that the engine uses, the timer table of the
  operating system and the log of the commands sent so far.
\<close>

record World =
  drag_new_tab_state :: DragNewTabState
  drag_new_tab_timer :: nat
  drag_new_tab_restore_timer :: nat
  drag_new_tab_restore_tab :: NodePtr
  drag_new_tab_restore_attempts :: int
  lbutton_down_point :: POINT
  os_timers :: "Timer list"
  os_last_timer_id :: nat
  issued :: "Command list"

definition KillTimer :: "nat \<Rightarrow> World \<Rightarrow> World" where
  "KillTimer tid w = w\<lparr>os_timers := filter (\<lambda>e. timer_id e \<noteq> tid) (os_timers w)\<rparr>"

text \<open>\<open>SetTimer\<close> returns the new identifier and the new world.\<close>

definition SetTimer :: "nat \<Rightarrow> TIMERPROC \<Rightarrow> World \<Rightarrow> nat \<times> World" where
  "SetTimer elapse callback w =
     (Suc (os_last_timer_id w),
      w\<lparr>os_timers := os_timers w @
            [\<lparr>timer_id = Suc (os_last_timer_id w), timer_elapse = elapse,
              timer_proc = callback\<rparr>],
        os_last_timer_id := Suc (os_last_timer_id w)\<rparr>)"

definition ExecuteCommand :: "Command \<Rightarrow> World \<Rightarrow> World" where
  "ExecuteCommand c w = w\<lparr>issued := issued w @ [c]\<rparr>"

text \<open>The initial values of the globals (the default member initialisers).\<close>

definition initial_state :: DragNewTabState where
  "initial_state =
     \<lparr>mode = 0, hwnd = None, drop_point = \<lparr>pt_x = - 1, pt_y = - 1\<rparr>, start_tab_count = 0,
      start_selected_tab = None, start_selected_index = - 1, start_tabs = [],
      check_attempts = 0, armed = False, pending = False\<rparr>"

definition initial_world :: World where
  "initial_world =
     \<lparr>drag_new_tab_state = initial_state, drag_new_tab_timer = 0,
      drag_new_tab_restore_timer = 0, drag_new_tab_restore_tab = None,
      drag_new_tab_restore_attempts = 0, lbutton_down_point = \<lparr>pt_x = - 1, pt_y = - 1\<rparr>,
      os_timers = [], os_last_timer_id = 0, issued = []\<rparr>"

subsection \<open>Reset, snapshot capture, restore queue\<close>

text \<open>
  The block \<^verbatim>\<open>if (drag_new_tab_restore_timer != 0) { KillTimer(nullptr,
  drag_new_tab_restore_timer); drag_new_tab_restore_timer = 0; }\<close>, which the source
  repeats in three functions, and the same block for the poll timer, which it repeats in
  two.
\<close>

definition kill_restore_timer :: "World \<Rightarrow> World" where
  "kill_restore_timer w =
     (if drag_new_tab_restore_timer w \<noteq> 0
      then (KillTimer (drag_new_tab_restore_timer w) w)\<lparr>drag_new_tab_restore_timer := 0\<rparr>
      else w)"

definition kill_poll_timer :: "World \<Rightarrow> World" where
  "kill_poll_timer w =
     (if drag_new_tab_timer w \<noteq> 0
      then (KillTimer (drag_new_tab_timer w) w)\<lparr>drag_new_tab_timer := 0\<rparr>
      else w)"

definition ResetDragNewTabState :: "World \<Rightarrow> World" where
  "ResetDragNewTabState w =
     (kill_restore_timer
        (w\<lparr>drag_new_tab_state := (drag_new_tab_state w)
            \<lparr>mode := 0, hwnd := None, drop_point := \<lparr>pt_x = - 1, pt_y = - 1\<rparr>,
             start_tab_count := 0, start_selected_tab := None,
             start_selected_index := - 1, start_tabs := [], check_attempts := 0,
             armed := False, pending := False\<rparr>\<rparr>))
       \<lparr>drag_new_tab_restore_tab := None, drag_new_tab_restore_attempts := 0\<rparr>"

text \<open>
  What the UI probe answers about one container when a snapshot is captured:
  \<^verbatim>\<open>GetTabCount\<close>, \<^verbatim>\<open>GetSelectedTab\<close> and \<^verbatim>\<open>GetTabs\<close>.
\<close>

record Snapshot =
  sn_tab_count :: int
  sn_selected_tab :: NodePtr
  sn_tabs :: "NodePtr list"

text \<open>
  \<^verbatim>\<open>InitDragNewTabState(hwnd, top_container_view)\<close>; \<open>cfg\<close> is what
  \<^verbatim>\<open>config.GetDragNewTabMode()\<close> returns. The result is the returned flag and the new
  world. The snapshot is stored before its emptiness is looked at.
\<close>

definition InitDragNewTabState ::
  "int \<Rightarrow> HWND \<Rightarrow> NodePtr \<Rightarrow> Snapshot \<Rightarrow> World \<Rightarrow> bool \<times> World" where
  "InitDragNewTabState cfg h top_container_view sn w =
     (if cfg \<noteq> 1 \<and> cfg \<noteq> 2 then (False, ResetDragNewTabState w)
      else if h = None \<or> top_container_view = None then (False, ResetDragNewTabState w)
      else (sn_tabs sn \<noteq> [],
            w\<lparr>drag_new_tab_state := (drag_new_tab_state w)
                \<lparr>mode := cfg, hwnd := h, start_tab_count := sn_tab_count sn,
                 start_selected_tab := sn_selected_tab sn, start_tabs := sn_tabs sn,
                 start_selected_index := GetTabIndex (sn_tabs sn) (sn_selected_tab sn)\<rparr>\<rparr>))"

text \<open>\<^verbatim>\<open>MoveSelectedTabToEnd\<close>: the loop sends one command per step.\<close>

primrec MoveSelectedTabToEnd_loop :: "nat \<Rightarrow> HWND \<Rightarrow> World \<Rightarrow> World" where
  "MoveSelectedTabToEnd_loop 0 h w = w"
| "MoveSelectedTabToEnd_loop (Suc n) h w =
     MoveSelectedTabToEnd_loop n h (ExecuteCommand (CmdMoveTabNext h) w)"

definition MoveSelectedTabToEnd :: "HWND \<Rightarrow> int \<Rightarrow> World \<Rightarrow> World" where
  "MoveSelectedTabToEnd h steps w =
     (if h = None \<or> steps \<le> 0 then w else MoveSelectedTabToEnd_loop (nat steps) h w)"

definition QueueDragNewTabRestore :: "NodePtr \<Rightarrow> World \<Rightarrow> World" where
  "QueueDragNewTabRestore tab w =
     (let w2 = (kill_restore_timer w)
                 \<lparr>drag_new_tab_restore_tab := None, drag_new_tab_restore_attempts := 0\<rparr>
      in if tab = None then w2
         else let w3 = w2\<lparr>drag_new_tab_restore_tab := tab,
                          drag_new_tab_restore_attempts := kDragNewTabRestoreAttempts\<rparr>;
                  r = SetTimer kDragNewTabCheckIntervalMs DragNewTabRestoreTimerProc_ptr w3
              in (snd r)\<lparr>drag_new_tab_restore_timer := fst r\<rparr>)"

subsection \<open>The restore timer procedure\<close>

text \<open>
  What the UI probe answers during one fire of the restore timer:
  \<^verbatim>\<open>GetTopContainerView(drag_new_tab_state.hwnd)\<close>, \<^verbatim>\<open>GetTabs\<close> and
  \<^verbatim>\<open>GetSelectedTab\<close>. The value \<^verbatim>\<open>SelectTab\<close> returns is not read there.
\<close>

record RestoreObs =
  ro_top_container_view :: NodePtr
  ro_tabs :: "NodePtr list"
  ro_selected_tab :: NodePtr

definition restore_timer_stop :: "nat \<Rightarrow> World \<Rightarrow> World" where
  "restore_timer_stop tid w =
     (KillTimer tid w)\<lparr>drag_new_tab_restore_timer := 0, drag_new_tab_restore_tab := None\<rparr>"

definition DragNewTabRestoreTimerProc :: "nat \<Rightarrow> RestoreObs \<Rightarrow> World \<Rightarrow> World" where
  "DragNewTabRestoreTimerProc tid ob w =
     (if drag_new_tab_restore_attempts w \<le> 0 then restore_timer_stop tid w
      else
        let w1 = w\<lparr>drag_new_tab_restore_attempts := drag_new_tab_restore_attempts w - 1\<rparr> in
        if hwnd (drag_new_tab_state w1) = None then restore_timer_stop tid w1
        else if ro_top_container_view ob = None then w1
        else
          let restore_tab = ResolveRestoreTab (drag_new_tab_state w1) (ro_tabs ob) in
          if restore_tab = None then w1
          else
            let w2 = (if ro_selected_tab ob = None \<or> ro_selected_tab ob \<noteq> restore_tab
                      then ExecuteCommand (CmdSelectTab restore_tab) w1 else w1)
            in if drag_new_tab_restore_attempts w2 \<le> 0 then restore_timer_stop tid w2
               else w2)"

subsection \<open>The poll timer procedure\<close>

text \<open>
  What the host answers during one fire of the poll timer, in the order of the calls:
  \<^verbatim>\<open>GetTopContainerView\<close>, \<^verbatim>\<open>GetTabs\<close>, \<^verbatim>\<open>GetSelectedTab\<close>; inside
  \<^verbatim>\<open>ensure_selected\<close> the value of \<^verbatim>\<open>SelectTab(new_tab)\<close> and the selection re-read
  after it; the tab list re-read after the moves.
\<close>

record PollObs =
  po_top_container_view :: NodePtr
  po_tabs :: "NodePtr list"
  po_selected_tab :: NodePtr
  po_select_result :: bool
  po_now_selected :: NodePtr
  po_tabs_after_move :: "NodePtr list"

text \<open>Lines 415 to 419: the new tab, with the fall-back to the selected tab.\<close>

definition poll_new_tab :: "DragNewTabState \<Rightarrow> PollObs \<Rightarrow> NodePtr" where
  "poll_new_tab s ob =
     (let new_tab = FindNewTabAfterDrag s (po_tabs ob) in
      if new_tab = None \<and> po_selected_tab ob \<noteq> None \<and>
         \<not> IsTabInList (start_tabs s) (po_selected_tab ob)
      then po_selected_tab ob else new_tab)"

text \<open>The lambda \<^verbatim>\<open>ensure_selected\<close>: its flag and the world after its command.\<close>

definition ensure_selected :: "PollObs \<Rightarrow> NodePtr \<Rightarrow> World \<Rightarrow> bool \<times> World" where
  "ensure_selected ob tab w =
     (if tab = None then (False, w)
      else if po_selected_tab ob \<noteq> None \<and> po_selected_tab ob = tab then (True, w)
      else if \<not> po_select_result ob then (False, ExecuteCommand (CmdSelectTab tab) w)
      else (po_now_selected ob \<noteq> None \<and> po_now_selected ob = tab,
            ExecuteCommand (CmdSelectTab tab) w))"

text \<open>The two places that set the poll timer again and return.\<close>

definition poll_reschedule :: "World \<Rightarrow> World" where
  "poll_reschedule w =
     (let r = SetTimer kDragNewTabCheckIntervalMs DragNewTabTimerProc_ptr w
      in (snd r)\<lparr>drag_new_tab_timer := fst r\<rparr>)"

text \<open>
  Lines 455 to 470, the terminal action: \<open>tabs\<close> is the tab list at that point,
  \<open>selected_tab\<close> the selection read at the start of the fire.
\<close>

definition poll_terminal ::
  "NodePtr list \<Rightarrow> NodePtr \<Rightarrow> NodePtr \<Rightarrow> bool \<Rightarrow> World \<Rightarrow> World" where
  "poll_terminal tabs selected_tab new_tab new_tab_selected w =
     (let w1 =
        (if mode (drag_new_tab_state w) = 2 then
           (let restore_tab = ResolveRestoreTab (drag_new_tab_state w) tabs in
            if restore_tab \<noteq> None \<and>
               (selected_tab = None \<or> selected_tab \<noteq> restore_tab \<or> new_tab_selected)
            then QueueDragNewTabRestore restore_tab
                   (ExecuteCommand (CmdSelectTab restore_tab) w)
            else w)
         else if \<not> new_tab_selected then ExecuteCommand (CmdSelectTab new_tab) w
         else w)
      in w1\<lparr>drag_new_tab_state := (drag_new_tab_state w1)
              \<lparr>pending := False, check_attempts := 0, start_tabs := [], armed := False\<rparr>\<rparr>)"

text \<open>Lines 427 to 470: from the computation of the move steps on.\<close>

definition poll_select_and_move :: "PollObs \<Rightarrow> NodePtr \<Rightarrow> World \<Rightarrow> World" where
  "poll_select_and_move ob new_tab w =
     (let move_steps = GetMoveStepsToEnd (po_tabs ob) new_tab;
          r = ensure_selected ob new_tab w;
          new_tab_selected = fst r;
          w1 = snd r
      in if \<not> new_tab_selected \<and> (move_steps > 0 \<or> mode (drag_new_tab_state w1) = 1)
         then poll_reschedule w1
         else if move_steps > 0 \<and> new_tab_selected
         then poll_terminal (po_tabs_after_move ob) (po_selected_tab ob) new_tab
                new_tab_selected
                (MoveSelectedTabToEnd (hwnd (drag_new_tab_state w1)) move_steps w1)
         else poll_terminal (po_tabs ob) (po_selected_tab ob) new_tab new_tab_selected w1)"

definition DragNewTabTimerProc :: "nat \<Rightarrow> PollObs \<Rightarrow> World \<Rightarrow> World" where
  "DragNewTabTimerProc tid ob w =
     (let w0 = (KillTimer tid w)\<lparr>drag_new_tab_timer := 0\<rparr> in
      if \<not> pending (drag_new_tab_state w0) then w0
      else if check_attempts (drag_new_tab_state w0) \<le> 0 then ResetDragNewTabState w0
      else
        let w1 = w0\<lparr>drag_new_tab_state := (drag_new_tab_state w0)
                    \<lparr>check_attempts := check_attempts (drag_new_tab_state w0) - 1\<rparr>\<rparr> in
        if mode (drag_new_tab_state w1) \<noteq> 1 \<and> mode (drag_new_tab_state w1) \<noteq> 2
        then ResetDragNewTabState w1
        else if po_top_container_view ob = None then ResetDragNewTabState w1
        else if start_tabs (drag_new_tab_state w1) = [] then ResetDragNewTabState w1
        else
          let new_tab = poll_new_tab (drag_new_tab_state w1) ob in
          if new_tab = None then poll_reschedule w1
          else poll_select_and_move ob new_tab w1)"

subsection \<open>Queueing a check, and the pointer events\<close>

text \<open>
  Lines 488 to 504 of \<^verbatim>\<open>QueueDragNewTabCheck\<close>: what the function does once a snapshot
  is bound.
\<close>

definition QueueDragNewTabCheck_commit :: "POINT \<Rightarrow> World \<Rightarrow> World" where
  "QueueDragNewTabCheck_commit pt w =
     (let w3 = kill_restore_timer w;
          w4 = w3\<lparr>drag_new_tab_restore_tab := None,
                  drag_new_tab_restore_attempts := 0,
                  drag_new_tab_state := (drag_new_tab_state w3)
                    \<lparr>drop_point := pt, pending := True,
                     check_attempts := kDragNewTabMaxAttempts\<rparr>\<rparr>
      in poll_reschedule (kill_poll_timer w4))"

text \<open>
  \<^verbatim>\<open>QueueDragNewTabCheck(hwnd, top_container_view, pt)\<close>; \<open>cfg\<close> is the configured mode
  and \<open>sn\<close> what the probe answers if a snapshot is captured.
\<close>

definition QueueDragNewTabCheck ::
  "int \<Rightarrow> HWND \<Rightarrow> NodePtr \<Rightarrow> POINT \<Rightarrow> Snapshot \<Rightarrow> World \<Rightarrow> World" where
  "QueueDragNewTabCheck cfg h top_container_view pt sn w =
     (if cfg \<noteq> 1 \<and> cfg \<noteq> 2 then ResetDragNewTabState w
      else
        let w1 = w\<lparr>drag_new_tab_state := (drag_new_tab_state w)\<lparr>mode := cfg\<rparr>\<rparr>;
            r = (if start_tabs (drag_new_tab_state w1) = [] \<or> hwnd (drag_new_tab_state w1) \<noteq> h
                 then InitDragNewTabState cfg h top_container_view sn w1
                 else (True, w1))
        in if \<not> fst r then snd r else QueueDragNewTabCheck_commit pt (snd r))"

text \<open>
  What one pointer event carries and what the probe and the system answer during it: the
  configured mode, \<^verbatim>\<open>IsPressed(VK_LBUTTON)\<close>, the point, the top window under it and its
  container view, \<^verbatim>\<open>IsOnTheTabBar\<close>, \<^verbatim>\<open>IsOnNewTabButton\<close>, the snapshot, and the drag
  thresholds of \<^verbatim>\<open>GetSystemMetrics\<close>.
\<close>

record MouseObs =
  mo_config_mode :: int
  mo_lbutton_pressed :: bool
  mo_pt :: POINT
  mo_hwnd :: HWND
  mo_top_container_view :: NodePtr
  mo_on_tab_bar :: bool
  mo_on_new_tab_button :: bool
  mo_snapshot :: Snapshot
  mo_drag_threshold_x :: int
  mo_drag_threshold_y :: int

definition IsDragNewTabEnabled :: "int \<Rightarrow> bool" where
  "IsDragNewTabEnabled cfg = (cfg = 1 \<or> cfg = 2)"

text \<open>
  \<^verbatim>\<open>HandleDrag\<close> computes on 32-bit \<^verbatim>\<open>int\<close>: the difference of two coordinates wraps
  around, and \<^verbatim>\<open>abs\<close> of the least value is that value again (negative), so that such a
  displacement does not count as a drag. \<open>int32\<close> is the value a 32-bit two's complement
  result has.
\<close>

definition int32 :: "int \<Rightarrow> int" where
  "int32 i = (i + 2147483648) mod 4294967296 - 2147483648"

definition abs32 :: "int \<Rightarrow> int" where
  "abs32 i = int32 (if i < 0 then - i else i)"

definition HandleDrag :: "POINT \<Rightarrow> MouseObs \<Rightarrow> bool" where
  "HandleDrag down_point mo =
     (if pt_x down_point < 0 \<or> pt_y down_point < 0 then False
      else
        let dx = int32 (pt_x (mo_pt mo) - pt_x down_point);
            dy = int32 (pt_y (mo_pt mo) - pt_y down_point)
        in abs32 dx > mo_drag_threshold_x mo \<or> abs32 dy > mo_drag_threshold_y mo)"

text \<open>The branch of \<^verbatim>\<open>MouseProc\<close> for \<^verbatim>\<open>WM_MOUSEMOVE\<close> and \<^verbatim>\<open>WM_NCMOUSEMOVE\<close> (arming).\<close>

definition MouseProc_MOUSEMOVE :: "MouseObs \<Rightarrow> World \<Rightarrow> World" where
  "MouseProc_MOUSEMOVE mo w =
     (if IsDragNewTabEnabled (mo_config_mode mo) \<and> mo_lbutton_pressed mo then
        (if mo_top_container_view mo \<noteq> None \<and> mo_on_tab_bar mo then
           (let w1 = w\<lparr>drag_new_tab_state := (drag_new_tab_state w)\<lparr>armed := True\<rparr>\<rparr> in
            if start_tabs (drag_new_tab_state w1) = [] \<or>
               hwnd (drag_new_tab_state w1) \<noteq> mo_hwnd mo
            then snd (InitDragNewTabState (mo_config_mode mo) (mo_hwnd mo)
                        (mo_top_container_view mo) (mo_snapshot mo) w1)
            else w1)
         else w)
      else w)"

text \<open>The branch for \<^verbatim>\<open>WM_LBUTTONDOWN\<close> (cancellation).\<close>

definition MouseProc_LBUTTONDOWN :: "POINT \<Rightarrow> World \<Rightarrow> World" where
  "MouseProc_LBUTTONDOWN pt w =
     (let w2 = kill_poll_timer
                 (w\<lparr>lbutton_down_point := pt,
                    drag_new_tab_state := (drag_new_tab_state w)\<lparr>armed := False\<rparr>\<rparr>)
      in w2\<lparr>drag_new_tab_state := (drag_new_tab_state w2)
              \<lparr>pending := False, check_attempts := 0, start_tabs := []\<rparr>\<rparr>)"

text \<open>
  The branch for \<^verbatim>\<open>WM_LBUTTONUP\<close> (drop detection). When the release does not queue a
  check the source goes on to \<^verbatim>\<open>HandleBookmark\<close>, which does not touch the engine.
\<close>

definition MouseProc_LBUTTONUP :: "MouseObs \<Rightarrow> World \<Rightarrow> World" where
  "MouseProc_LBUTTONUP mo w =
     (if IsDragNewTabEnabled (mo_config_mode mo) \<and>
         mo_top_container_view mo \<noteq> None \<and> mo_on_tab_bar mo \<and> \<not> mo_on_new_tab_button mo \<and>
         (armed (drag_new_tab_state w) \<or> HandleDrag (lbutton_down_point w) mo)
      then
        (let w1 = QueueDragNewTabCheck (mo_config_mode mo) (mo_hwnd mo)
                    (mo_top_container_view mo) (mo_pt mo) (mo_snapshot mo) w
         in w1\<lparr>drag_new_tab_state := (drag_new_tab_state w1)\<lparr>armed := False\<rparr>,
               lbutton_down_point := \<lparr>pt_x = - 1, pt_y = - 1\<rparr>\<rparr>)
      else w\<lparr>drag_new_tab_state := (drag_new_tab_state w)\<lparr>armed := False\<rparr>,
             lbutton_down_point := \<lparr>pt_x = - 1, pt_y = - 1\<rparr>\<rparr>)"

subsection \<open>Entry points as events\<close>

text \<open>
  The entry points of the engine, delivered one at a time: arming, cancellation, drop, a
  fire of the poll timer and a fire of the restore timer. The system calls a timer
  procedure only for a timer that is outstanding and was set with that procedure; the
  identifier it passes is the one of that timer.
\<close>

datatype Event =
    EvMouseMove MouseObs
  | EvLButtonDown POINT
  | EvLButtonUp MouseObs
  | EvPollFire nat PollObs
  | EvRestoreFire nat RestoreObs

definition timer_outstanding :: "TIMERPROC \<Rightarrow> nat \<Rightarrow> World \<Rightarrow> bool" where
  "timer_outstanding callback tid w =
     list_ex (\<lambda>e. timer_id e = tid \<and> timer_proc e = callback) (os_timers w)"

fun enabled :: "Event \<Rightarrow> World \<Rightarrow> bool" where
  "enabled (EvPollFire tid ob) w = timer_outstanding DragNewTabTimerProc_ptr tid w"
| "enabled (EvRestoreFire tid ob) w = timer_outstanding DragNewTabRestoreTimerProc_ptr tid w"
| "enabled ev w = True"

fun step :: "Event \<Rightarrow> World \<Rightarrow> World" where
  "step (EvMouseMove mo) w = MouseProc_MOUSEMOVE mo w"
| "step (EvLButtonDown pt) w = MouseProc_LBUTTONDOWN pt w"
| "step (EvLButtonUp mo) w = MouseProc_LBUTTONUP mo w"
| "step (EvPollFire tid ob) w = DragNewTabTimerProc tid ob w"
| "step (EvRestoreFire tid ob) w = DragNewTabRestoreTimerProc tid ob w"

text \<open>Running a sequence of events, and whether each one could be delivered.\<close>

fun run :: "Event list \<Rightarrow> World \<Rightarrow> World" where
  "run [] w = w"
| "run (ev # evs) w = run evs (step ev w)"

fun deliverable :: "Event list \<Rightarrow> World \<Rightarrow> bool" where
  "deliverable [] w = True"
| "deliverable (ev # evs) w = (enabled ev w \<and> deliverable evs (step ev w))"

text \<open>
  The poll loop: as long as a poll timer is outstanding the system fires it, and the
  host's answers of the successive fires are the elements of the list. The second function
  counts the fires that leave a poll timer outstanding (the reschedules).
\<close>

fun poll_fires :: "PollObs list \<Rightarrow> World \<Rightarrow> World" where
  "poll_fires [] w = w"
| "poll_fires (ob # obs) w =
     (if drag_new_tab_timer w = 0 then w
      else poll_fires obs (DragNewTabTimerProc (drag_new_tab_timer w) ob w))"

fun poll_reschedules :: "PollObs list \<Rightarrow> World \<Rightarrow> nat" where
  "poll_reschedules [] w = 0"
| "poll_reschedules (ob # obs) w =
     (if drag_new_tab_timer w = 0 then 0
      else (if drag_new_tab_timer (DragNewTabTimerProc (drag_new_tab_timer w) ob w) = 0
            then 0 else 1)
           + poll_reschedules obs (DragNewTabTimerProc (drag_new_tab_timer w) ob w))"

text \<open>The same for the restore timer; the count is the number of fires that ran.\<close>

fun restore_fires :: "RestoreObs list \<Rightarrow> World \<Rightarrow> World" where
  "restore_fires [] w = w"
| "restore_fires (ob # obs) w =
     (if drag_new_tab_restore_timer w = 0 then w
      else restore_fires obs
             (DragNewTabRestoreTimerProc (drag_new_tab_restore_timer w) ob w))"

fun restore_fire_count :: "RestoreObs list \<Rightarrow> World \<Rightarrow> nat" where
  "restore_fire_count [] w = 0"
| "restore_fire_count (ob # obs) w =
     (if drag_new_tab_restore_timer w = 0 then 0
      else 1 + restore_fire_count obs
                 (DragNewTabRestoreTimerProc (drag_new_tab_restore_timer w) ob w))"

subsection \<open>Notions used in the statements\<close>

text \<open>
  The world in which the poll timer procedure polls the host: the fired timer is killed,
  the handle is cleared and one attempt is consumed.
\<close>

definition poll_w1 :: "nat \<Rightarrow> World \<Rightarrow> World" where
  "poll_w1 tid w = (KillTimer tid w)\<lparr>drag_new_tab_timer := 0,
       drag_new_tab_state := (drag_new_tab_state w)
         \<lparr>check_attempts := check_attempts (drag_new_tab_state w) - 1\<rparr>\<rparr>"

text \<open>
  A poll that shows no new tab: the container is found, every tab of the current list is
  in the start snapshot, and the selected tab (if any) is in the start snapshot too.
\<close>

definition no_new_tab :: "DragNewTabState \<Rightarrow> PollObs \<Rightarrow> bool" where
  "no_new_tab s ob =
     (po_top_container_view ob \<noteq> None \<and> set (po_tabs ob) \<subseteq> set (start_tabs s) \<and>
      (po_selected_tab ob = None \<or> po_selected_tab ob \<in> set (start_tabs s)))"

text \<open>A poll timer is scheduled: the handle names an outstanding 80 ms poll timer.\<close>

definition poll_timer_set :: "World \<Rightarrow> bool" where
  "poll_timer_set w =
     (drag_new_tab_timer w \<noteq> 0 \<and>
      \<lparr>timer_id = drag_new_tab_timer w, timer_elapse = 80,
       timer_proc = DragNewTabTimerProc_ptr\<rparr> \<in> set (os_timers w))"

text \<open>The identifiers of the outstanding timers of one procedure.\<close>

definition timers_of :: "TIMERPROC \<Rightarrow> World \<Rightarrow> nat list" where
  "timers_of callback w =
     map timer_id (filter (\<lambda>e. timer_proc e = callback) (os_timers w))"

text \<open>
  The handles track the timers: the outstanding poll timers are exactly the one the global
  \<^verbatim>\<open>drag_new_tab_timer\<close> names (none when it is 0), the same for the restore timer,
  the two handles differ, and both were issued by \<^verbatim>\<open>SetTimer\<close>.
\<close>

definition handle_ids :: "nat \<Rightarrow> nat list" where
  "handle_ids h = (if h = 0 then [] else [h])"

definition timers_tracked :: "World \<Rightarrow> bool" where
  "timers_tracked w =
     (timers_of DragNewTabTimerProc_ptr w = handle_ids (drag_new_tab_timer w) \<and>
      timers_of DragNewTabRestoreTimerProc_ptr w = handle_ids (drag_new_tab_restore_timer w) \<and>
      (drag_new_tab_timer w = 0 \<or> drag_new_tab_timer w \<noteq> drag_new_tab_restore_timer w) \<and>
      drag_new_tab_timer w \<le> os_last_timer_id w \<and>
      drag_new_tab_restore_timer w \<le> os_last_timer_id w)"

text \<open>
  A fire of the restore timer stops the timer: the attempts are exhausted when it starts,
  or the session has no window handle, or it runs to its end with its last attempt.
\<close>

definition restore_fire_stops :: "RestoreObs \<Rightarrow> World \<Rightarrow> bool" where
  "restore_fire_stops ro w =
     (drag_new_tab_restore_attempts w \<le> 0 \<or> hwnd (drag_new_tab_state w) = None \<or>
      (ro_top_container_view ro \<noteq> None \<and>
       ResolveRestoreTab (drag_new_tab_state w) (ro_tabs ro) \<noteq> None \<and>
       drag_new_tab_restore_attempts w \<le> 1))"

text \<open>The invariant of the data model: a pending session has a start snapshot.\<close>

definition pending_has_snapshot :: "World \<Rightarrow> bool" where
  "pending_has_snapshot w =
     (pending (drag_new_tab_state w) \<longrightarrow> start_tabs (drag_new_tab_state w) \<noteq> [])"

text \<open>
  The tab list the probe reports during a pointer event, which becomes the start snapshot
  if one is captured, is not empty.
\<close>

fun captures_tabs :: "Event \<Rightarrow> bool" where
  "captures_tabs (EvMouseMove mo) = (sn_tabs (mo_snapshot mo) \<noteq> [])"
| "captures_tabs (EvLButtonUp mo) = (sn_tabs (mo_snapshot mo) \<noteq> [])"
| "captures_tabs ev = True"

text \<open>
  The same, asked only of the pointer events that are delivered while a session is pending:
  an event delivered to a world with no pending session may see any tab list.
\<close>

fun captures_while_pending :: "Event list \<Rightarrow> World \<Rightarrow> bool" where
  "captures_while_pending [] w = True"
| "captures_while_pending (ev # evs) w =
     ((pending (drag_new_tab_state w) \<longrightarrow> captures_tabs ev) \<and>
      captures_while_pending evs (step ev w))"

text \<open>
  Two more invariants of the session: a pending session has a recorded mode of 1 or 2, and
  a session with a start snapshot or an outstanding restore timer has a window handle.
\<close>

definition pending_mode_enabled :: "World \<Rightarrow> bool" where
  "pending_mode_enabled w =
     (pending (drag_new_tab_state w) \<longrightarrow>
        mode (drag_new_tab_state w) = 1 \<or> mode (drag_new_tab_state w) = 2)"

definition session_bound :: "World \<Rightarrow> bool" where
  "session_bound w =
     (start_tabs (drag_new_tab_state w) \<noteq> [] \<or> drag_new_tab_restore_timer w \<noteq> 0 \<longrightarrow>
        hwnd (drag_new_tab_state w) \<noteq> None)"

text \<open>The move commands among a list of commands.\<close>

fun is_move :: "Command \<Rightarrow> bool" where
  "is_move (CmdMoveTabNext h) = True"
| "is_move (CmdSelectTab t) = False"

subsection \<open>Example scenario\<close>

text \<open>
  The scenario of the specification: tabs \<open>A = 1\<close>, \<open>B = 2\<close>, \<open>C = 3\<close> with \<open>B\<close>
  selected, in the window 100 whose container view is the node 50; \<open>D = 4\<close> is the tab the
  drag creates. The pointer goes down at (100, 10) and is released at (300, 10) on the tab
  strip, which queues a check in the configured mode \<open>m\<close>.
\<close>

definition ex_drop :: "int \<Rightarrow> MouseObs" where
  "ex_drop m =
     \<lparr>mo_config_mode = m, mo_lbutton_pressed = False, mo_pt = \<lparr>pt_x = 300, pt_y = 10\<rparr>,
      mo_hwnd = Some 100, mo_top_container_view = Some 50, mo_on_tab_bar = True,
      mo_on_new_tab_button = False,
      mo_snapshot = \<lparr>sn_tab_count = 3, sn_selected_tab = Some 2,
                     sn_tabs = [Some 1, Some 2, Some 3]\<rparr>,
      mo_drag_threshold_x = 4, mo_drag_threshold_y = 4\<rparr>"

definition ex_queued :: "int \<Rightarrow> World" where
  "ex_queued m = run [EvLButtonDown \<lparr>pt_x = 100, pt_y = 10\<rparr>, EvLButtonUp (ex_drop m)]
     initial_world"

text \<open>A poll that still sees the three old tabs, and polls that see the new tab \<open>D\<close>.\<close>

definition ex_poll_none :: PollObs where
  "ex_poll_none =
     \<lparr>po_top_container_view = Some 50, po_tabs = [Some 1, Some 2, Some 3],
      po_selected_tab = Some 2, po_select_result = True, po_now_selected = Some 2,
      po_tabs_after_move = []\<rparr>"

definition ex_poll_select_fails :: PollObs where
  "ex_poll_select_fails =
     \<lparr>po_top_container_view = Some 50, po_tabs = [Some 1, Some 3, Some 4],
      po_selected_tab = Some 1, po_select_result = False, po_now_selected = Some 1,
      po_tabs_after_move = [Some 1, Some 3, Some 4]\<rparr>"

definition ex_poll_front :: PollObs where
  "ex_poll_front =
     \<lparr>po_top_container_view = Some 50, po_tabs = [Some 4, Some 1, Some 3],
      po_selected_tab = Some 4, po_select_result = True, po_now_selected = Some 4,
      po_tabs_after_move = [Some 1, Some 3, Some 4]\<rparr>"

text \<open>A fire of the restore timer that finds \<open>D\<close> still selected.\<close>

definition ex_restore_obs :: RestoreObs where
  "ex_restore_obs =
     \<lparr>ro_top_container_view = Some 50, ro_tabs = [Some 1, Some 3, Some 4],
      ro_selected_tab = Some 4\<rparr>"

text \<open>
  The world after the first poll of the session queued in mode 2 has found \<open>D\<close> in
  front and selected: two moves, the restore target \<open>C\<close> selected, the restore timer set.
\<close>

definition ex_moved :: World where
  "ex_moved = DragNewTabTimerProc 1 ex_poll_front (ex_queued 2)"


definition ex_restore_lost :: RestoreObs where
  "ex_restore_lost = \<lparr>ro_top_container_view = None, ro_tabs = [], ro_selected_tab = None\<rparr>"

text \<open>The same drop while the probe reports no tab at all for the container.\<close>

definition ex_drop_empty :: MouseObs where
  "ex_drop_empty =
     (ex_drop 1)\<lparr>mo_snapshot := \<lparr>sn_tab_count = 0, sn_selected_tab = None, sn_tabs = []\<rparr>\<rparr>"

text \<open>
  A pointer move with the button held over the tab strip of another window (200, container
  view 60) for which the probe reports no tab.
\<close>

definition ex_move_empty :: MouseObs where
  "ex_move_empty =
     \<lparr>mo_config_mode = 1, mo_lbutton_pressed = True, mo_pt = \<lparr>pt_x = 900, pt_y = 10\<rparr>,
      mo_hwnd = Some 200, mo_top_container_view = Some 60, mo_on_tab_bar = True,
      mo_on_new_tab_button = False,
      mo_snapshot = \<lparr>sn_tab_count = 0, sn_selected_tab = None, sn_tabs = []\<rparr>,
      mo_drag_threshold_x = 4, mo_drag_threshold_y = 4\<rparr>"

subsection \<open>Facts about the snapshot helpers\<close>

lemma existed_iff: "existed olds tab \<longleftrightarrow> tab \<in> set olds"
  by (induction olds) auto

lemma FindNewTabAfterDrag_loop_all_old:
  "set tabs \<subseteq> set olds \<Longrightarrow> FindNewTabAfterDrag_loop olds tabs = None"
  by (induction tabs) (auto simp: existed_iff)

lemma FindNewTabAfterDrag_loop_skip:
  "set pre \<subseteq> set olds \<Longrightarrow>
   FindNewTabAfterDrag_loop olds (pre @ rest) = FindNewTabAfterDrag_loop olds rest"
  by (induction pre) (auto simp: existed_iff)

lemma GetTabIndex_from_bounds:
  "GetTabIndex_from i tabs t = - 1 \<or>
   (i \<le> GetTabIndex_from i tabs t \<and> GetTabIndex_from i tabs t < i + int (length tabs))"
  by (induction i tabs t rule: GetTabIndex_from.induct) auto

lemma GetTabIndex_from_found:
  "0 \<le> i \<Longrightarrow> t \<in> set tabs \<Longrightarrow>
   i \<le> GetTabIndex_from i tabs t \<and> GetTabIndex_from i tabs t < i + int (length tabs) \<and>
   tabs ! nat (GetTabIndex_from i tabs t - i) = t"
proof (induction i tabs t rule: GetTabIndex_from.induct)
  case (1 i target_tab)
  then show ?case by simp
next
  case (2 i t tabs target_tab)
  show ?case
  proof (cases "t = target_tab")
    case True
    then show ?thesis by simp
  next
    case False
    with 2 have mem: "target_tab \<in> set tabs" and i1: "0 \<le> i + 1" by auto
    from "2.IH"[OF False i1 mem]
    have lo: "i + 1 \<le> GetTabIndex_from (i + 1) tabs target_tab"
      and hi: "GetTabIndex_from (i + 1) tabs target_tab < i + 1 + int (length tabs)"
      and at: "tabs ! nat (GetTabIndex_from (i + 1) tabs target_tab - (i + 1)) = target_tab"
      by auto
    have "nat (GetTabIndex_from (i + 1) tabs target_tab - i)
            = Suc (nat (GetTabIndex_from (i + 1) tabs target_tab - (i + 1)))"
      using lo by simp
    with False lo hi at show ?thesis by simp
  qed
qed

lemma GetTabIndex_from_missing:
  "t \<notin> set tabs \<Longrightarrow> GetTabIndex_from i tabs t = - 1"
  by (induction i tabs t rule: GetTabIndex_from.induct) auto

lemma GetTabIndex_found:
  "t \<noteq> None \<Longrightarrow> t \<in> set tabs \<Longrightarrow>
   0 \<le> GetTabIndex tabs t \<and> GetTabIndex tabs t < int (length tabs) \<and>
   tabs ! nat (GetTabIndex tabs t) = t"
  using GetTabIndex_from_found[of 0 t tabs] by (simp add: GetTabIndex_def)

lemma GetTabIndex_missing: "t \<notin> set tabs \<Longrightarrow> GetTabIndex tabs t = - 1"
  by (simp add: GetTabIndex_def GetTabIndex_from_missing)

lemma IsTabInList_iff: "IsTabInList tabs t \<longleftrightarrow> t \<noteq> None \<and> t \<in> set tabs"
proof (cases "t \<noteq> None \<and> t \<in> set tabs")
  case True
  then show ?thesis using GetTabIndex_found[of t tabs] by (simp add: IsTabInList_def)
next
  case False
  then have "GetTabIndex tabs t = - 1"
    by (auto simp: GetTabIndex_def GetTabIndex_from_missing)
  with False show ?thesis by (simp add: IsTabInList_def)
qed

subsection \<open>Claim C1\<close>

text \<open>
  C1. For every non-empty start snapshot \<open>S\<close> and every current tab list \<open>L\<close> obtained
  from \<open>S\<close> by inserting one tab identity that is not in \<open>S\<close>, at any position \<open>i\<close>,
  \<^verbatim>\<open>FindNewTabAfterDrag\<close> run on \<open>L\<close> against the snapshot \<open>S\<close> returns exactly the
  inserted identity.
\<close>

theorem FindNewTabAfterDrag_inserted:
  assumes "start_tabs s \<noteq> []"
    and "Some t \<notin> set (start_tabs s)"
    and "i \<le> length (start_tabs s)"
  shows "FindNewTabAfterDrag s (take i (start_tabs s) @ Some t # drop i (start_tabs s)) = Some t"
proof -
  have "set (take i (start_tabs s)) \<subseteq> set (start_tabs s)"
    by (rule set_take_subset)
  then have "FindNewTabAfterDrag_loop (start_tabs s)
               (take i (start_tabs s) @ Some t # drop i (start_tabs s))
             = FindNewTabAfterDrag_loop (start_tabs s) (Some t # drop i (start_tabs s))"
    by (rule FindNewTabAfterDrag_loop_skip)
  also have "\<dots> = Some t"
    using assms(2) by (simp add: existed_iff)
  finally show ?thesis
    using assms(1) by (simp add: FindNewTabAfterDrag_def)
qed

theorem FindNewTabAfterDrag_inserted_witness:
  "FindNewTabAfterDrag (initial_state\<lparr>start_tabs := [Some 1, Some 2]\<rparr>)
     [Some 1, Some 3, Some 2] = Some 3
   \<and> FindNewTabAfterDrag (initial_state\<lparr>start_tabs := [Some 1, Some 2]\<rparr>)
     [Some 1, Some 2, Some 3] = Some 3"
  using FindNewTabAfterDrag_inserted[of "initial_state\<lparr>start_tabs := [Some 1, Some 2]\<rparr>" 3 1]
    FindNewTabAfterDrag_inserted[of "initial_state\<lparr>start_tabs := [Some 1, Some 2]\<rparr>" 3 2]
  by simp

subsection \<open>Claim C5\<close>

text \<open>
  C5. The restore target that the terminal action of mode 2 (move to end and restore the
  selection) resolves with \<^verbatim>\<open>ResolveRestoreTab\<close> is the tab that was selected at the
  start whenever that identity is still in the current tab list; otherwise it is the tab
  now at the index the selected tab had at the start, and none (\<^verbatim>\<open>nullptr\<close>) when that
  index is outside the list.
\<close>

theorem ResolveRestoreTab_target:
  "ResolveRestoreTab s tabs =
     (if start_selected_tab s \<noteq> None \<and> start_selected_tab s \<in> set tabs
      then start_selected_tab s
      else if 0 \<le> start_selected_index s \<and> start_selected_index s < int (length tabs)
      then tabs ! nat (start_selected_index s)
      else None)"
proof (cases "start_selected_tab s \<noteq> None \<and> start_selected_tab s \<in> set tabs")
  case True
  then show ?thesis
    using GetTabIndex_found[of "start_selected_tab s" tabs]
    by (simp add: ResolveRestoreTab_def)
next
  case False
  then have "start_selected_tab s = None \<or> GetTabIndex tabs (start_selected_tab s) = - 1"
    using GetTabIndex_missing[of "start_selected_tab s" tabs] by blast
  with False show ?thesis
    by (auto simp: ResolveRestoreTab_def GetTabByIndex_def)
qed

theorem ResolveRestoreTab_target_witness:
  "ResolveRestoreTab
     (initial_state\<lparr>start_selected_tab := Some 2, start_selected_index := 1\<rparr>)
     [Some 4, Some 1, Some 2] = Some 2
   \<and> ResolveRestoreTab
     (initial_state\<lparr>start_selected_tab := Some 2, start_selected_index := 1\<rparr>)
     [Some 1, Some 3, Some 4] = Some 3
   \<and> ResolveRestoreTab
     (initial_state\<lparr>start_selected_tab := Some 2, start_selected_index := 1\<rparr>)
     [Some 4] = None"
  using
    ResolveRestoreTab_target[of
      "initial_state\<lparr>start_selected_tab := Some 2, start_selected_index := 1\<rparr>"
      "[Some 4, Some 1, Some 2]"]
    ResolveRestoreTab_target[of
      "initial_state\<lparr>start_selected_tab := Some 2, start_selected_index := 1\<rparr>"
      "[Some 1, Some 3, Some 4]"]
    ResolveRestoreTab_target[of
      "initial_state\<lparr>start_selected_tab := Some 2, start_selected_index := 1\<rparr>"
      "[Some 4]"]
  by (simp add: initial_state_def)

subsection \<open>Facts about the operations on the world\<close>

lemmas prim_defs = KillTimer_def SetTimer_def ExecuteCommand_def restore_timer_stop_def
  poll_reschedule_def kDragNewTabCheckIntervalMs_def kill_restore_timer_def
  kill_poll_timer_def

lemma ResetDragNewTabState_state [simp]:
  "drag_new_tab_state (ResetDragNewTabState w) = initial_state"
  by (simp add: ResetDragNewTabState_def initial_state_def prim_defs)

lemma ResetDragNewTabState_fields [simp]:
  "issued (ResetDragNewTabState w) = issued w"
  "drag_new_tab_timer (ResetDragNewTabState w) = drag_new_tab_timer w"
  "drag_new_tab_restore_timer (ResetDragNewTabState w) = 0"
  "drag_new_tab_restore_tab (ResetDragNewTabState w) = None"
  "drag_new_tab_restore_attempts (ResetDragNewTabState w) = 0"
  "os_last_timer_id (ResetDragNewTabState w) = os_last_timer_id w"
  "lbutton_down_point (ResetDragNewTabState w) = lbutton_down_point w"
  by (simp_all add: ResetDragNewTabState_def prim_defs)

lemma ResetDragNewTabState_timers:
  "os_timers (ResetDragNewTabState w) =
     (if drag_new_tab_restore_timer w \<noteq> 0
      then filter (\<lambda>e. timer_id e \<noteq> drag_new_tab_restore_timer w) (os_timers w)
      else os_timers w)"
  by (simp add: ResetDragNewTabState_def prim_defs)

lemma MoveSelectedTabToEnd_loop_fields [simp]:
  "drag_new_tab_state (MoveSelectedTabToEnd_loop n h w) = drag_new_tab_state w"
  "drag_new_tab_timer (MoveSelectedTabToEnd_loop n h w) = drag_new_tab_timer w"
  "drag_new_tab_restore_timer (MoveSelectedTabToEnd_loop n h w) = drag_new_tab_restore_timer w"
  "drag_new_tab_restore_tab (MoveSelectedTabToEnd_loop n h w) = drag_new_tab_restore_tab w"
  "drag_new_tab_restore_attempts (MoveSelectedTabToEnd_loop n h w)
     = drag_new_tab_restore_attempts w"
  "lbutton_down_point (MoveSelectedTabToEnd_loop n h w) = lbutton_down_point w"
  "os_timers (MoveSelectedTabToEnd_loop n h w) = os_timers w"
  "os_last_timer_id (MoveSelectedTabToEnd_loop n h w) = os_last_timer_id w"
  "issued (MoveSelectedTabToEnd_loop n h w) = issued w @ replicate n (CmdMoveTabNext h)"
  by (induction n arbitrary: w; simp add: ExecuteCommand_def replicate_app_Cons_same)+

lemma MoveSelectedTabToEnd_fields [simp]:
  "drag_new_tab_state (MoveSelectedTabToEnd h k w) = drag_new_tab_state w"
  "drag_new_tab_timer (MoveSelectedTabToEnd h k w) = drag_new_tab_timer w"
  "drag_new_tab_restore_timer (MoveSelectedTabToEnd h k w) = drag_new_tab_restore_timer w"
  "drag_new_tab_restore_tab (MoveSelectedTabToEnd h k w) = drag_new_tab_restore_tab w"
  "drag_new_tab_restore_attempts (MoveSelectedTabToEnd h k w)
     = drag_new_tab_restore_attempts w"
  "lbutton_down_point (MoveSelectedTabToEnd h k w) = lbutton_down_point w"
  "os_timers (MoveSelectedTabToEnd h k w) = os_timers w"
  "os_last_timer_id (MoveSelectedTabToEnd h k w) = os_last_timer_id w"
  by (simp_all add: MoveSelectedTabToEnd_def)

lemma MoveSelectedTabToEnd_issued:
  "issued (MoveSelectedTabToEnd h k w) =
     issued w @ (if h = None \<or> k \<le> 0 then [] else replicate (nat k) (CmdMoveTabNext h))"
  by (simp add: MoveSelectedTabToEnd_def)

lemma QueueDragNewTabRestore_fields [simp]:
  "drag_new_tab_state (QueueDragNewTabRestore tab w) = drag_new_tab_state w"
  "drag_new_tab_timer (QueueDragNewTabRestore tab w) = drag_new_tab_timer w"
  "lbutton_down_point (QueueDragNewTabRestore tab w) = lbutton_down_point w"
  "issued (QueueDragNewTabRestore tab w) = issued w"
  "drag_new_tab_restore_tab (QueueDragNewTabRestore tab w) = tab"
  by (simp_all add: QueueDragNewTabRestore_def prim_defs Let_def)

lemma QueueDragNewTabRestore_some:
  "tab \<noteq> None \<Longrightarrow>
   drag_new_tab_restore_attempts (QueueDragNewTabRestore tab w) = kDragNewTabRestoreAttempts \<and>
   drag_new_tab_restore_timer (QueueDragNewTabRestore tab w) = Suc (os_last_timer_id w) \<and>
   os_last_timer_id (QueueDragNewTabRestore tab w) = Suc (os_last_timer_id w) \<and>
   os_timers (QueueDragNewTabRestore tab w) =
     filter (\<lambda>e. drag_new_tab_restore_timer w = 0 \<or> timer_id e \<noteq> drag_new_tab_restore_timer w)
       (os_timers w)
     @ [\<lparr>timer_id = Suc (os_last_timer_id w), timer_elapse = 80,
         timer_proc = DragNewTabRestoreTimerProc_ptr\<rparr>]"
  by (simp add: QueueDragNewTabRestore_def prim_defs Let_def)

lemma ensure_selected_fst:
  "fst (ensure_selected ob tab w) \<longleftrightarrow>
     tab \<noteq> None \<and> (po_selected_tab ob = tab \<or> (po_select_result ob \<and> po_now_selected ob = tab))"
  by (auto simp: ensure_selected_def)

lemma ensure_selected_snd:
  "snd (ensure_selected ob tab w) =
     (if tab = None \<or> po_selected_tab ob = tab then w
      else ExecuteCommand (CmdSelectTab tab) w)"
  by (auto simp: ensure_selected_def)

lemma poll_terminal_state [simp]:
  "drag_new_tab_state (poll_terminal tabs sel nt b w) =
     (drag_new_tab_state w)
       \<lparr>pending := False, check_attempts := 0, start_tabs := [], armed := False\<rparr>"
  by (simp add: poll_terminal_def Let_def ExecuteCommand_def)

lemma poll_terminal_fields [simp]:
  "drag_new_tab_timer (poll_terminal tabs sel nt b w) = drag_new_tab_timer w"
  "lbutton_down_point (poll_terminal tabs sel nt b w) = lbutton_down_point w"
  by (simp_all add: poll_terminal_def Let_def ExecuteCommand_def)

lemma poll_new_tab_cong [simp]:
  "poll_new_tab (s\<lparr>check_attempts := n\<rparr>) ob = poll_new_tab s ob"
  by (auto simp: poll_new_tab_def FindNewTabAfterDrag_def Let_def)

lemma ResolveRestoreTab_cong [simp]:
  "ResolveRestoreTab (s\<lparr>check_attempts := n\<rparr>) tabs = ResolveRestoreTab s tabs"
  "ResolveRestoreTab (s\<lparr>pending := p\<rparr>) tabs = ResolveRestoreTab s tabs"
  "ResolveRestoreTab (s\<lparr>armed := a\<rparr>) tabs = ResolveRestoreTab s tabs"
  "ResolveRestoreTab (s\<lparr>start_tabs := ts\<rparr>) tabs = ResolveRestoreTab s tabs"
  by (simp_all add: ResolveRestoreTab_def)

lemma DragNewTabTimerProc_polling:
  assumes "pending (drag_new_tab_state w)" and "0 < check_attempts (drag_new_tab_state w)"
    and "mode (drag_new_tab_state w) = 1 \<or> mode (drag_new_tab_state w) = 2"
    and "po_top_container_view ob \<noteq> None" and "start_tabs (drag_new_tab_state w) \<noteq> []"
  shows "DragNewTabTimerProc tid ob w =
     (if poll_new_tab (drag_new_tab_state w) ob = None then poll_reschedule (poll_w1 tid w)
      else poll_select_and_move ob (poll_new_tab (drag_new_tab_state w) ob) (poll_w1 tid w))"
  using assms by (auto simp: DragNewTabTimerProc_def Let_def KillTimer_def poll_w1_def)

subsection \<open>Facts about one fire of the poll timer and about the poll loop\<close>

lemma poll_reschedule_fields [simp]:
  "drag_new_tab_state (poll_reschedule w) = drag_new_tab_state w"
  "drag_new_tab_timer (poll_reschedule w) = Suc (os_last_timer_id w)"
  "drag_new_tab_restore_timer (poll_reschedule w) = drag_new_tab_restore_timer w"
  "drag_new_tab_restore_tab (poll_reschedule w) = drag_new_tab_restore_tab w"
  "drag_new_tab_restore_attempts (poll_reschedule w) = drag_new_tab_restore_attempts w"
  "lbutton_down_point (poll_reschedule w) = lbutton_down_point w"
  "issued (poll_reschedule w) = issued w"
  "os_last_timer_id (poll_reschedule w) = Suc (os_last_timer_id w)"
  "os_timers (poll_reschedule w) = os_timers w @
     [\<lparr>timer_id = Suc (os_last_timer_id w), timer_elapse = 80,
       timer_proc = DragNewTabTimerProc_ptr\<rparr>]"
  by (simp_all add: prim_defs Let_def)

lemma poll_reschedule_set [simp]: "poll_timer_set (poll_reschedule w)"
  by (simp add: poll_timer_set_def)

lemma poll_w1_fields [simp]:
  "drag_new_tab_state (poll_w1 tid w) =
     (drag_new_tab_state w)\<lparr>check_attempts := check_attempts (drag_new_tab_state w) - 1\<rparr>"
  "drag_new_tab_timer (poll_w1 tid w) = 0"
  "drag_new_tab_restore_timer (poll_w1 tid w) = drag_new_tab_restore_timer w"
  "drag_new_tab_restore_tab (poll_w1 tid w) = drag_new_tab_restore_tab w"
  "drag_new_tab_restore_attempts (poll_w1 tid w) = drag_new_tab_restore_attempts w"
  "lbutton_down_point (poll_w1 tid w) = lbutton_down_point w"
  "issued (poll_w1 tid w) = issued w"
  "os_last_timer_id (poll_w1 tid w) = os_last_timer_id w"
  "os_timers (poll_w1 tid w) = filter (\<lambda>e. timer_id e \<noteq> tid) (os_timers w)"
  by (simp_all add: poll_w1_def prim_defs)

lemma no_new_tab_poll_new_tab:
  "no_new_tab s ob \<Longrightarrow> poll_new_tab s ob = None"
  by (auto simp: no_new_tab_def poll_new_tab_def FindNewTabAfterDrag_def Let_def
      FindNewTabAfterDrag_loop_all_old IsTabInList_iff)

lemma no_new_tab_attempts [simp]:
  "no_new_tab (s\<lparr>check_attempts := n\<rparr>) = no_new_tab s"
  by (rule ext) (simp add: no_new_tab_def)

lemma poll_fire_no_new_tab:
  assumes "pending (drag_new_tab_state w)" and "0 < check_attempts (drag_new_tab_state w)"
    and "mode (drag_new_tab_state w) = 1 \<or> mode (drag_new_tab_state w) = 2"
    and "start_tabs (drag_new_tab_state w) \<noteq> []"
    and "no_new_tab (drag_new_tab_state w) ob"
  shows "DragNewTabTimerProc tid ob w = poll_reschedule (poll_w1 tid w)"
  using assms DragNewTabTimerProc_polling[of w ob tid] no_new_tab_poll_new_tab[OF assms(5)]
  by (simp add: no_new_tab_def)

lemma DragNewTabTimerProc_idle:
  "\<not> pending (drag_new_tab_state w) \<Longrightarrow>
   DragNewTabTimerProc tid ob w = (KillTimer tid w)\<lparr>drag_new_tab_timer := 0\<rparr>"
  by (simp add: DragNewTabTimerProc_def Let_def KillTimer_def)

lemma DragNewTabTimerProc_abandon:
  assumes "pending (drag_new_tab_state w)"
    and "check_attempts (drag_new_tab_state w) \<le> 0 \<or>
         (mode (drag_new_tab_state w) \<noteq> 1 \<and> mode (drag_new_tab_state w) \<noteq> 2) \<or>
         po_top_container_view ob = None \<or> start_tabs (drag_new_tab_state w) = []"
  shows "DragNewTabTimerProc tid ob w =
     ResetDragNewTabState
       (if check_attempts (drag_new_tab_state w) \<le> 0
        then (KillTimer tid w)\<lparr>drag_new_tab_timer := 0\<rparr> else poll_w1 tid w)"
proof (cases "check_attempts (drag_new_tab_state w) \<le> 0")
  case True
  with assms(1) show ?thesis
    by (simp add: DragNewTabTimerProc_def Let_def KillTimer_def)
next
  case False
  with assms show ?thesis
    by (auto simp: DragNewTabTimerProc_def Let_def KillTimer_def poll_w1_def)
qed

lemma poll_select_and_move_cases:
  "poll_select_and_move ob nt w =
     (if \<not> fst (ensure_selected ob nt w) \<and>
         (GetMoveStepsToEnd (po_tabs ob) nt > 0 \<or> mode (drag_new_tab_state w) = 1)
      then poll_reschedule (snd (ensure_selected ob nt w))
      else if GetMoveStepsToEnd (po_tabs ob) nt > 0
      then poll_terminal (po_tabs_after_move ob) (po_selected_tab ob) nt True
             (MoveSelectedTabToEnd (hwnd (drag_new_tab_state w))
                (GetMoveStepsToEnd (po_tabs ob) nt) (snd (ensure_selected ob nt w)))
      else poll_terminal (po_tabs ob) (po_selected_tab ob) nt (fst (ensure_selected ob nt w))
             (snd (ensure_selected ob nt w)))"
proof -
  have st: "drag_new_tab_state (snd (ensure_selected ob nt w)) = drag_new_tab_state w"
    by (simp add: ensure_selected_snd ExecuteCommand_def)
  show ?thesis
    unfolding poll_select_and_move_def Let_def st by auto
qed

lemma ensure_selected_fields [simp]:
  "drag_new_tab_state (snd (ensure_selected ob nt w)) = drag_new_tab_state w"
  "drag_new_tab_timer (snd (ensure_selected ob nt w)) = drag_new_tab_timer w"
  "drag_new_tab_restore_timer (snd (ensure_selected ob nt w)) = drag_new_tab_restore_timer w"
  "drag_new_tab_restore_tab (snd (ensure_selected ob nt w)) = drag_new_tab_restore_tab w"
  "drag_new_tab_restore_attempts (snd (ensure_selected ob nt w))
     = drag_new_tab_restore_attempts w"
  "lbutton_down_point (snd (ensure_selected ob nt w)) = lbutton_down_point w"
  "os_timers (snd (ensure_selected ob nt w)) = os_timers w"
  "os_last_timer_id (snd (ensure_selected ob nt w)) = os_last_timer_id w"
  by (simp_all add: ensure_selected_snd ExecuteCommand_def)

lemma poll_select_and_move_timer:
  assumes "drag_new_tab_timer w = 0"
    and "drag_new_tab_timer (poll_select_and_move ob nt w) \<noteq> 0"
  shows "drag_new_tab_state (poll_select_and_move ob nt w) = drag_new_tab_state w"
proof (cases "\<not> fst (ensure_selected ob nt w) \<and>
         (GetMoveStepsToEnd (po_tabs ob) nt > 0 \<or> mode (drag_new_tab_state w) = 1)")
  case True
  then show ?thesis by (simp add: poll_select_and_move_cases)
next
  case False
  then have "drag_new_tab_timer (poll_select_and_move ob nt w) = 0"
    using assms(1) by (simp add: poll_select_and_move_cases)
  with assms(2) show ?thesis by simp
qed

lemma poll_select_and_move_pending:
  assumes "drag_new_tab_timer w = 0"
    and "drag_new_tab_timer (poll_select_and_move ob nt w) = 0"
  shows "\<not> pending (drag_new_tab_state (poll_select_and_move ob nt w))"
proof (cases "\<not> fst (ensure_selected ob nt w) \<and>
         (GetMoveStepsToEnd (po_tabs ob) nt > 0 \<or> mode (drag_new_tab_state w) = 1)")
  case True
  then have "drag_new_tab_timer (poll_select_and_move ob nt w) \<noteq> 0"
    by (simp add: poll_select_and_move_cases)
  with assms(2) show ?thesis by simp
next
  case False
  then show ?thesis by (auto simp: poll_select_and_move_cases)
qed

lemma poll_fire_rescheduled:
  assumes "drag_new_tab_timer (DragNewTabTimerProc tid ob w) \<noteq> 0"
  shows "pending (drag_new_tab_state w) \<and> 0 < check_attempts (drag_new_tab_state w) \<and>
    drag_new_tab_state (DragNewTabTimerProc tid ob w) =
      (drag_new_tab_state w)\<lparr>check_attempts := check_attempts (drag_new_tab_state w) - 1\<rparr>"
proof -
  have p: "pending (drag_new_tab_state w)"
  proof (rule ccontr)
    assume "\<not> pending (drag_new_tab_state w)"
    then have "drag_new_tab_timer (DragNewTabTimerProc tid ob w) = 0"
      by (simp add: DragNewTabTimerProc_idle)
    with assms show False by simp
  qed
  have g: "\<not> (check_attempts (drag_new_tab_state w) \<le> 0 \<or>
         (mode (drag_new_tab_state w) \<noteq> 1 \<and> mode (drag_new_tab_state w) \<noteq> 2) \<or>
         po_top_container_view ob = None \<or> start_tabs (drag_new_tab_state w) = [])"
  proof
    assume a: "check_attempts (drag_new_tab_state w) \<le> 0 \<or>
         (mode (drag_new_tab_state w) \<noteq> 1 \<and> mode (drag_new_tab_state w) \<noteq> 2) \<or>
         po_top_container_view ob = None \<or> start_tabs (drag_new_tab_state w) = []"
    have "drag_new_tab_timer (DragNewTabTimerProc tid ob w) = 0"
      unfolding DragNewTabTimerProc_abandon[OF p a] by simp
    with assms show False by simp
  qed
  then have c: "0 < check_attempts (drag_new_tab_state w)"
    and m: "mode (drag_new_tab_state w) = 1 \<or> mode (drag_new_tab_state w) = 2"
    and v: "po_top_container_view ob \<noteq> None" and s: "start_tabs (drag_new_tab_state w) \<noteq> []"
    by auto
  note eq = DragNewTabTimerProc_polling[OF p c m v s, of tid]
  show ?thesis
  proof (cases "poll_new_tab (drag_new_tab_state w) ob = None")
    case True
    with eq p c show ?thesis by simp
  next
    case False
    with eq assms
    have "drag_new_tab_timer (poll_select_and_move ob (poll_new_tab (drag_new_tab_state w) ob)
            (poll_w1 tid w)) \<noteq> 0" by simp
    from poll_select_and_move_timer[OF _ this] eq False p c show ?thesis by simp
  qed
qed

lemma poll_fire_not_rescheduled:
  assumes "drag_new_tab_timer (DragNewTabTimerProc tid ob w) = 0"
  shows "\<not> pending (drag_new_tab_state (DragNewTabTimerProc tid ob w))"
proof (cases "pending (drag_new_tab_state w)")
  case False
  then show ?thesis by (simp add: DragNewTabTimerProc_idle KillTimer_def)
next
  case p: True
  show ?thesis
  proof (cases "check_attempts (drag_new_tab_state w) \<le> 0 \<or>
         (mode (drag_new_tab_state w) \<noteq> 1 \<and> mode (drag_new_tab_state w) \<noteq> 2) \<or>
         po_top_container_view ob = None \<or> start_tabs (drag_new_tab_state w) = []")
    case True
    show ?thesis
      unfolding DragNewTabTimerProc_abandon[OF p True] by (simp add: initial_state_def)
  next
    case False
    then have c: "0 < check_attempts (drag_new_tab_state w)"
      and m: "mode (drag_new_tab_state w) = 1 \<or> mode (drag_new_tab_state w) = 2"
      and v: "po_top_container_view ob \<noteq> None" and s: "start_tabs (drag_new_tab_state w) \<noteq> []"
      by auto
    note eq = DragNewTabTimerProc_polling[OF p c m v s, of tid]
    show ?thesis
    proof (cases "poll_new_tab (drag_new_tab_state w) ob = None")
      case True
      with eq assms show ?thesis by simp
    next
      case False
      with eq assms poll_select_and_move_pending[of "poll_w1 tid w" ob
          "poll_new_tab (drag_new_tab_state w) ob"]
      show ?thesis by simp
    qed
  qed
qed

lemma poll_fires_idle [simp]: "drag_new_tab_timer w = 0 \<Longrightarrow> poll_fires obs w = w"
  by (cases obs) simp_all

lemma poll_reschedules_idle [simp]:
  "drag_new_tab_timer w = 0 \<Longrightarrow> poll_reschedules obs w = 0"
  by (cases obs) simp_all

lemma poll_reschedules_le:
  "poll_reschedules obs w \<le> nat (check_attempts (drag_new_tab_state w))"
proof (induction obs arbitrary: w)
  case Nil
  then show ?case by simp
next
  case (Cons ob obs)
  show ?case
  proof (cases "drag_new_tab_timer w = 0")
    case True
    then show ?thesis by simp
  next
    case False
    let ?w' = "DragNewTabTimerProc (drag_new_tab_timer w) ob w"
    show ?thesis
    proof (cases "drag_new_tab_timer ?w' = 0")
      case True
      with False show ?thesis by simp
    next
      case nz: False
      from poll_fire_rescheduled[OF nz]
      have c: "0 < check_attempts (drag_new_tab_state w)"
        and c': "check_attempts (drag_new_tab_state ?w') = check_attempts (drag_new_tab_state w) - 1"
        by simp_all
      from Cons.IH[of ?w'] c c' False nz show ?thesis by simp
    qed
  qed
qed

lemma poll_fires_stop:
  "nat (check_attempts (drag_new_tab_state w)) < length obs \<Longrightarrow>
   drag_new_tab_timer (poll_fires obs w) = 0 \<and>
   (drag_new_tab_timer w \<noteq> 0 \<longrightarrow> \<not> pending (drag_new_tab_state (poll_fires obs w)))"
proof (induction obs arbitrary: w)
  case Nil
  then show ?case by simp
next
  case (Cons ob obs)
  show ?case
  proof (cases "drag_new_tab_timer w = 0")
    case True
    then show ?thesis by simp
  next
    case False
    let ?w' = "DragNewTabTimerProc (drag_new_tab_timer w) ob w"
    show ?thesis
    proof (cases "drag_new_tab_timer ?w' = 0")
      case True
      with False poll_fire_not_rescheduled[OF True] show ?thesis by simp
    next
      case nz: False
      from poll_fire_rescheduled[OF nz]
      have c: "0 < check_attempts (drag_new_tab_state w)"
        and c': "check_attempts (drag_new_tab_state ?w') = check_attempts (drag_new_tab_state w) - 1"
        by simp_all
      from c c' Cons.prems have "nat (check_attempts (drag_new_tab_state ?w')) < length obs"
        by simp
      from Cons.IH[OF this] False nz show ?thesis by simp
    qed
  qed
qed

lemma poll_fires_exhaust:
  "pending (drag_new_tab_state w) \<Longrightarrow>
   mode (drag_new_tab_state w) = 1 \<or> mode (drag_new_tab_state w) = 2 \<Longrightarrow>
   start_tabs (drag_new_tab_state w) \<noteq> [] \<Longrightarrow>
   check_attempts (drag_new_tab_state w) = int n \<Longrightarrow>
   drag_new_tab_timer w \<noteq> 0 \<Longrightarrow>
   list_all (no_new_tab (drag_new_tab_state w)) obs \<Longrightarrow>
   length obs = Suc n \<Longrightarrow>
   poll_reschedules obs w = n \<and>
   drag_new_tab_state (poll_fires obs w) = initial_state \<and>
   drag_new_tab_timer (poll_fires obs w) = 0 \<and>
   drag_new_tab_restore_timer (poll_fires obs w) = 0 \<and>
   issued (poll_fires obs w) = issued w"
proof (induction n arbitrary: w obs)
  case 0
  then obtain ob where obs: "obs = [ob]" by (cases obs) auto
  from 0 have "DragNewTabTimerProc (drag_new_tab_timer w) ob w =
      ResetDragNewTabState ((KillTimer (drag_new_tab_timer w) w)\<lparr>drag_new_tab_timer := 0\<rparr>)"
    by (simp add: DragNewTabTimerProc_def Let_def KillTimer_def)
  with 0 obs show ?case by (simp add: KillTimer_def)
next
  case (Suc n)
  then obtain ob obs' where obs: "obs = ob # obs'" by (cases obs) auto
  let ?w' = "DragNewTabTimerProc (drag_new_tab_timer w) ob w"
  from Suc.prems obs have nn: "no_new_tab (drag_new_tab_state w) ob"
    and rest: "list_all (no_new_tab (drag_new_tab_state w)) obs'" and len: "length obs' = Suc n"
    by simp_all
  from Suc.prems have pos: "0 < check_attempts (drag_new_tab_state w)" by simp
  have eq: "?w' = poll_reschedule (poll_w1 (drag_new_tab_timer w) w)"
    by (rule poll_fire_no_new_tab[OF Suc.prems(1) pos Suc.prems(2) Suc.prems(3) nn])
  have "poll_reschedules obs' ?w' = n \<and>
     drag_new_tab_state (poll_fires obs' ?w') = initial_state \<and>
     drag_new_tab_timer (poll_fires obs' ?w') = 0 \<and>
     drag_new_tab_restore_timer (poll_fires obs' ?w') = 0 \<and>
     issued (poll_fires obs' ?w') = issued ?w'"
    using Suc.prems rest len
    by (intro Suc.IH) (simp_all add: eq)
  with Suc.prems(5) obs show ?case by (simp add: eq)
qed

subsection \<open>Facts about queueing, and the example scenario evaluated\<close>

lemma kill_restore_timer_fields [simp]:
  "drag_new_tab_state (kill_restore_timer w) = drag_new_tab_state w"
  "drag_new_tab_timer (kill_restore_timer w) = drag_new_tab_timer w"
  "drag_new_tab_restore_timer (kill_restore_timer w) = 0"
  "drag_new_tab_restore_tab (kill_restore_timer w) = drag_new_tab_restore_tab w"
  "drag_new_tab_restore_attempts (kill_restore_timer w) = drag_new_tab_restore_attempts w"
  "lbutton_down_point (kill_restore_timer w) = lbutton_down_point w"
  "issued (kill_restore_timer w) = issued w"
  "os_last_timer_id (kill_restore_timer w) = os_last_timer_id w"
  by (simp_all add: kill_restore_timer_def KillTimer_def)

lemma kill_poll_timer_fields [simp]:
  "drag_new_tab_state (kill_poll_timer w) = drag_new_tab_state w"
  "drag_new_tab_timer (kill_poll_timer w) = 0"
  "drag_new_tab_restore_timer (kill_poll_timer w) = drag_new_tab_restore_timer w"
  "drag_new_tab_restore_tab (kill_poll_timer w) = drag_new_tab_restore_tab w"
  "drag_new_tab_restore_attempts (kill_poll_timer w) = drag_new_tab_restore_attempts w"
  "lbutton_down_point (kill_poll_timer w) = lbutton_down_point w"
  "issued (kill_poll_timer w) = issued w"
  "os_last_timer_id (kill_poll_timer w) = os_last_timer_id w"
  by (simp_all add: kill_poll_timer_def KillTimer_def)

lemma InitDragNewTabState_ok:
  "cfg = 1 \<or> cfg = 2 \<Longrightarrow> h \<noteq> None \<Longrightarrow> v \<noteq> None \<Longrightarrow>
   InitDragNewTabState cfg h v sn w =
     (sn_tabs sn \<noteq> [],
      w\<lparr>drag_new_tab_state := (drag_new_tab_state w)
          \<lparr>mode := cfg, hwnd := h, start_tab_count := sn_tab_count sn,
           start_selected_tab := sn_selected_tab sn, start_tabs := sn_tabs sn,
           start_selected_index := GetTabIndex (sn_tabs sn) (sn_selected_tab sn)\<rparr>\<rparr>)"
  by (auto simp: InitDragNewTabState_def)

lemma InitDragNewTabState_refused:
  "(cfg \<noteq> 1 \<and> cfg \<noteq> 2) \<or> h = None \<or> v = None \<Longrightarrow>
   InitDragNewTabState cfg h v sn w = (False, ResetDragNewTabState w)"
  by (auto simp: InitDragNewTabState_def)

lemma QueueDragNewTabCheck_commit_fields [simp]:
  "drag_new_tab_state (QueueDragNewTabCheck_commit pt w) =
     (drag_new_tab_state w)\<lparr>drop_point := pt, pending := True,
        check_attempts := kDragNewTabMaxAttempts\<rparr>"
  "drag_new_tab_timer (QueueDragNewTabCheck_commit pt w) = Suc (os_last_timer_id w)"
  "drag_new_tab_restore_timer (QueueDragNewTabCheck_commit pt w) = 0"
  "drag_new_tab_restore_tab (QueueDragNewTabCheck_commit pt w) = None"
  "drag_new_tab_restore_attempts (QueueDragNewTabCheck_commit pt w) = 0"
  "lbutton_down_point (QueueDragNewTabCheck_commit pt w) = lbutton_down_point w"
  "issued (QueueDragNewTabCheck_commit pt w) = issued w"
  "os_last_timer_id (QueueDragNewTabCheck_commit pt w) = Suc (os_last_timer_id w)"
  "poll_timer_set (QueueDragNewTabCheck_commit pt w)"
  by (simp_all add: QueueDragNewTabCheck_commit_def Let_def)

lemma ex_queued_1:
  "ex_queued 1 =
     \<lparr>drag_new_tab_state =
        \<lparr>mode = 1, hwnd = Some 100, drop_point = \<lparr>pt_x = 300, pt_y = 10\<rparr>,
         start_tab_count = 3, start_selected_tab = Some 2, start_selected_index = 1,
         start_tabs = [Some 1, Some 2, Some 3], check_attempts = 12, armed = False,
         pending = True\<rparr>,
      drag_new_tab_timer = 1, drag_new_tab_restore_timer = 0,
      drag_new_tab_restore_tab = None, drag_new_tab_restore_attempts = 0,
      lbutton_down_point = \<lparr>pt_x = - 1, pt_y = - 1\<rparr>,
      os_timers = [\<lparr>timer_id = 1, timer_elapse = 80, timer_proc = DragNewTabTimerProc_ptr\<rparr>],
      os_last_timer_id = 1, issued = []\<rparr>"
  by (simp add: ex_queued_def ex_drop_def initial_world_def initial_state_def
      MouseProc_LBUTTONDOWN_def MouseProc_LBUTTONUP_def IsDragNewTabEnabled_def HandleDrag_def
      int32_def abs32_def
      QueueDragNewTabCheck_def QueueDragNewTabCheck_commit_def
      InitDragNewTabState_def GetTabIndex_def Let_def prim_defs
      kDragNewTabMaxAttempts_def)


lemma ex_queued_2:
  "ex_queued 2 =
     \<lparr>drag_new_tab_state =
        \<lparr>mode = 2, hwnd = Some 100, drop_point = \<lparr>pt_x = 300, pt_y = 10\<rparr>,
         start_tab_count = 3, start_selected_tab = Some 2, start_selected_index = 1,
         start_tabs = [Some 1, Some 2, Some 3], check_attempts = 12, armed = False,
         pending = True\<rparr>,
      drag_new_tab_timer = 1, drag_new_tab_restore_timer = 0,
      drag_new_tab_restore_tab = None, drag_new_tab_restore_attempts = 0,
      lbutton_down_point = \<lparr>pt_x = - 1, pt_y = - 1\<rparr>,
      os_timers = [\<lparr>timer_id = 1, timer_elapse = 80, timer_proc = DragNewTabTimerProc_ptr\<rparr>],
      os_last_timer_id = 1, issued = []\<rparr>"
  by (simp add: ex_queued_def ex_drop_def initial_world_def initial_state_def
      MouseProc_LBUTTONDOWN_def MouseProc_LBUTTONUP_def IsDragNewTabEnabled_def HandleDrag_def
      int32_def abs32_def
      QueueDragNewTabCheck_def QueueDragNewTabCheck_commit_def
      InitDragNewTabState_def GetTabIndex_def Let_def prim_defs
      kDragNewTabMaxAttempts_def)

lemma QueueDragNewTabCheck_enabled:
  "cfg = 1 \<or> cfg = 2 \<Longrightarrow>
   QueueDragNewTabCheck cfg h v pt sn w =
     (if start_tabs (drag_new_tab_state w) = [] \<or> hwnd (drag_new_tab_state w) \<noteq> h
      then (if fst (InitDragNewTabState cfg h v sn
                     (w\<lparr>drag_new_tab_state := (drag_new_tab_state w)\<lparr>mode := cfg\<rparr>\<rparr>))
            then QueueDragNewTabCheck_commit pt
                   (snd (InitDragNewTabState cfg h v sn
                     (w\<lparr>drag_new_tab_state := (drag_new_tab_state w)\<lparr>mode := cfg\<rparr>\<rparr>)))
            else snd (InitDragNewTabState cfg h v sn
                     (w\<lparr>drag_new_tab_state := (drag_new_tab_state w)\<lparr>mode := cfg\<rparr>\<rparr>)))
      else QueueDragNewTabCheck_commit pt
             (w\<lparr>drag_new_tab_state := (drag_new_tab_state w)\<lparr>mode := cfg\<rparr>\<rparr>))"
  by (auto simp: QueueDragNewTabCheck_def Let_def)

lemma QueueDragNewTabCheck_disabled:
  "cfg \<noteq> 1 \<Longrightarrow> cfg \<noteq> 2 \<Longrightarrow>
   QueueDragNewTabCheck cfg h v pt sn w = ResetDragNewTabState w"
  by (simp add: QueueDragNewTabCheck_def)

lemma QueueDragNewTabCheck_queued:
  assumes "cfg = 1 \<or> cfg = 2" and "h \<noteq> None" and "v \<noteq> None" and "sn_tabs sn \<noteq> []"
  shows "pending (drag_new_tab_state (QueueDragNewTabCheck cfg h v pt sn w)) \<and>
    check_attempts (drag_new_tab_state (QueueDragNewTabCheck cfg h v pt sn w))
      = kDragNewTabMaxAttempts \<and>
    start_tabs (drag_new_tab_state (QueueDragNewTabCheck cfg h v pt sn w)) \<noteq> [] \<and>
    mode (drag_new_tab_state (QueueDragNewTabCheck cfg h v pt sn w)) = cfg \<and>
    poll_timer_set (QueueDragNewTabCheck cfg h v pt sn w)"
  using assms(2-4)
  by (simp add: QueueDragNewTabCheck_enabled[OF assms(1)] InitDragNewTabState_ok[OF assms(1)])

subsection \<open>Claim C2\<close>

text \<open>
  C2. For a pending session whose remaining attempts are within the budget of 12:
  \<^item> a fire of the poll timer that polls the host (attempts remain, the recorded mode is
    1 or 2, the container is found, the snapshot is not empty) and sees no tab absent from
    the start snapshot, the selected tab not being absent from it either, sets the poll
    timer again at the same 80 ms interval and leaves the session pending with one attempt
    less and no command sent;
  \<^item> whatever the host answers, the poll loop reschedules at most 12 times, and after at
    most 13 fires no poll timer is outstanding and the session is no longer pending: the
    loop cannot retry forever;
  \<^item> when every poll of a freshly queued session sees no new tab, there are exactly 12
    reschedules and the 13th fire abandons the session: the state is reset;
  \<^item> the budget is the one \<^verbatim>\<open>QueueDragNewTabCheck\<close> sets: a queued check is pending
    with 12 attempts and a poll timer set.
\<close>

theorem poll_retry_bounded:
  assumes "pending (drag_new_tab_state w)"
    and "check_attempts (drag_new_tab_state w) \<le> kDragNewTabMaxAttempts"
  shows
    "(0 < check_attempts (drag_new_tab_state w) \<and>
      (mode (drag_new_tab_state w) = 1 \<or> mode (drag_new_tab_state w) = 2) \<and>
      start_tabs (drag_new_tab_state w) \<noteq> [] \<and> no_new_tab (drag_new_tab_state w) ob \<longrightarrow>
        poll_timer_set (DragNewTabTimerProc tid ob w) \<and>
        drag_new_tab_state (DragNewTabTimerProc tid ob w) =
          (drag_new_tab_state w)
            \<lparr>check_attempts := check_attempts (drag_new_tab_state w) - 1\<rparr> \<and>
        issued (DragNewTabTimerProc tid ob w) = issued w)
     \<and> poll_reschedules obs w \<le> 12
     \<and> (12 < length obs \<longrightarrow>
          drag_new_tab_timer (poll_fires obs w) = 0 \<and>
          (drag_new_tab_timer w \<noteq> 0 \<longrightarrow> \<not> pending (drag_new_tab_state (poll_fires obs w))))
     \<and> ((mode (drag_new_tab_state w) = 1 \<or> mode (drag_new_tab_state w) = 2) \<and>
         start_tabs (drag_new_tab_state w) \<noteq> [] \<and>
         check_attempts (drag_new_tab_state w) = 12 \<and> drag_new_tab_timer w \<noteq> 0 \<and>
         list_all (no_new_tab (drag_new_tab_state w)) obs \<and> length obs = 13 \<longrightarrow>
           poll_reschedules obs w = 12 \<and>
           drag_new_tab_state (poll_fires obs w) = initial_state \<and>
           drag_new_tab_restore_timer (poll_fires obs w) = 0 \<and>
           issued (poll_fires obs w) = issued w)
     \<and> ((cfg = 1 \<or> cfg = 2) \<and> h \<noteq> None \<and> v \<noteq> None \<and> sn_tabs sn \<noteq> [] \<longrightarrow>
           pending (drag_new_tab_state (QueueDragNewTabCheck cfg h v pt sn w0)) \<and>
           check_attempts (drag_new_tab_state (QueueDragNewTabCheck cfg h v pt sn w0)) = 12 \<and>
           poll_timer_set (QueueDragNewTabCheck cfg h v pt sn w0))"
proof (intro conjI impI)
  assume a: "0 < check_attempts (drag_new_tab_state w) \<and>
      (mode (drag_new_tab_state w) = 1 \<or> mode (drag_new_tab_state w) = 2) \<and>
      start_tabs (drag_new_tab_state w) \<noteq> [] \<and> no_new_tab (drag_new_tab_state w) ob"
  then have eq: "DragNewTabTimerProc tid ob w = poll_reschedule (poll_w1 tid w)"
    using poll_fire_no_new_tab[OF assms(1), of ob tid] by blast
  show "poll_timer_set (DragNewTabTimerProc tid ob w)"
    by (simp add: eq)
  show "drag_new_tab_state (DragNewTabTimerProc tid ob w) =
          (drag_new_tab_state w)
            \<lparr>check_attempts := check_attempts (drag_new_tab_state w) - 1\<rparr>"
    by (simp add: eq)
  show "issued (DragNewTabTimerProc tid ob w) = issued w"
    by (simp add: eq)
next
  have "poll_reschedules obs w \<le> nat (check_attempts (drag_new_tab_state w))"
    by (rule poll_reschedules_le)
  also have "\<dots> \<le> 12"
    using assms(2) by (simp add: kDragNewTabMaxAttempts_def)
  finally show "poll_reschedules obs w \<le> 12" .
next
  assume len: "12 < length obs"
  then have "nat (check_attempts (drag_new_tab_state w)) < length obs"
    using assms(2) by (simp add: kDragNewTabMaxAttempts_def)
  note stop = poll_fires_stop[OF this]
  from stop show "drag_new_tab_timer (poll_fires obs w) = 0" by simp
  assume "drag_new_tab_timer w \<noteq> 0"
  with stop show "\<not> pending (drag_new_tab_state (poll_fires obs w))" by simp
next
  assume a: "(mode (drag_new_tab_state w) = 1 \<or> mode (drag_new_tab_state w) = 2) \<and>
         start_tabs (drag_new_tab_state w) \<noteq> [] \<and>
         check_attempts (drag_new_tab_state w) = 12 \<and> drag_new_tab_timer w \<noteq> 0 \<and>
         list_all (no_new_tab (drag_new_tab_state w)) obs \<and> length obs = 13"
  then have c: "check_attempts (drag_new_tab_state w) = int 12" and l: "length obs = Suc 12"
    by simp_all
  from a poll_fires_exhaust[OF assms(1) _ _ c _ _ l]
  have r: "poll_reschedules obs w = 12 \<and>
   drag_new_tab_state (poll_fires obs w) = initial_state \<and>
   drag_new_tab_timer (poll_fires obs w) = 0 \<and>
   drag_new_tab_restore_timer (poll_fires obs w) = 0 \<and>
   issued (poll_fires obs w) = issued w" by blast
  from r show "poll_reschedules obs w = 12" by simp
  from r show "drag_new_tab_state (poll_fires obs w) = initial_state" by simp
  from r show "issued (poll_fires obs w) = issued w" by simp
  from r show "drag_new_tab_restore_timer (poll_fires obs w) = 0" by simp
next
  assume q: "(cfg = 1 \<or> cfg = 2) \<and> h \<noteq> None \<and> v \<noteq> None \<and> sn_tabs sn \<noteq> []"
  then have "pending (drag_new_tab_state (QueueDragNewTabCheck cfg h v pt sn w0)) \<and>
    check_attempts (drag_new_tab_state (QueueDragNewTabCheck cfg h v pt sn w0))
      = kDragNewTabMaxAttempts \<and>
    start_tabs (drag_new_tab_state (QueueDragNewTabCheck cfg h v pt sn w0)) \<noteq> [] \<and>
    mode (drag_new_tab_state (QueueDragNewTabCheck cfg h v pt sn w0)) = cfg \<and>
    poll_timer_set (QueueDragNewTabCheck cfg h v pt sn w0)"
    using QueueDragNewTabCheck_queued[of cfg h v sn pt w0] by blast
  then show "pending (drag_new_tab_state (QueueDragNewTabCheck cfg h v pt sn w0))"
    and "check_attempts (drag_new_tab_state (QueueDragNewTabCheck cfg h v pt sn w0)) = 12"
    and "poll_timer_set (QueueDragNewTabCheck cfg h v pt sn w0)"
    by (simp_all add: kDragNewTabMaxAttempts_def)
qed

theorem poll_retry_bounded_witness:
  "poll_timer_set (DragNewTabTimerProc 1 ex_poll_none (ex_queued 1))
   \<and> check_attempts (drag_new_tab_state (DragNewTabTimerProc 1 ex_poll_none (ex_queued 1))) = 11
   \<and> issued (DragNewTabTimerProc 1 ex_poll_none (ex_queued 1)) = []
   \<and> poll_reschedules (replicate 13 ex_poll_none) (ex_queued 1) = 12
   \<and> drag_new_tab_timer (poll_fires (replicate 13 ex_poll_none) (ex_queued 1)) = 0
   \<and> drag_new_tab_state (poll_fires (replicate 13 ex_poll_none) (ex_queued 1)) = initial_state"
proof -
  let ?w = "ex_queued 1"
  let ?obs = "replicate 13 ex_poll_none"
  have p: "pending (drag_new_tab_state ?w)"
    by (simp add: ex_queued_1)
  have c: "check_attempts (drag_new_tab_state ?w) \<le> kDragNewTabMaxAttempts"
    by (simp add: ex_queued_1 kDragNewTabMaxAttempts_def)
  have g1: "0 < check_attempts (drag_new_tab_state ?w) \<and>
      (mode (drag_new_tab_state ?w) = 1 \<or> mode (drag_new_tab_state ?w) = 2) \<and>
      start_tabs (drag_new_tab_state ?w) \<noteq> [] \<and> no_new_tab (drag_new_tab_state ?w) ex_poll_none"
    by (simp add: ex_queued_1 no_new_tab_def ex_poll_none_def)
  have len: "12 < length ?obs"
    by simp
  have g2: "(mode (drag_new_tab_state ?w) = 1 \<or> mode (drag_new_tab_state ?w) = 2) \<and>
         start_tabs (drag_new_tab_state ?w) \<noteq> [] \<and>
         check_attempts (drag_new_tab_state ?w) = 12 \<and> drag_new_tab_timer ?w \<noteq> 0 \<and>
         list_all (no_new_tab (drag_new_tab_state ?w)) ?obs \<and> length ?obs = 13"
    by (simp add: ex_queued_1 no_new_tab_def ex_poll_none_def list_all_length)
  have v: "check_attempts ((drag_new_tab_state ?w)
             \<lparr>check_attempts := check_attempts (drag_new_tab_state ?w) - 1\<rparr>) = 11"
    and i: "issued ?w = []"
    by (simp_all add: ex_queued_1)
  from poll_retry_bounded[OF p c, of ex_poll_none 1 ?obs] g1 g2 len
  have "poll_timer_set (DragNewTabTimerProc 1 ex_poll_none ?w)"
    and "drag_new_tab_state (DragNewTabTimerProc 1 ex_poll_none ?w) =
          (drag_new_tab_state ?w)
            \<lparr>check_attempts := check_attempts (drag_new_tab_state ?w) - 1\<rparr>"
    and "issued (DragNewTabTimerProc 1 ex_poll_none ?w) = issued ?w"
    and "poll_reschedules ?obs ?w = 12"
    and "drag_new_tab_timer (poll_fires ?obs ?w) = 0"
    and "drag_new_tab_state (poll_fires ?obs ?w) = initial_state"
    by blast+
  with v i show ?thesis by (simp only:) 
qed

subsection \<open>More facts about the timer procedures, and the example evaluated\<close>

lemma poll_terminal_issued:
  "issued (poll_terminal tabs sel nt b w) =
     issued w @
       (if mode (drag_new_tab_state w) = 2
        then (if ResolveRestoreTab (drag_new_tab_state w) tabs \<noteq> None \<and>
                 (sel = None \<or> sel \<noteq> ResolveRestoreTab (drag_new_tab_state w) tabs \<or> b)
              then [CmdSelectTab (ResolveRestoreTab (drag_new_tab_state w) tabs)] else [])
        else if \<not> b then [CmdSelectTab nt] else [])"
  by (simp add: poll_terminal_def Let_def ExecuteCommand_def)

lemma DragNewTabRestoreTimerProc_issued:
  "issued (DragNewTabRestoreTimerProc tid ro w) =
     issued w @
       (if 0 < drag_new_tab_restore_attempts w \<and> hwnd (drag_new_tab_state w) \<noteq> None \<and>
           ro_top_container_view ro \<noteq> None \<and>
           ResolveRestoreTab (drag_new_tab_state w) (ro_tabs ro) \<noteq> None \<and>
           ro_selected_tab ro \<noteq> ResolveRestoreTab (drag_new_tab_state w) (ro_tabs ro)
        then [CmdSelectTab (ResolveRestoreTab (drag_new_tab_state w) (ro_tabs ro))] else [])"
  by (auto simp: DragNewTabRestoreTimerProc_def Let_def prim_defs)

lemma DragNewTabRestoreTimerProc_frame [simp]:
  "drag_new_tab_state (DragNewTabRestoreTimerProc tid ro w) = drag_new_tab_state w"
  "drag_new_tab_timer (DragNewTabRestoreTimerProc tid ro w) = drag_new_tab_timer w"
  "lbutton_down_point (DragNewTabRestoreTimerProc tid ro w) = lbutton_down_point w"
  "os_last_timer_id (DragNewTabRestoreTimerProc tid ro w) = os_last_timer_id w"
  by (simp_all add: DragNewTabRestoreTimerProc_def Let_def prim_defs)

lemma ex_moved_eq:
  "ex_moved =
     \<lparr>drag_new_tab_state =
        \<lparr>mode = 2, hwnd = Some 100, drop_point = \<lparr>pt_x = 300, pt_y = 10\<rparr>,
         start_tab_count = 3, start_selected_tab = Some 2, start_selected_index = 1,
         start_tabs = [], check_attempts = 0, armed = False, pending = False\<rparr>,
      drag_new_tab_timer = 0, drag_new_tab_restore_timer = 2,
      drag_new_tab_restore_tab = Some 3, drag_new_tab_restore_attempts = 4,
      lbutton_down_point = \<lparr>pt_x = - 1, pt_y = - 1\<rparr>,
      os_timers =
        [\<lparr>timer_id = 2, timer_elapse = 80, timer_proc = DragNewTabRestoreTimerProc_ptr\<rparr>],
      os_last_timer_id = 2,
      issued = [CmdMoveTabNext (Some 100), CmdMoveTabNext (Some 100), CmdSelectTab (Some 3)]\<rparr>"
  by (simp add: ex_moved_def ex_queued_2 ex_poll_front_def DragNewTabTimerProc_def
      poll_select_and_move_def poll_terminal_def poll_new_tab_def FindNewTabAfterDrag_def
      IsTabInList_def GetTabIndex_def GetMoveStepsToEnd_def ensure_selected_def
      ResolveRestoreTab_def GetTabByIndex_def QueueDragNewTabRestore_def
      MoveSelectedTabToEnd_def numeral_2_eq_2
      kDragNewTabRestoreAttempts_def Let_def prim_defs)

lemma kill_poll_timer_timers:
  "os_timers (kill_poll_timer w) =
     (if drag_new_tab_timer w = 0 then os_timers w
      else filter (\<lambda>e. timer_id e \<noteq> drag_new_tab_timer w) (os_timers w))"
  by (simp add: kill_poll_timer_def KillTimer_def)

lemma kill_restore_timer_timers:
  "os_timers (kill_restore_timer w) =
     (if drag_new_tab_restore_timer w = 0 then os_timers w
      else filter (\<lambda>e. timer_id e \<noteq> drag_new_tab_restore_timer w) (os_timers w))"
  by (simp add: kill_restore_timer_def KillTimer_def)

lemma timers_of_same: "os_timers w' = os_timers w \<Longrightarrow> timers_of cb w' = timers_of cb w"
  by (simp add: timers_of_def)

lemma timers_of_filter_id:
  "os_timers w' = filter (\<lambda>e. timer_id e \<noteq> t) (os_timers w) \<Longrightarrow>
   timers_of cb w' = filter (\<lambda>i. i \<noteq> t) (timers_of cb w)"
proof -
  have "map timer_id (filter (\<lambda>e. timer_proc e = cb) (filter (\<lambda>e. timer_id e \<noteq> t) ts))
        = filter (\<lambda>i. i \<noteq> t) (map timer_id (filter (\<lambda>e. timer_proc e = cb) ts))" for ts
    by (induction ts) auto
  then show "os_timers w' = filter (\<lambda>e. timer_id e \<noteq> t) (os_timers w) \<Longrightarrow>
   timers_of cb w' = filter (\<lambda>i. i \<noteq> t) (timers_of cb w)"
    by (simp add: timers_of_def)
qed

lemma timers_of_append:
  "os_timers w' = os_timers w @ [\<lparr>timer_id = n, timer_elapse = ms, timer_proc = cb'\<rparr>] \<Longrightarrow>
   timers_of cb w' = timers_of cb w @ (if cb = cb' then [n] else [])"
  by (simp add: timers_of_def)

subsection \<open>Claim C3\<close>

text \<open>
  The claim as stated names the wrong mode. In the example the new tab \<open>D\<close> is already
  last (no move needed) and \<^verbatim>\<open>SelectTab(D)\<close> fails. In mode 2 (move to end and restore
  the selection) the fire does not reschedule: no poll timer is left and the session is no
  longer pending. In mode 1 (move to end) the same fire does reschedule.
\<close>

theorem poll_fire_selection_failed_counterexample:
  "mode (drag_new_tab_state (ex_queued 2)) = 2
   \<and> poll_new_tab (drag_new_tab_state (ex_queued 2)) ex_poll_select_fails = Some 4
   \<and> GetMoveStepsToEnd (po_tabs ex_poll_select_fails) (Some 4) = 0
   \<and> \<not> fst (ensure_selected ex_poll_select_fails (Some 4) (poll_w1 1 (ex_queued 2)))
   \<and> drag_new_tab_timer (DragNewTabTimerProc 1 ex_poll_select_fails (ex_queued 2)) = 0
   \<and> \<not> pending (drag_new_tab_state (DragNewTabTimerProc 1 ex_poll_select_fails (ex_queued 2)))
   \<and> timers_of DragNewTabTimerProc_ptr
        (DragNewTabTimerProc 1 ex_poll_select_fails (ex_queued 2)) = []
   \<and> mode (drag_new_tab_state (ex_queued 1)) = 1
   \<and> poll_new_tab (drag_new_tab_state (ex_queued 1)) ex_poll_select_fails = Some 4
   \<and> \<not> fst (ensure_selected ex_poll_select_fails (Some 4) (poll_w1 1 (ex_queued 1)))
   \<and> poll_timer_set (DragNewTabTimerProc 1 ex_poll_select_fails (ex_queued 1))
   \<and> pending (drag_new_tab_state (DragNewTabTimerProc 1 ex_poll_select_fails (ex_queued 1)))"
  by (simp add: ex_queued_1 ex_queued_2 ex_poll_select_fails_def DragNewTabTimerProc_def
      poll_select_and_move_def poll_terminal_def poll_new_tab_def FindNewTabAfterDrag_def
      IsTabInList_def GetTabIndex_def GetMoveStepsToEnd_def ensure_selected_def
      ResolveRestoreTab_def GetTabByIndex_def QueueDragNewTabRestore_def poll_w1_def
      timers_of_def poll_timer_set_def kDragNewTabRestoreAttempts_def Let_def prim_defs)

text \<open>
  C3 (amended). Whenever the poll step has identified a new tab and the attempt to select
  it fails (the select command is issued and either reports failure or the re-query shows
  another tab selected), the step reschedules another poll attempt, 80 ms later and with
  the session otherwise unchanged, exactly when a move is still needed (the move steps are
  positive) or the recorded mode is 1, move to end; otherwise, that is in mode 2 with the
  new tab already last, it goes on to the terminal action. In both cases no move command
  is issued.
\<close>

theorem poll_fire_selection_failed:
  assumes "pending (drag_new_tab_state w)" and "0 < check_attempts (drag_new_tab_state w)"
    and "mode (drag_new_tab_state w) = 1 \<or> mode (drag_new_tab_state w) = 2"
    and "po_top_container_view ob \<noteq> None" and "start_tabs (drag_new_tab_state w) \<noteq> []"
    and "poll_new_tab (drag_new_tab_state w) ob = Some t"
    and "po_selected_tab ob \<noteq> Some t"
    and "\<not> po_select_result ob \<or> po_now_selected ob \<noteq> Some t"
  shows
    "(if 0 < GetMoveStepsToEnd (po_tabs ob) (Some t) \<or> mode (drag_new_tab_state w) = 1
      then poll_timer_set (DragNewTabTimerProc tid ob w) \<and>
           drag_new_tab_state (DragNewTabTimerProc tid ob w) =
             (drag_new_tab_state w)
               \<lparr>check_attempts := check_attempts (drag_new_tab_state w) - 1\<rparr> \<and>
           issued (DragNewTabTimerProc tid ob w) = issued w @ [CmdSelectTab (Some t)]
      else DragNewTabTimerProc tid ob w =
             poll_terminal (po_tabs ob) (po_selected_tab ob) (Some t) False
               (ExecuteCommand (CmdSelectTab (Some t)) (poll_w1 tid w)) \<and>
           drag_new_tab_timer (DragNewTabTimerProc tid ob w) = 0 \<and>
           drag_new_tab_state (DragNewTabTimerProc tid ob w) =
             (drag_new_tab_state w)
               \<lparr>pending := False, check_attempts := 0, start_tabs := [], armed := False\<rparr>)
     \<and> filter is_move (issued (DragNewTabTimerProc tid ob w)) = filter is_move (issued w)"
proof -
  have eq: "DragNewTabTimerProc tid ob w = poll_select_and_move ob (Some t) (poll_w1 tid w)"
    using DragNewTabTimerProc_polling[OF assms(1-5), of tid] assms(6) by simp
  have f: "\<not> fst (ensure_selected ob (Some t) (poll_w1 tid w))"
    using assms(7,8) by (auto simp: ensure_selected_fst)
  have s: "snd (ensure_selected ob (Some t) (poll_w1 tid w)) =
      ExecuteCommand (CmdSelectTab (Some t)) (poll_w1 tid w)"
    using assms(7) by (simp add: ensure_selected_snd)
  show ?thesis
  proof (cases "0 < GetMoveStepsToEnd (po_tabs ob) (Some t) \<or> mode (drag_new_tab_state w) = 1")
    case True
    then have "DragNewTabTimerProc tid ob w =
        poll_reschedule (ExecuteCommand (CmdSelectTab (Some t)) (poll_w1 tid w))"
      using f s by (simp add: eq poll_select_and_move_cases)
    with True show ?thesis
      by (simp add: ExecuteCommand_def)
  next
    case False
    then have "DragNewTabTimerProc tid ob w =
        poll_terminal (po_tabs ob) (po_selected_tab ob) (Some t) False
               (ExecuteCommand (CmdSelectTab (Some t)) (poll_w1 tid w))"
      using f s by (simp add: eq poll_select_and_move_cases)
    with False show ?thesis
      by (simp add: ExecuteCommand_def poll_terminal_issued)
  qed
qed

theorem poll_fire_selection_failed_witness:
  "poll_timer_set (DragNewTabTimerProc 1 ex_poll_select_fails (ex_queued 1))
   \<and> issued (DragNewTabTimerProc 1 ex_poll_select_fails (ex_queued 1))
       = issued (ex_queued 1) @ [CmdSelectTab (Some 4)]
   \<and> drag_new_tab_timer (DragNewTabTimerProc 1 ex_poll_select_fails (ex_queued 2)) = 0
   \<and> filter is_move (issued (DragNewTabTimerProc 1 ex_poll_select_fails (ex_queued 2)))
       = filter is_move (issued (ex_queued 2))"
proof -
  have nt: "poll_new_tab (drag_new_tab_state (ex_queued m)) ex_poll_select_fails = Some 4"
    if "m = 1 \<or> m = 2" for m
    using that
    by (auto simp: ex_queued_1 ex_queued_2 ex_poll_select_fails_def poll_new_tab_def
        FindNewTabAfterDrag_def Let_def)
  have sel: "po_selected_tab ex_poll_select_fails \<noteq> Some 4"
    and res: "\<not> po_select_result ex_poll_select_fails \<or>
              po_now_selected ex_poll_select_fails \<noteq> Some 4"
    and view: "po_top_container_view ex_poll_select_fails \<noteq> None"
    by (simp_all add: ex_poll_select_fails_def)
  have c1: "0 < GetMoveStepsToEnd (po_tabs ex_poll_select_fails) (Some 4) \<or>
            mode (drag_new_tab_state (ex_queued 1)) = 1"
    by (simp add: ex_queued_1)
  have c2: "\<not> (0 < GetMoveStepsToEnd (po_tabs ex_poll_select_fails) (Some 4) \<or>
            mode (drag_new_tab_state (ex_queued 2)) = 1)"
    by (simp add: ex_queued_2 ex_poll_select_fails_def GetMoveStepsToEnd_def GetTabIndex_def)
  have t1: "(if 0 < GetMoveStepsToEnd (po_tabs ex_poll_select_fails) (Some 4) \<or>
                mode (drag_new_tab_state (ex_queued 1)) = 1
      then poll_timer_set (DragNewTabTimerProc 1 ex_poll_select_fails (ex_queued 1)) \<and>
           drag_new_tab_state (DragNewTabTimerProc 1 ex_poll_select_fails (ex_queued 1)) =
             (drag_new_tab_state (ex_queued 1))
               \<lparr>check_attempts := check_attempts (drag_new_tab_state (ex_queued 1)) - 1\<rparr> \<and>
           issued (DragNewTabTimerProc 1 ex_poll_select_fails (ex_queued 1))
             = issued (ex_queued 1) @ [CmdSelectTab (Some 4)]
      else DragNewTabTimerProc 1 ex_poll_select_fails (ex_queued 1) =
             poll_terminal (po_tabs ex_poll_select_fails) (po_selected_tab ex_poll_select_fails)
               (Some 4) False
               (ExecuteCommand (CmdSelectTab (Some 4)) (poll_w1 1 (ex_queued 1))) \<and>
           drag_new_tab_timer (DragNewTabTimerProc 1 ex_poll_select_fails (ex_queued 1)) = 0 \<and>
           drag_new_tab_state (DragNewTabTimerProc 1 ex_poll_select_fails (ex_queued 1)) =
             (drag_new_tab_state (ex_queued 1))
               \<lparr>pending := False, check_attempts := 0, start_tabs := [], armed := False\<rparr>)
     \<and> filter is_move (issued (DragNewTabTimerProc 1 ex_poll_select_fails (ex_queued 1)))
         = filter is_move (issued (ex_queued 1))"
    by (rule poll_fire_selection_failed[OF _ _ _ view _ nt sel res])
       (simp_all add: ex_queued_1)
  have t2: "(if 0 < GetMoveStepsToEnd (po_tabs ex_poll_select_fails) (Some 4) \<or>
                mode (drag_new_tab_state (ex_queued 2)) = 1
      then poll_timer_set (DragNewTabTimerProc 1 ex_poll_select_fails (ex_queued 2)) \<and>
           drag_new_tab_state (DragNewTabTimerProc 1 ex_poll_select_fails (ex_queued 2)) =
             (drag_new_tab_state (ex_queued 2))
               \<lparr>check_attempts := check_attempts (drag_new_tab_state (ex_queued 2)) - 1\<rparr> \<and>
           issued (DragNewTabTimerProc 1 ex_poll_select_fails (ex_queued 2))
             = issued (ex_queued 2) @ [CmdSelectTab (Some 4)]
      else DragNewTabTimerProc 1 ex_poll_select_fails (ex_queued 2) =
             poll_terminal (po_tabs ex_poll_select_fails) (po_selected_tab ex_poll_select_fails)
               (Some 4) False
               (ExecuteCommand (CmdSelectTab (Some 4)) (poll_w1 1 (ex_queued 2))) \<and>
           drag_new_tab_timer (DragNewTabTimerProc 1 ex_poll_select_fails (ex_queued 2)) = 0 \<and>
           drag_new_tab_state (DragNewTabTimerProc 1 ex_poll_select_fails (ex_queued 2)) =
             (drag_new_tab_state (ex_queued 2))
               \<lparr>pending := False, check_attempts := 0, start_tabs := [], armed := False\<rparr>)
     \<and> filter is_move (issued (DragNewTabTimerProc 1 ex_poll_select_fails (ex_queued 2)))
         = filter is_move (issued (ex_queued 2))"
    by (rule poll_fire_selection_failed[OF _ _ _ view _ nt sel res])
       (simp_all add: ex_queued_2)
  note u1 = t1[unfolded if_P[OF c1]]
  note u2 = t2[unfolded if_not_P[OF c2]]
  from u1 u2 show ?thesis by blast
qed

subsection \<open>Claim C4\<close>

text \<open>
  The claim as stated says too much. After a primary-button-down during the in-flight
  session of the example, the mode, the window handle and the start selection of the
  session are still set; and after one in the world where the restore timer runs, that
  timer is still outstanding with its four attempts.
\<close>

theorem lbutton_down_effect_counterexample:
  "pending (drag_new_tab_state (ex_queued 2))
   \<and> mode (drag_new_tab_state (MouseProc_LBUTTONDOWN \<lparr>pt_x = 5, pt_y = 5\<rparr> (ex_queued 2))) = 2
   \<and> hwnd (drag_new_tab_state (MouseProc_LBUTTONDOWN \<lparr>pt_x = 5, pt_y = 5\<rparr> (ex_queued 2)))
       = Some 100
   \<and> start_selected_tab
        (drag_new_tab_state (MouseProc_LBUTTONDOWN \<lparr>pt_x = 5, pt_y = 5\<rparr> (ex_queued 2)))
       = Some 2
   \<and> start_selected_index
        (drag_new_tab_state (MouseProc_LBUTTONDOWN \<lparr>pt_x = 5, pt_y = 5\<rparr> (ex_queued 2)))
       = 1
   \<and> timer_outstanding DragNewTabRestoreTimerProc_ptr 2 ex_moved
   \<and> timer_outstanding DragNewTabRestoreTimerProc_ptr 2
        (MouseProc_LBUTTONDOWN \<lparr>pt_x = 5, pt_y = 5\<rparr> ex_moved)
   \<and> drag_new_tab_restore_timer (MouseProc_LBUTTONDOWN \<lparr>pt_x = 5, pt_y = 5\<rparr> ex_moved) = 2
   \<and> drag_new_tab_restore_attempts (MouseProc_LBUTTONDOWN \<lparr>pt_x = 5, pt_y = 5\<rparr> ex_moved) = 4"
  by (simp add: ex_queued_2 ex_moved_eq MouseProc_LBUTTONDOWN_def timer_outstanding_def
      Let_def prim_defs)

text \<open>
  C4 (amended). A primary-button-down event clears \<open>armed\<close> and \<open>pending\<close>, zeroes the
  remaining attempts, empties the start snapshot, records the point, and kills the poll
  timer without setting a new one (no poll timer is outstanding afterwards when the handles
  track the timers). It leaves every other field of the session (mode, window handle, drop
  point, start tab count, start-selected tab and index) and the restore timer, its ticket
  and its attempts as they were, and sends no command.
\<close>

theorem lbutton_down_effect:
  "armed (drag_new_tab_state (MouseProc_LBUTTONDOWN pt w)) = False
   \<and> pending (drag_new_tab_state (MouseProc_LBUTTONDOWN pt w)) = False
   \<and> check_attempts (drag_new_tab_state (MouseProc_LBUTTONDOWN pt w)) = 0
   \<and> start_tabs (drag_new_tab_state (MouseProc_LBUTTONDOWN pt w)) = []
   \<and> drag_new_tab_timer (MouseProc_LBUTTONDOWN pt w) = 0
   \<and> os_timers (MouseProc_LBUTTONDOWN pt w) =
       (if drag_new_tab_timer w = 0 then os_timers w
        else filter (\<lambda>e. timer_id e \<noteq> drag_new_tab_timer w) (os_timers w))
   \<and> os_last_timer_id (MouseProc_LBUTTONDOWN pt w) = os_last_timer_id w
   \<and> lbutton_down_point (MouseProc_LBUTTONDOWN pt w) = pt
   \<and> drag_new_tab_state (MouseProc_LBUTTONDOWN pt w) =
       (drag_new_tab_state w)
         \<lparr>armed := False, pending := False, check_attempts := 0, start_tabs := []\<rparr>
   \<and> drag_new_tab_restore_timer (MouseProc_LBUTTONDOWN pt w) = drag_new_tab_restore_timer w
   \<and> drag_new_tab_restore_tab (MouseProc_LBUTTONDOWN pt w) = drag_new_tab_restore_tab w
   \<and> drag_new_tab_restore_attempts (MouseProc_LBUTTONDOWN pt w)
       = drag_new_tab_restore_attempts w
   \<and> issued (MouseProc_LBUTTONDOWN pt w) = issued w
   \<and> (timers_tracked w \<longrightarrow>
         timers_of DragNewTabTimerProc_ptr (MouseProc_LBUTTONDOWN pt w) = [] \<and>
         timers_of DragNewTabRestoreTimerProc_ptr (MouseProc_LBUTTONDOWN pt w)
           = timers_of DragNewTabRestoreTimerProc_ptr w)"
proof -
  have tm: "os_timers (MouseProc_LBUTTONDOWN pt w) =
       (if drag_new_tab_timer w = 0 then os_timers w
        else filter (\<lambda>e. timer_id e \<noteq> drag_new_tab_timer w) (os_timers w))"
    by (simp add: MouseProc_LBUTTONDOWN_def Let_def kill_poll_timer_timers)
  have tr: "timers_of DragNewTabTimerProc_ptr (MouseProc_LBUTTONDOWN pt w) = [] \<and>
         timers_of DragNewTabRestoreTimerProc_ptr (MouseProc_LBUTTONDOWN pt w)
           = timers_of DragNewTabRestoreTimerProc_ptr w" if "timers_tracked w"
  proof (cases "drag_new_tab_timer w = 0")
    case True
    with tm have "os_timers (MouseProc_LBUTTONDOWN pt w) = os_timers w" by simp
    from timers_of_same[OF this] that True show ?thesis
      by (simp add: timers_tracked_def handle_ids_def)
  next
    case False
    with tm have "os_timers (MouseProc_LBUTTONDOWN pt w) =
        filter (\<lambda>e. timer_id e \<noteq> drag_new_tab_timer w) (os_timers w)" by simp
    from timers_of_filter_id[OF this] that False show ?thesis
      by (auto simp: timers_tracked_def handle_ids_def)
  qed
  show ?thesis
    using tm tr by (simp add: MouseProc_LBUTTONDOWN_def Let_def)
qed

theorem lbutton_down_effect_witness:
  "pending (drag_new_tab_state (MouseProc_LBUTTONDOWN \<lparr>pt_x = 5, pt_y = 5\<rparr> (ex_queued 2)))
     = False
   \<and> start_tabs (drag_new_tab_state (MouseProc_LBUTTONDOWN \<lparr>pt_x = 5, pt_y = 5\<rparr> (ex_queued 2)))
     = []
   \<and> drag_new_tab_timer (MouseProc_LBUTTONDOWN \<lparr>pt_x = 5, pt_y = 5\<rparr> (ex_queued 2)) = 0
   \<and> timers_of DragNewTabTimerProc_ptr
        (MouseProc_LBUTTONDOWN \<lparr>pt_x = 5, pt_y = 5\<rparr> (ex_queued 2)) = []"
proof -
  have "timers_tracked (ex_queued 2)"
    by (simp add: ex_queued_2 timers_tracked_def timers_of_def handle_ids_def)
  with lbutton_down_effect[of "\<lparr>pt_x = 5, pt_y = 5\<rparr>" "ex_queued 2"]
  show ?thesis by blast
qed

subsection \<open>Facts about the mode recorded in a pending session\<close>


lemma pending_mode_enabled_armed [simp]:
  "pending_mode_enabled (w\<lparr>drag_new_tab_state := (drag_new_tab_state w)\<lparr>armed := a\<rparr>\<rparr>)
     = pending_mode_enabled w"
  by (simp add: pending_mode_enabled_def)









subsection \<open>Claim C9\<close>




subsection \<open>Claim C10\<close>

text \<open>
  C10. A fire of the poll timer that reaches the terminal action (a new tab is identified,
  and either it is selected or no move is needed in mode 2) leaves the session as it was
  before the fire except for the four fields \<open>pending\<close>, \<open>check_attempts\<close>,
  \<open>start_tabs\<close> and \<open>armed\<close>, which it clears; the window handle, the mode, the drop
  point, the start-selected tab and index and the start tab count are unchanged. A later
  fire of the restore timer resolves its target from those surviving fields: the command
  it sends is the selection of \<^verbatim>\<open>ResolveRestoreTab\<close> of the session as it was before
  the terminal action, under the window handle of that session.
\<close>

theorem poll_terminal_frame:
  assumes "pending (drag_new_tab_state w)" and "0 < check_attempts (drag_new_tab_state w)"
    and "mode (drag_new_tab_state w) = 1 \<or> mode (drag_new_tab_state w) = 2"
    and "po_top_container_view ob \<noteq> None" and "start_tabs (drag_new_tab_state w) \<noteq> []"
    and "poll_new_tab (drag_new_tab_state w) ob = Some t"
    and "po_selected_tab ob = Some t \<or> (po_select_result ob \<and> po_now_selected ob = Some t) \<or>
         (GetMoveStepsToEnd (po_tabs ob) (Some t) \<le> 0 \<and> mode (drag_new_tab_state w) = 2)"
  shows
    "drag_new_tab_state (DragNewTabTimerProc tid ob w) =
       (drag_new_tab_state w)
         \<lparr>pending := False, check_attempts := 0, start_tabs := [], armed := False\<rparr>
     \<and> hwnd (drag_new_tab_state (DragNewTabTimerProc tid ob w)) = hwnd (drag_new_tab_state w)
     \<and> mode (drag_new_tab_state (DragNewTabTimerProc tid ob w)) = mode (drag_new_tab_state w)
     \<and> drop_point (drag_new_tab_state (DragNewTabTimerProc tid ob w))
         = drop_point (drag_new_tab_state w)
     \<and> start_selected_tab (drag_new_tab_state (DragNewTabTimerProc tid ob w))
         = start_selected_tab (drag_new_tab_state w)
     \<and> start_selected_index (drag_new_tab_state (DragNewTabTimerProc tid ob w))
         = start_selected_index (drag_new_tab_state w)
     \<and> start_tab_count (drag_new_tab_state (DragNewTabTimerProc tid ob w))
         = start_tab_count (drag_new_tab_state w)
     \<and> issued (DragNewTabRestoreTimerProc tid2 ro (DragNewTabTimerProc tid ob w)) =
         issued (DragNewTabTimerProc tid ob w) @
           (if 0 < drag_new_tab_restore_attempts (DragNewTabTimerProc tid ob w) \<and>
               hwnd (drag_new_tab_state w) \<noteq> None \<and> ro_top_container_view ro \<noteq> None \<and>
               ResolveRestoreTab (drag_new_tab_state w) (ro_tabs ro) \<noteq> None \<and>
               ro_selected_tab ro \<noteq> ResolveRestoreTab (drag_new_tab_state w) (ro_tabs ro)
            then [CmdSelectTab (ResolveRestoreTab (drag_new_tab_state w) (ro_tabs ro))]
            else [])"
proof -
  have eq: "DragNewTabTimerProc tid ob w = poll_select_and_move ob (Some t) (poll_w1 tid w)"
    using DragNewTabTimerProc_polling[OF assms(1-5), of tid] assms(6) by simp
  have nr: "\<not> (\<not> fst (ensure_selected ob (Some t) (poll_w1 tid w)) \<and>
         (GetMoveStepsToEnd (po_tabs ob) (Some t) > 0 \<or>
          mode (drag_new_tab_state (poll_w1 tid w)) = 1))"
    using assms(7) by (auto simp: ensure_selected_fst)
  have st: "drag_new_tab_state (DragNewTabTimerProc tid ob w) =
       (drag_new_tab_state w)
         \<lparr>pending := False, check_attempts := 0, start_tabs := [], armed := False\<rparr>"
    unfolding eq poll_select_and_move_cases if_not_P[OF nr] by simp
  show ?thesis
    unfolding DragNewTabRestoreTimerProc_issued unfolding st by simp
qed

theorem poll_terminal_frame_witness:
  "drag_new_tab_state (DragNewTabTimerProc 1 ex_poll_front (ex_queued 2)) =
       (drag_new_tab_state (ex_queued 2))
         \<lparr>pending := False, check_attempts := 0, start_tabs := [], armed := False\<rparr>
   \<and> hwnd (drag_new_tab_state (DragNewTabTimerProc 1 ex_poll_front (ex_queued 2))) = Some 100
   \<and> issued (DragNewTabRestoreTimerProc 2 ex_restore_obs
               (DragNewTabTimerProc 1 ex_poll_front (ex_queued 2))) =
       issued (DragNewTabTimerProc 1 ex_poll_front (ex_queued 2)) @ [CmdSelectTab (Some 3)]"
proof -
  let ?w = "ex_queued 2"
  let ?w' = "DragNewTabTimerProc 1 ex_poll_front ?w"
  have nt: "poll_new_tab (drag_new_tab_state ?w) ex_poll_front = Some 4"
    by (simp add: ex_queued_2 ex_poll_front_def poll_new_tab_def FindNewTabAfterDrag_def Let_def)
  have g: "pending (drag_new_tab_state ?w)" "0 < check_attempts (drag_new_tab_state ?w)"
    "mode (drag_new_tab_state ?w) = 1 \<or> mode (drag_new_tab_state ?w) = 2"
    "po_top_container_view ex_poll_front \<noteq> None" "start_tabs (drag_new_tab_state ?w) \<noteq> []"
    by (simp_all add: ex_queued_2 ex_poll_front_def)
  have sel: "po_selected_tab ex_poll_front = Some 4 \<or>
      (po_select_result ex_poll_front \<and> po_now_selected ex_poll_front = Some 4) \<or>
      (GetMoveStepsToEnd (po_tabs ex_poll_front) (Some 4) \<le> 0 \<and>
       mode (drag_new_tab_state ?w) = 2)"
    by (simp add: ex_poll_front_def)
  have h: "hwnd (drag_new_tab_state ?w) = Some 100"
    by (simp add: ex_queued_2)
  have r: "ResolveRestoreTab (drag_new_tab_state ?w) (ro_tabs ex_restore_obs) = Some 3"
    by (simp add: ex_queued_2 ex_restore_obs_def ResolveRestoreTab_def GetTabIndex_def
        GetTabByIndex_def)
  have c: "0 < drag_new_tab_restore_attempts ?w' \<and>
      Some 100 \<noteq> (None :: HWND) \<and> ro_top_container_view ex_restore_obs \<noteq> None \<and>
      Some 3 \<noteq> (None :: NodePtr) \<and> ro_selected_tab ex_restore_obs \<noteq> Some 3"
    using ex_moved_eq by (simp add: ex_moved_def ex_restore_obs_def)
  note t = poll_terminal_frame[OF g nt sel, of 1 2 ex_restore_obs, unfolded r h,
      unfolded if_P[OF c]]
  from t show ?thesis by blast
qed

subsection \<open>Facts about the restore timer procedure and its loop\<close>

lemma restore_timer_stop_fields [simp]:
  "drag_new_tab_state (restore_timer_stop tid w) = drag_new_tab_state w"
  "drag_new_tab_timer (restore_timer_stop tid w) = drag_new_tab_timer w"
  "drag_new_tab_restore_timer (restore_timer_stop tid w) = 0"
  "drag_new_tab_restore_tab (restore_timer_stop tid w) = None"
  "drag_new_tab_restore_attempts (restore_timer_stop tid w) = drag_new_tab_restore_attempts w"
  "lbutton_down_point (restore_timer_stop tid w) = lbutton_down_point w"
  "issued (restore_timer_stop tid w) = issued w"
  "os_last_timer_id (restore_timer_stop tid w) = os_last_timer_id w"
  "os_timers (restore_timer_stop tid w) = filter (\<lambda>e. timer_id e \<noteq> tid) (os_timers w)"
  by (simp_all add: restore_timer_stop_def KillTimer_def)

text \<open>The world of a restore fire before the timer is stopped or kept.\<close>

lemma DragNewTabRestoreTimerProc_cases:
  "DragNewTabRestoreTimerProc tid ro w =
     (if drag_new_tab_restore_attempts w \<le> 0 then restore_timer_stop tid w
      else if restore_fire_stops ro w
      then restore_timer_stop tid
             (w\<lparr>drag_new_tab_restore_attempts := drag_new_tab_restore_attempts w - 1,
                issued := issued (DragNewTabRestoreTimerProc tid ro w)\<rparr>)
      else w\<lparr>drag_new_tab_restore_attempts := drag_new_tab_restore_attempts w - 1,
             issued := issued (DragNewTabRestoreTimerProc tid ro w)\<rparr>)"
  unfolding DragNewTabRestoreTimerProc_issued
  by (auto simp: DragNewTabRestoreTimerProc_def restore_fire_stops_def Let_def
      restore_timer_stop_def KillTimer_def ExecuteCommand_def)

lemma DragNewTabRestoreTimerProc_attempts:
  "drag_new_tab_restore_attempts (DragNewTabRestoreTimerProc tid ro w) =
     (if drag_new_tab_restore_attempts w \<le> 0 then drag_new_tab_restore_attempts w
      else drag_new_tab_restore_attempts w - 1)"
  by (subst DragNewTabRestoreTimerProc_cases) simp

lemma DragNewTabRestoreTimerProc_handle:
  "drag_new_tab_restore_timer (DragNewTabRestoreTimerProc tid ro w) =
     (if restore_fire_stops ro w then 0 else drag_new_tab_restore_timer w)"
  by (subst DragNewTabRestoreTimerProc_cases) (auto simp: restore_fire_stops_def)

lemma DragNewTabRestoreTimerProc_timers:
  "os_timers (DragNewTabRestoreTimerProc tid ro w) =
     (if restore_fire_stops ro w then filter (\<lambda>e. timer_id e \<noteq> tid) (os_timers w)
      else os_timers w)"
  by (subst DragNewTabRestoreTimerProc_cases) (auto simp: restore_fire_stops_def)

lemma DragNewTabRestoreTimerProc_ticket:
  "drag_new_tab_restore_tab (DragNewTabRestoreTimerProc tid ro w) =
     (if restore_fire_stops ro w then None else drag_new_tab_restore_tab w)"
  by (subst DragNewTabRestoreTimerProc_cases) (auto simp: restore_fire_stops_def)

lemma restore_fire_kept:
  assumes "drag_new_tab_restore_timer (DragNewTabRestoreTimerProc tid ro w) \<noteq> 0"
  shows "0 < drag_new_tab_restore_attempts w \<and>
     drag_new_tab_restore_attempts (DragNewTabRestoreTimerProc tid ro w)
       = drag_new_tab_restore_attempts w - 1"
proof -
  from assms have "\<not> restore_fire_stops ro w"
    by (simp add: DragNewTabRestoreTimerProc_handle split: if_splits)
  then have "0 < drag_new_tab_restore_attempts w"
    by (simp add: restore_fire_stops_def)
  then show ?thesis
    by (simp add: DragNewTabRestoreTimerProc_attempts)
qed

lemma restore_fires_idle [simp]:
  "drag_new_tab_restore_timer w = 0 \<Longrightarrow> restore_fires obs w = w"
  by (cases obs) simp_all

lemma restore_fire_count_idle [simp]:
  "drag_new_tab_restore_timer w = 0 \<Longrightarrow> restore_fire_count obs w = 0"
  by (cases obs) simp_all

lemma restore_fire_count_le:
  "restore_fire_count obs w \<le> nat (drag_new_tab_restore_attempts w) + 1"
proof (induction obs arbitrary: w)
  case Nil
  then show ?case by simp
next
  case (Cons ob obs)
  show ?case
  proof (cases "drag_new_tab_restore_timer w = 0")
    case True
    then show ?thesis by simp
  next
    case False
    let ?w' = "DragNewTabRestoreTimerProc (drag_new_tab_restore_timer w) ob w"
    show ?thesis
    proof (cases "drag_new_tab_restore_timer ?w' = 0")
      case True
      with False show ?thesis by simp
    next
      case nz: False
      from restore_fire_kept[OF nz]
      have p: "0 < drag_new_tab_restore_attempts w"
        and e: "drag_new_tab_restore_attempts ?w' = drag_new_tab_restore_attempts w - 1"
        by simp_all
      from p have n: "nat (drag_new_tab_restore_attempts w - 1) + 1
          = nat (drag_new_tab_restore_attempts w)" by arith
      from Cons.IH[of ?w'] have "restore_fire_count obs ?w'
          \<le> nat (drag_new_tab_restore_attempts w - 1) + 1" by (simp add: e)
      with n False show ?thesis by simp
    qed
  qed
qed

lemma restore_fires_stop:
  "nat (drag_new_tab_restore_attempts w) < length obs \<Longrightarrow>
   drag_new_tab_restore_timer (restore_fires obs w) = 0"
proof (induction obs arbitrary: w)
  case Nil
  then show ?case by simp
next
  case (Cons ob obs)
  show ?case
  proof (cases "drag_new_tab_restore_timer w = 0")
    case True
    then show ?thesis by simp
  next
    case False
    let ?w' = "DragNewTabRestoreTimerProc (drag_new_tab_restore_timer w) ob w"
    show ?thesis
    proof (cases "drag_new_tab_restore_timer ?w' = 0")
      case True
      with False show ?thesis by simp
    next
      case nz: False
      from restore_fire_kept[OF nz]
      have p: "0 < drag_new_tab_restore_attempts w"
        and e: "drag_new_tab_restore_attempts ?w' = drag_new_tab_restore_attempts w - 1"
        by simp_all
      from p have n: "nat (drag_new_tab_restore_attempts w - 1) + 1
          = nat (drag_new_tab_restore_attempts w)" by arith
      with Cons.prems
      have "nat (drag_new_tab_restore_attempts ?w') < length obs" by (simp add: e)
      from Cons.IH[OF this] False show ?thesis by simp
    qed
  qed
qed

lemma restore_fires_issued_le:
  "length (issued (restore_fires obs w))
     \<le> length (issued w) + nat (drag_new_tab_restore_attempts w)"
proof (induction obs arbitrary: w)
  case Nil
  then show ?case by simp
next
  case (Cons ob obs)
  show ?case
  proof (cases "drag_new_tab_restore_timer w = 0")
    case True
    then show ?thesis by simp
  next
    case False
    let ?w' = "DragNewTabRestoreTimerProc (drag_new_tab_restore_timer w) ob w"
    have i: "length (issued ?w') \<le> length (issued w) +
        (if 0 < drag_new_tab_restore_attempts w then 1 else 0)"
      by (simp add: DragNewTabRestoreTimerProc_issued)
    have a: "drag_new_tab_restore_attempts ?w' =
        (if drag_new_tab_restore_attempts w \<le> 0 then drag_new_tab_restore_attempts w
         else drag_new_tab_restore_attempts w - 1)"
      by (rule DragNewTabRestoreTimerProc_attempts)
    from Cons.IH[of ?w'] i a False show ?thesis
      by (simp split: if_splits)
  qed
qed

subsection \<open>Facts about the snapshot of a pending session\<close>

lemma InitDragNewTabState_snapshot:
  assumes "sn_tabs sn \<noteq> []"
  shows "pending_has_snapshot (snd (InitDragNewTabState cfg h v sn w))"
proof (cases "(cfg \<noteq> 1 \<and> cfg \<noteq> 2) \<or> h = None \<or> v = None")
  case True
  then show ?thesis
    by (simp add: InitDragNewTabState_refused pending_has_snapshot_def initial_state_def)
next
  case False
  then have "cfg = 1 \<or> cfg = 2" "h \<noteq> None" "v \<noteq> None" by auto
  from InitDragNewTabState_ok[OF this] assms show ?thesis
    by (simp add: pending_has_snapshot_def)
qed

lemma pending_has_snapshot_armed [simp]:
  "pending_has_snapshot (w\<lparr>drag_new_tab_state := (drag_new_tab_state w)\<lparr>armed := a\<rparr>\<rparr>)
     = pending_has_snapshot w"
  by (simp add: pending_has_snapshot_def)

lemma MouseProc_MOUSEMOVE_snapshot:
  assumes "pending_has_snapshot w" and "sn_tabs (mo_snapshot mo) \<noteq> []"
  shows "pending_has_snapshot (MouseProc_MOUSEMOVE mo w)"
  using assms InitDragNewTabState_snapshot[OF assms(2)]
  by (simp add: MouseProc_MOUSEMOVE_def Let_def)

lemma QueueDragNewTabCheck_snapshot:
  assumes "pending_has_snapshot w" and "sn_tabs sn \<noteq> []"
  shows "pending_has_snapshot (QueueDragNewTabCheck cfg h v pt sn w)"
proof (cases "cfg = 1 \<or> cfg = 2")
  case False
  then show ?thesis
    by (simp add: QueueDragNewTabCheck_disabled pending_has_snapshot_def initial_state_def)
next
  case en: True
  let ?w1 = "w\<lparr>drag_new_tab_state := (drag_new_tab_state w)\<lparr>mode := cfg\<rparr>\<rparr>"
  show ?thesis
  proof (cases "start_tabs (drag_new_tab_state w) = [] \<or> hwnd (drag_new_tab_state w) \<noteq> h")
    case False
    then show ?thesis
      by (simp add: QueueDragNewTabCheck_enabled[OF en] pending_has_snapshot_def)
  next
    case True
    show ?thesis
    proof (cases "h = None \<or> v = None")
      case True
      then have "InitDragNewTabState cfg h v sn ?w1 = (False, ResetDragNewTabState ?w1)"
        by (intro InitDragNewTabState_refused) simp
      with \<open>start_tabs (drag_new_tab_state w) = [] \<or> hwnd (drag_new_tab_state w) \<noteq> h\<close>
      show ?thesis
        by (simp add: QueueDragNewTabCheck_enabled[OF en] pending_has_snapshot_def
            initial_state_def)
    next
      case False
      then have "h \<noteq> None" "v \<noteq> None" by auto
      from InitDragNewTabState_ok[OF en this, of sn ?w1] assms(2)
        \<open>start_tabs (drag_new_tab_state w) = [] \<or> hwnd (drag_new_tab_state w) \<noteq> h\<close>
      show ?thesis
        by (simp add: QueueDragNewTabCheck_enabled[OF en] pending_has_snapshot_def)
    qed
  qed
qed

lemma MouseProc_LBUTTONUP_snapshot:
  assumes "pending_has_snapshot w" and "sn_tabs (mo_snapshot mo) \<noteq> []"
  shows "pending_has_snapshot (MouseProc_LBUTTONUP mo w)"
  using assms QueueDragNewTabCheck_snapshot[OF assms, of "mo_config_mode mo" "mo_hwnd mo"
      "mo_top_container_view mo" "mo_pt mo"]
  by (simp add: MouseProc_LBUTTONUP_def Let_def pending_has_snapshot_def)

lemma MouseProc_LBUTTONDOWN_snapshot:
  "pending_has_snapshot (MouseProc_LBUTTONDOWN pt w)"
  by (simp add: MouseProc_LBUTTONDOWN_def Let_def pending_has_snapshot_def)

lemma DragNewTabTimerProc_snapshot:
  assumes "pending_has_snapshot w"
  shows "pending_has_snapshot (DragNewTabTimerProc tid ob w)"
proof (cases "drag_new_tab_timer (DragNewTabTimerProc tid ob w) = 0")
  case True
  from poll_fire_not_rescheduled[OF True] show ?thesis
    by (simp add: pending_has_snapshot_def)
next
  case False
  from poll_fire_rescheduled[OF False] assms show ?thesis
    by (simp add: pending_has_snapshot_def)
qed

lemma step_snapshot:
  "pending_has_snapshot w \<Longrightarrow> captures_tabs ev \<Longrightarrow> pending_has_snapshot (step ev w)"
proof (cases ev)
  case (EvRestoreFire tid ro)
  assume "pending_has_snapshot w"
  with EvRestoreFire show ?thesis by (simp add: pending_has_snapshot_def)
qed (simp_all add: MouseProc_MOUSEMOVE_snapshot MouseProc_LBUTTONUP_snapshot
    MouseProc_LBUTTONDOWN_snapshot DragNewTabTimerProc_snapshot)

lemma InitDragNewTabState_idle:
  "\<not> pending (drag_new_tab_state w) \<Longrightarrow>
   \<not> pending (drag_new_tab_state (snd (InitDragNewTabState cfg h v sn w)))"
  by (simp add: InitDragNewTabState_def initial_state_def)

lemma MouseProc_MOUSEMOVE_idle:
  assumes "\<not> pending (drag_new_tab_state w)"
  shows "\<not> pending (drag_new_tab_state (MouseProc_MOUSEMOVE mo w))"
proof -
  let ?w1 = "w\<lparr>drag_new_tab_state := (drag_new_tab_state w)\<lparr>armed := True\<rparr>\<rparr>"
  have "\<not> pending (drag_new_tab_state ?w1)" using assms by simp
  from InitDragNewTabState_idle[OF this] assms show ?thesis
    by (simp add: MouseProc_MOUSEMOVE_def Let_def)
qed

lemma QueueDragNewTabCheck_idle:
  assumes "\<not> pending (drag_new_tab_state w)"
  shows "pending_has_snapshot (QueueDragNewTabCheck cfg h v pt sn w)"
proof (cases "sn_tabs sn = []")
  case False
  from assms have "pending_has_snapshot w" by (simp add: pending_has_snapshot_def)
  from QueueDragNewTabCheck_snapshot[OF this False] show ?thesis .
next
  case empty: True
  show ?thesis
  proof (cases "cfg = 1 \<or> cfg = 2")
    case False
    then show ?thesis
      by (simp add: QueueDragNewTabCheck_disabled pending_has_snapshot_def initial_state_def)
  next
    case en: True
    let ?w1 = "w\<lparr>drag_new_tab_state := (drag_new_tab_state w)\<lparr>mode := cfg\<rparr>\<rparr>"
    show ?thesis
    proof (cases "start_tabs (drag_new_tab_state w) = [] \<or> hwnd (drag_new_tab_state w) \<noteq> h")
      case False
      then show ?thesis
        by (simp add: QueueDragNewTabCheck_enabled[OF en] pending_has_snapshot_def)
    next
      case True
      have i: "\<not> pending (drag_new_tab_state (snd (InitDragNewTabState cfg h v sn ?w1)))"
        using assms by (intro InitDragNewTabState_idle) simp
      have f: "\<not> fst (InitDragNewTabState cfg h v sn ?w1)"
        using empty by (simp add: InitDragNewTabState_def)
      from True i f show ?thesis
        by (simp add: QueueDragNewTabCheck_enabled[OF en] pending_has_snapshot_def)
    qed
  qed
qed

lemma MouseProc_LBUTTONUP_idle:
  assumes "\<not> pending (drag_new_tab_state w)"
  shows "pending_has_snapshot (MouseProc_LBUTTONUP mo w)"
  using assms QueueDragNewTabCheck_idle[OF assms, of "mo_config_mode mo" "mo_hwnd mo"
      "mo_top_container_view mo" "mo_pt mo" "mo_snapshot mo"]
  by (simp add: MouseProc_LBUTTONUP_def Let_def pending_has_snapshot_def)

lemma step_snapshot_idle:
  assumes "\<not> pending (drag_new_tab_state w)"
  shows "pending_has_snapshot (step ev w)"
proof (cases ev)
  case (EvMouseMove mo)
  with MouseProc_MOUSEMOVE_idle[OF assms, of mo] show ?thesis
    by (simp add: pending_has_snapshot_def)
next
  case (EvLButtonDown pt)
  then show ?thesis by (simp add: MouseProc_LBUTTONDOWN_snapshot)
next
  case (EvLButtonUp mo)
  with MouseProc_LBUTTONUP_idle[OF assms, of mo] show ?thesis by simp
next
  case (EvPollFire tid ob)
  from assms have "pending_has_snapshot w" by (simp add: pending_has_snapshot_def)
  from DragNewTabTimerProc_snapshot[OF this, of tid ob] EvPollFire show ?thesis by simp
next
  case (EvRestoreFire tid ro)
  with assms show ?thesis by (simp add: pending_has_snapshot_def)
qed

lemma step_snapshot_while:
  assumes "pending_has_snapshot w"
    and "pending (drag_new_tab_state w) \<longrightarrow> captures_tabs ev"
  shows "pending_has_snapshot (step ev w)"
proof (cases "pending (drag_new_tab_state w)")
  case True
  with assms(2) have "captures_tabs ev" by simp
  from step_snapshot[OF assms(1) this] show ?thesis .
next
  case False
  then show ?thesis by (rule step_snapshot_idle)
qed

lemma run_snapshot_while:
  "pending_has_snapshot w \<Longrightarrow> captures_while_pending evs w \<Longrightarrow>
   pending_has_snapshot (run evs w)"
  by (induction evs arbitrary: w) (simp_all add: step_snapshot_while)

lemma ex_empty_drop_eq:
  "MouseProc_LBUTTONUP ex_drop_empty
     (MouseProc_LBUTTONDOWN \<lparr>pt_x = 100, pt_y = 10\<rparr> initial_world) =
   initial_world\<lparr>drag_new_tab_state :=
     \<lparr>mode = 1, hwnd = Some 100, drop_point = \<lparr>pt_x = - 1, pt_y = - 1\<rparr>,
      start_tab_count = 0, start_selected_tab = None, start_selected_index = - 1,
      start_tabs = [], check_attempts = 0, armed = False, pending = False\<rparr>\<rparr>"
  by (simp add: ex_drop_empty_def ex_drop_def initial_world_def initial_state_def
      MouseProc_LBUTTONDOWN_def MouseProc_LBUTTONUP_def IsDragNewTabEnabled_def HandleDrag_def
      int32_def abs32_def
      QueueDragNewTabCheck_def QueueDragNewTabCheck_commit_def
      InitDragNewTabState_def GetTabIndex_def Let_def prim_defs)

lemma ex_second_drop_eq:
  "MouseProc_LBUTTONUP (ex_drop 1)
     (MouseProc_LBUTTONDOWN \<lparr>pt_x = 100, pt_y = 10\<rparr>
        (MouseProc_LBUTTONUP ex_drop_empty
           (MouseProc_LBUTTONDOWN \<lparr>pt_x = 100, pt_y = 10\<rparr> initial_world))) = ex_queued 1"
  unfolding ex_empty_drop_eq ex_queued_1
  by (simp add: ex_drop_def initial_world_def initial_state_def
      MouseProc_LBUTTONDOWN_def MouseProc_LBUTTONUP_def IsDragNewTabEnabled_def HandleDrag_def
      int32_def abs32_def
      QueueDragNewTabCheck_def QueueDragNewTabCheck_commit_def
      InitDragNewTabState_def GetTabIndex_def Let_def prim_defs
      kDragNewTabMaxAttempts_def)

subsection \<open>Claim C7\<close>

text \<open>
  The claim as stated fails when a snapshot is captured again while a session is pending
  and the probe reports an empty tab list: \<^verbatim>\<open>InitDragNewTabState\<close> stores the list before
  it looks at its emptiness and leaves \<open>pending\<close> as it is. Here a drop queues a check in
  the window 100, and then the pointer moves, with the button held, over the tab strip of
  the window 200 for which the probe reports no tab. (The next fire of the poll timer
  finds the empty snapshot and abandons the session.)
\<close>

theorem pending_snapshot_counterexample:
  "deliverable [EvLButtonDown \<lparr>pt_x = 100, pt_y = 10\<rparr>, EvLButtonUp (ex_drop 1),
                EvMouseMove ex_move_empty] initial_world
   \<and> pending (drag_new_tab_state
        (run [EvLButtonDown \<lparr>pt_x = 100, pt_y = 10\<rparr>, EvLButtonUp (ex_drop 1),
              EvMouseMove ex_move_empty] initial_world))
   \<and> start_tabs (drag_new_tab_state
        (run [EvLButtonDown \<lparr>pt_x = 100, pt_y = 10\<rparr>, EvLButtonUp (ex_drop 1),
              EvMouseMove ex_move_empty] initial_world)) = []
   \<and> \<not> pending_has_snapshot
        (run [EvLButtonDown \<lparr>pt_x = 100, pt_y = 10\<rparr>, EvLButtonUp (ex_drop 1),
              EvMouseMove ex_move_empty] initial_world)"
proof -
  have "run [EvLButtonDown \<lparr>pt_x = 100, pt_y = 10\<rparr>, EvLButtonUp (ex_drop 1),
              EvMouseMove ex_move_empty] initial_world
        = MouseProc_MOUSEMOVE ex_move_empty (ex_queued 1)"
    by (simp add: ex_queued_def)
  then show ?thesis
    by (simp add: ex_queued_1 ex_move_empty_def MouseProc_MOUSEMOVE_def
        IsDragNewTabEnabled_def InitDragNewTabState_def GetTabIndex_def Let_def
        pending_has_snapshot_def)
qed

text \<open>
  C7 (amended). In every state reached by any sequence of entry points (arming, drop,
  fires of the poll timer and of the restore timer, button-down) in which the tab list the
  probe reports to each pointer event delivered while a session is pending is not empty,
  the start snapshot is not empty whenever the session is pending. Pointer events
  delivered while no session is pending may see any tab list, the empty one included:
  a drop that sees no tab queues nothing.
\<close>

theorem pending_snapshot_invariant:
  assumes "captures_while_pending evs initial_world"
  shows "pending_has_snapshot (run evs initial_world)"
  using assms
  by (intro run_snapshot_while) (simp_all add: pending_has_snapshot_def initial_world_def
      initial_state_def)

theorem pending_snapshot_invariant_witness:
  "sn_tabs (mo_snapshot ex_drop_empty) = []
   \<and> \<not> pending (drag_new_tab_state
       (run [EvLButtonDown \<lparr>pt_x = 100, pt_y = 10\<rparr>, EvLButtonUp ex_drop_empty]
          initial_world))
   \<and> pending_has_snapshot
       (run [EvLButtonDown \<lparr>pt_x = 100, pt_y = 10\<rparr>, EvLButtonUp ex_drop_empty,
             EvLButtonDown \<lparr>pt_x = 100, pt_y = 10\<rparr>, EvLButtonUp (ex_drop 1),
             EvPollFire 1 ex_poll_none] initial_world)
   \<and> pending (drag_new_tab_state
       (run [EvLButtonDown \<lparr>pt_x = 100, pt_y = 10\<rparr>, EvLButtonUp ex_drop_empty,
             EvLButtonDown \<lparr>pt_x = 100, pt_y = 10\<rparr>, EvLButtonUp (ex_drop 1),
             EvPollFire 1 ex_poll_none] initial_world))"
proof -
  let ?p = "\<lparr>pt_x = 100, pt_y = 10\<rparr>"
  let ?evs = "[EvLButtonDown ?p, EvLButtonUp ex_drop_empty, EvLButtonDown ?p,
               EvLButtonUp (ex_drop 1), EvPollFire 1 ex_poll_none]"
  have e: "sn_tabs (mo_snapshot ex_drop_empty) = []"
    by (simp add: ex_drop_empty_def)
  have n0: "\<not> pending (drag_new_tab_state initial_world)"
    by (simp add: initial_world_def initial_state_def)
  have n1: "\<not> pending (drag_new_tab_state (MouseProc_LBUTTONDOWN ?p w))" for w
    by (simp add: MouseProc_LBUTTONDOWN_def Let_def)
  have n2: "\<not> pending (drag_new_tab_state
      (MouseProc_LBUTTONUP ex_drop_empty (MouseProc_LBUTTONDOWN ?p initial_world)))"
    unfolding ex_empty_drop_eq by simp
  have c: "captures_while_pending ?evs initial_world"
    using n0 n1 n2 by (simp add: ex_second_drop_eq)
  have inv: "pending_has_snapshot (run ?evs initial_world)"
    using c by (rule pending_snapshot_invariant)
  have r: "run ?evs initial_world = DragNewTabTimerProc 1 ex_poll_none (ex_queued 1)"
    by (simp add: ex_second_drop_eq)
  have "DragNewTabTimerProc 1 ex_poll_none (ex_queued 1)
        = poll_reschedule (poll_w1 1 (ex_queued 1))"
    by (rule poll_fire_no_new_tab)
       (simp_all add: ex_queued_1 no_new_tab_def ex_poll_none_def)
  then have p: "pending (drag_new_tab_state (DragNewTabTimerProc 1 ex_poll_none (ex_queued 1)))"
    by (simp add: ex_queued_1)
  have n2': "\<not> pending (drag_new_tab_state
       (run [EvLButtonDown ?p, EvLButtonUp ex_drop_empty] initial_world))"
    using n2 by simp
  from e n2' inv p show ?thesis
    unfolding r by simp
qed

subsection \<open>Facts about the timer handles\<close>

lemma handle_ids_filter:
  "filter (\<lambda>i. i \<noteq> t) (handle_ids h) = (if h = t then [] else handle_ids h)"
  by (simp add: handle_ids_def)

lemma tracked_same:
  assumes "timers_tracked w" and "os_timers w' = os_timers w"
    and "drag_new_tab_timer w' = drag_new_tab_timer w"
    and "drag_new_tab_restore_timer w' = drag_new_tab_restore_timer w"
    and "os_last_timer_id w' = os_last_timer_id w"
  shows "timers_tracked w'"
  using assms(1) timers_of_same[OF assms(2)]
  by (simp add: timers_tracked_def assms(3-5))

lemma tracked_kill_poll:
  assumes "timers_tracked w"
    and "os_timers w' = filter (\<lambda>e. timer_id e \<noteq> drag_new_tab_timer w) (os_timers w)"
    and "drag_new_tab_timer w' = 0"
    and "drag_new_tab_restore_timer w' = drag_new_tab_restore_timer w"
    and "os_last_timer_id w' = os_last_timer_id w"
  shows "timers_tracked w'"
  using assms(1) timers_of_filter_id[OF assms(2)]
  by (auto simp: timers_tracked_def assms(3-5) handle_ids_filter handle_ids_def)

lemma tracked_kill_restore:
  assumes "timers_tracked w"
    and "os_timers w' = filter (\<lambda>e. timer_id e \<noteq> drag_new_tab_restore_timer w) (os_timers w)"
    and "drag_new_tab_timer w' = drag_new_tab_timer w"
    and "drag_new_tab_restore_timer w' = 0"
    and "os_last_timer_id w' = os_last_timer_id w"
  shows "timers_tracked w'"
  using assms(1) timers_of_filter_id[OF assms(2)]
  by (auto simp: timers_tracked_def assms(3-5) handle_ids_filter handle_ids_def)

lemma tracked_set_poll:
  assumes "timers_tracked w" and "drag_new_tab_timer w = 0"
    and "os_timers w' = os_timers w @
      [\<lparr>timer_id = Suc (os_last_timer_id w), timer_elapse = ms,
        timer_proc = DragNewTabTimerProc_ptr\<rparr>]"
    and "drag_new_tab_timer w' = Suc (os_last_timer_id w)"
    and "drag_new_tab_restore_timer w' = drag_new_tab_restore_timer w"
    and "os_last_timer_id w' = Suc (os_last_timer_id w)"
  shows "timers_tracked w'"
  using assms(1,2) timers_of_append[OF assms(3)]
  by (auto simp: timers_tracked_def assms(4-6) handle_ids_def)

lemma tracked_set_restore:
  assumes "timers_tracked w" and "drag_new_tab_restore_timer w = 0"
    and "os_timers w' = os_timers w @
      [\<lparr>timer_id = Suc (os_last_timer_id w), timer_elapse = ms,
        timer_proc = DragNewTabRestoreTimerProc_ptr\<rparr>]"
    and "drag_new_tab_timer w' = drag_new_tab_timer w"
    and "drag_new_tab_restore_timer w' = Suc (os_last_timer_id w)"
    and "os_last_timer_id w' = Suc (os_last_timer_id w)"
  shows "timers_tracked w'"
  using assms(1,2) timers_of_append[OF assms(3)]
  by (auto simp: timers_tracked_def assms(4-6) handle_ids_def)

lemma tracked_kill_poll_timer: "timers_tracked w \<Longrightarrow> timers_tracked (kill_poll_timer w)"
proof (cases "drag_new_tab_timer w = 0")
  case True
  then show "timers_tracked w \<Longrightarrow> timers_tracked (kill_poll_timer w)"
    by (simp add: kill_poll_timer_def)
next
  case False
  assume "timers_tracked w"
  then show "timers_tracked (kill_poll_timer w)"
    by (rule tracked_kill_poll) (simp_all add: kill_poll_timer_timers False)
qed

lemma tracked_kill_restore_timer:
  "timers_tracked w \<Longrightarrow> timers_tracked (kill_restore_timer w)"
proof (cases "drag_new_tab_restore_timer w = 0")
  case True
  then show "timers_tracked w \<Longrightarrow> timers_tracked (kill_restore_timer w)"
    by (simp add: kill_restore_timer_def)
next
  case False
  assume "timers_tracked w"
  then show "timers_tracked (kill_restore_timer w)"
    by (rule tracked_kill_restore) (simp_all add: kill_restore_timer_timers False)
qed

lemma tracked_poll_reschedule:
  "timers_tracked w \<Longrightarrow> drag_new_tab_timer w = 0 \<Longrightarrow> timers_tracked (poll_reschedule w)"
  by (erule tracked_set_poll) simp_all

lemma tracked_state_update [simp]:
  "timers_tracked (w\<lparr>drag_new_tab_state := s\<rparr>) = timers_tracked w"
  by (simp add: timers_tracked_def timers_of_def)

lemma tracked_ResetDragNewTabState:
  assumes "timers_tracked w"
  shows "timers_tracked (ResetDragNewTabState w)"
proof -
  let ?w1 = "w\<lparr>drag_new_tab_state := (drag_new_tab_state w)
            \<lparr>mode := 0, hwnd := None, drop_point := \<lparr>pt_x = - 1, pt_y = - 1\<rparr>,
             start_tab_count := 0, start_selected_tab := None,
             start_selected_index := - 1, start_tabs := [], check_attempts := 0,
             armed := False, pending := False\<rparr>\<rparr>"
  have "timers_tracked (kill_restore_timer ?w1)"
    using assms by (intro tracked_kill_restore_timer) simp
  then show ?thesis
    by (rule tracked_same) (simp_all add: ResetDragNewTabState_def)
qed

lemma tracked_QueueDragNewTabRestore:
  assumes "timers_tracked w"
  shows "timers_tracked (QueueDragNewTabRestore tab w)"
proof -
  let ?w2 = "(kill_restore_timer w)
                 \<lparr>drag_new_tab_restore_tab := None, drag_new_tab_restore_attempts := 0\<rparr>"
  have k: "timers_tracked ?w2"
    using tracked_kill_restore_timer[OF assms] by (rule tracked_same) simp_all
  show ?thesis
  proof (cases "tab = None")
    case True
    with k show ?thesis by (simp add: QueueDragNewTabRestore_def Let_def)
  next
    case False
    from k show ?thesis
      by (rule tracked_set_restore)
         (simp_all add: QueueDragNewTabRestore_def Let_def SetTimer_def False)
  qed
qed

lemma tracked_InitDragNewTabState:
  assumes "timers_tracked w"
  shows "timers_tracked (snd (InitDragNewTabState cfg h v sn w))"
  using assms tracked_ResetDragNewTabState[OF assms]
  by (simp add: InitDragNewTabState_def)

lemma tracked_QueueDragNewTabCheck_commit:
  assumes "timers_tracked w"
  shows "timers_tracked (QueueDragNewTabCheck_commit pt w)"
proof -
  let ?w4 = "(kill_restore_timer w)\<lparr>drag_new_tab_restore_tab := None,
                  drag_new_tab_restore_attempts := 0,
                  drag_new_tab_state := (drag_new_tab_state (kill_restore_timer w))
                    \<lparr>drop_point := pt, pending := True,
                     check_attempts := kDragNewTabMaxAttempts\<rparr>\<rparr>"
  have "timers_tracked ?w4"
    using tracked_kill_restore_timer[OF assms] by (rule tracked_same) simp_all
  then have "timers_tracked (kill_poll_timer ?w4)"
    by (rule tracked_kill_poll_timer)
  then have "timers_tracked (poll_reschedule (kill_poll_timer ?w4))"
    by (rule tracked_poll_reschedule) simp
  then show ?thesis
    by (simp add: QueueDragNewTabCheck_commit_def Let_def)
qed

lemma tracked_QueueDragNewTabCheck:
  assumes "timers_tracked w"
  shows "timers_tracked (QueueDragNewTabCheck cfg h v pt sn w)"
proof (cases "cfg = 1 \<or> cfg = 2")
  case False
  with tracked_ResetDragNewTabState[OF assms] show ?thesis
    by (simp add: QueueDragNewTabCheck_disabled)
next
  case True
  let ?w1 = "w\<lparr>drag_new_tab_state := (drag_new_tab_state w)\<lparr>mode := cfg\<rparr>\<rparr>"
  have t1: "timers_tracked ?w1" using assms by simp
  note i = tracked_InitDragNewTabState[OF t1, of cfg h v sn]
  from t1 i tracked_QueueDragNewTabCheck_commit[OF t1, of pt]
    tracked_QueueDragNewTabCheck_commit[OF i, of pt]
  show ?thesis
    by (simp add: QueueDragNewTabCheck_enabled[OF True])
qed

lemma tracked_MouseProc_MOUSEMOVE:
  assumes "timers_tracked w"
  shows "timers_tracked (MouseProc_MOUSEMOVE mo w)"
proof -
  let ?w1 = "w\<lparr>drag_new_tab_state := (drag_new_tab_state w)\<lparr>armed := True\<rparr>\<rparr>"
  have t1: "timers_tracked ?w1" using assms by simp
  from assms t1 tracked_InitDragNewTabState[OF t1] show ?thesis
    by (simp add: MouseProc_MOUSEMOVE_def Let_def)
qed

lemma tracked_MouseProc_LBUTTONDOWN:
  assumes "timers_tracked w"
  shows "timers_tracked (MouseProc_LBUTTONDOWN pt w)"
proof -
  let ?w1 = "w\<lparr>lbutton_down_point := pt,
                drag_new_tab_state := (drag_new_tab_state w)\<lparr>armed := False\<rparr>\<rparr>"
  have "timers_tracked ?w1"
    using assms by (rule tracked_same) simp_all
  then have "timers_tracked (kill_poll_timer ?w1)"
    by (rule tracked_kill_poll_timer)
  then show ?thesis
    by (simp add: MouseProc_LBUTTONDOWN_def Let_def)
qed

lemma tracked_MouseProc_LBUTTONUP:
  assumes "timers_tracked w"
  shows "timers_tracked (MouseProc_LBUTTONUP mo w)"
proof -
  have a: "timers_tracked (w'\<lparr>drag_new_tab_state := s, lbutton_down_point := p\<rparr>)"
    if "timers_tracked w'" for w' s p
    using that by (rule tracked_same) simp_all
  from a[OF assms] a[OF tracked_QueueDragNewTabCheck[OF assms]] show ?thesis
    by (simp add: MouseProc_LBUTTONUP_def Let_def)
qed

lemma tracked_ExecuteCommand [simp]:
  "timers_tracked (ExecuteCommand c w) = timers_tracked w"
  by (simp add: timers_tracked_def timers_of_def ExecuteCommand_def)

lemma tracked_poll_terminal:
  assumes "timers_tracked w"
  shows "timers_tracked (poll_terminal tabs sel nt b w)"
proof -
  have "timers_tracked (QueueDragNewTabRestore r (ExecuteCommand c w))" for r c
    using assms by (intro tracked_QueueDragNewTabRestore) simp
  with assms show ?thesis
    by (simp add: poll_terminal_def Let_def)
qed

lemma tracked_poll_select_and_move:
  assumes "timers_tracked w" and "drag_new_tab_timer w = 0"
  shows "timers_tracked (poll_select_and_move ob nt w)"
proof -
  have e: "timers_tracked (snd (ensure_selected ob nt w))"
    using assms(1) by (rule tracked_same) simp_all
  have m: "timers_tracked (MoveSelectedTabToEnd h k (snd (ensure_selected ob nt w)))" for h k
    using e by (rule tracked_same) simp_all
  from tracked_poll_reschedule[OF e] tracked_poll_terminal[OF e] tracked_poll_terminal[OF m]
    assms(2)
  show ?thesis
    by (simp add: poll_select_and_move_cases)
qed

lemma outstanding_handle:
  assumes "timers_tracked w" and "timer_outstanding cb tid w"
  shows "tid \<noteq> 0 \<and>
    tid = (if cb = DragNewTabTimerProc_ptr then drag_new_tab_timer w
           else drag_new_tab_restore_timer w)"
proof -
  from assms(2) have "tid \<in> set (timers_of cb w)"
    by (auto simp: timer_outstanding_def timers_of_def list_ex_iff)
  with assms(1) show ?thesis
    by (cases cb) (auto simp: timers_tracked_def handle_ids_def split: if_splits)
qed

lemma tracked_DragNewTabTimerProc:
  assumes "timers_tracked w" and "timer_outstanding DragNewTabTimerProc_ptr tid w"
  shows "timers_tracked (DragNewTabTimerProc tid ob w)"
proof -
  from outstanding_handle[OF assms] have tid: "tid = drag_new_tab_timer w" and nz: "tid \<noteq> 0"
    by simp_all
  have w0: "timers_tracked ((KillTimer tid w)\<lparr>drag_new_tab_timer := 0\<rparr>)"
    using assms(1) by (rule tracked_kill_poll) (simp_all add: KillTimer_def tid)
  have w1: "timers_tracked (poll_w1 tid w)"
    using assms(1) by (rule tracked_kill_poll) (simp_all add: tid)
  show ?thesis
  proof (cases "pending (drag_new_tab_state w)")
    case False
    with w0 show ?thesis by (simp add: DragNewTabTimerProc_idle)
  next
    case p: True
    show ?thesis
    proof (cases "check_attempts (drag_new_tab_state w) \<le> 0 \<or>
         (mode (drag_new_tab_state w) \<noteq> 1 \<and> mode (drag_new_tab_state w) \<noteq> 2) \<or>
         po_top_container_view ob = None \<or> start_tabs (drag_new_tab_state w) = []")
      case True
      from tracked_ResetDragNewTabState[OF w0] tracked_ResetDragNewTabState[OF w1]
      show ?thesis
        unfolding DragNewTabTimerProc_abandon[OF p True] by simp
    next
      case False
      then have c: "0 < check_attempts (drag_new_tab_state w)"
        and m: "mode (drag_new_tab_state w) = 1 \<or> mode (drag_new_tab_state w) = 2"
        and v: "po_top_container_view ob \<noteq> None"
        and s: "start_tabs (drag_new_tab_state w) \<noteq> []"
        by auto
      from tracked_poll_reschedule[OF w1] tracked_poll_select_and_move[OF w1]
      show ?thesis
        unfolding DragNewTabTimerProc_polling[OF p c m v s] by simp
    qed
  qed
qed

lemma tracked_DragNewTabRestoreTimerProc:
  assumes "timers_tracked w" and "timer_outstanding DragNewTabRestoreTimerProc_ptr tid w"
  shows "timers_tracked (DragNewTabRestoreTimerProc tid ro w)"
proof -
  from outstanding_handle[OF assms] have tid: "tid = drag_new_tab_restore_timer w"
    by simp
  show ?thesis
  proof (cases "restore_fire_stops ro w")
    case True
    from assms(1) show ?thesis
      by (rule tracked_kill_restore)
         (simp_all add: DragNewTabRestoreTimerProc_timers DragNewTabRestoreTimerProc_handle
           True tid)
  next
    case False
    from assms(1) show ?thesis
      by (rule tracked_same)
         (simp_all add: DragNewTabRestoreTimerProc_timers DragNewTabRestoreTimerProc_handle
           False)
  qed
qed

lemma tracked_step:
  "timers_tracked w \<Longrightarrow> enabled ev w \<Longrightarrow> timers_tracked (step ev w)"
  by (cases ev)
     (simp_all add: tracked_MouseProc_MOUSEMOVE tracked_MouseProc_LBUTTONDOWN
       tracked_MouseProc_LBUTTONUP tracked_DragNewTabTimerProc
       tracked_DragNewTabRestoreTimerProc)

lemma tracked_run:
  "timers_tracked w \<Longrightarrow> deliverable evs w \<Longrightarrow> timers_tracked (run evs w)"
  by (induction evs arbitrary: w) (simp_all add: tracked_step)

lemma tracked_initial: "timers_tracked initial_world"
  by (simp add: timers_tracked_def timers_of_def handle_ids_def initial_world_def)

lemma tracked_at_most_one:
  "timers_tracked w \<Longrightarrow> length (timers_of cb w) \<le> 1"
  by (cases cb) (simp_all add: timers_tracked_def handle_ids_def)

lemma poll_fire_new_handle:
  assumes "drag_new_tab_timer (DragNewTabTimerProc tid ob w) \<noteq> 0"
  shows "drag_new_tab_timer (DragNewTabTimerProc tid ob w) = Suc (os_last_timer_id w)"
proof -
  have p: "pending (drag_new_tab_state w)"
    using poll_fire_rescheduled[OF assms] by simp
  have g: "\<not> (check_attempts (drag_new_tab_state w) \<le> 0 \<or>
         (mode (drag_new_tab_state w) \<noteq> 1 \<and> mode (drag_new_tab_state w) \<noteq> 2) \<or>
         po_top_container_view ob = None \<or> start_tabs (drag_new_tab_state w) = [])"
  proof
    assume a: "check_attempts (drag_new_tab_state w) \<le> 0 \<or>
         (mode (drag_new_tab_state w) \<noteq> 1 \<and> mode (drag_new_tab_state w) \<noteq> 2) \<or>
         po_top_container_view ob = None \<or> start_tabs (drag_new_tab_state w) = []"
    have "drag_new_tab_timer (DragNewTabTimerProc tid ob w) = 0"
      unfolding DragNewTabTimerProc_abandon[OF p a] by simp
    with assms show False by simp
  qed
  then have c: "0 < check_attempts (drag_new_tab_state w)"
    and m: "mode (drag_new_tab_state w) = 1 \<or> mode (drag_new_tab_state w) = 2"
    and v: "po_top_container_view ob \<noteq> None" and s: "start_tabs (drag_new_tab_state w) \<noteq> []"
    by auto
  note eq = DragNewTabTimerProc_polling[OF p c m v s, of tid]
  show ?thesis
  proof (cases "poll_new_tab (drag_new_tab_state w) ob = None")
    case True
    with eq show ?thesis by simp
  next
    case False
    let ?nt = "poll_new_tab (drag_new_tab_state w) ob"
    have e2: "DragNewTabTimerProc tid ob w
        = poll_select_and_move ob ?nt (poll_w1 tid w)"
      by (simp only: eq if_not_P[OF False])
    show ?thesis
    proof (cases "\<not> fst (ensure_selected ob ?nt (poll_w1 tid w)) \<and>
         (GetMoveStepsToEnd (po_tabs ob) ?nt > 0 \<or>
          mode (drag_new_tab_state (poll_w1 tid w)) = 1)")
      case True
      show ?thesis
        unfolding e2 poll_select_and_move_cases if_P[OF True] by simp
    next
      case False
      have "drag_new_tab_timer (DragNewTabTimerProc tid ob w) = 0"
        unfolding e2 poll_select_and_move_cases if_not_P[OF False] by simp
      with assms show ?thesis by simp
    qed
  qed
qed

subsection \<open>Claim C8\<close>

text \<open>
  C8. In every state reached from the initial one by a sequence of entry points that can
  be delivered (a timer procedure is called only for an outstanding timer set with that
  procedure), at most one poll timer and at most one restore timer are outstanding, and the
  handles track them. Every operation that creates a timer first kills the timer its
  handle names: after the queueing of a check, after the queueing of a restore and after
  a fire of the poll timer that sets the timer again, the only outstanding timer of that
  kind is the new one, and the timer the handle named before (for the fire, the timer
  that fired) is no longer outstanding.
\<close>

theorem timers_at_most_one:
  "(deliverable evs initial_world \<longrightarrow>
      length (timers_of DragNewTabTimerProc_ptr (run evs initial_world)) \<le> 1 \<and>
      length (timers_of DragNewTabRestoreTimerProc_ptr (run evs initial_world)) \<le> 1 \<and>
      timers_tracked (run evs initial_world))
   \<and> (timers_tracked w \<longrightarrow>
        timers_of DragNewTabTimerProc_ptr (QueueDragNewTabCheck_commit pt w)
          = [drag_new_tab_timer (QueueDragNewTabCheck_commit pt w)] \<and>
        drag_new_tab_timer w
          \<notin> set (timers_of DragNewTabTimerProc_ptr (QueueDragNewTabCheck_commit pt w)) \<and>
        (tab \<noteq> None \<longrightarrow>
           timers_of DragNewTabRestoreTimerProc_ptr (QueueDragNewTabRestore tab w)
             = [drag_new_tab_restore_timer (QueueDragNewTabRestore tab w)] \<and>
           drag_new_tab_restore_timer w
             \<notin> set (timers_of DragNewTabRestoreTimerProc_ptr (QueueDragNewTabRestore tab w))) \<and>
        (timer_outstanding DragNewTabTimerProc_ptr tid w \<and>
         drag_new_tab_timer (DragNewTabTimerProc tid ob w) \<noteq> 0 \<longrightarrow>
           timers_of DragNewTabTimerProc_ptr (DragNewTabTimerProc tid ob w)
             = [drag_new_tab_timer (DragNewTabTimerProc tid ob w)] \<and>
           tid \<notin> set (timers_of DragNewTabTimerProc_ptr (DragNewTabTimerProc tid ob w))))"
proof (intro conjI impI)
  assume d: "deliverable evs initial_world"
  from tracked_run[OF tracked_initial d]
  show t: "timers_tracked (run evs initial_world)" .
  from tracked_at_most_one[OF t]
  show "length (timers_of DragNewTabTimerProc_ptr (run evs initial_world)) \<le> 1"
    and "length (timers_of DragNewTabRestoreTimerProc_ptr (run evs initial_world)) \<le> 1"
    by simp_all
next
  assume t: "timers_tracked w"
  have old: "drag_new_tab_timer w \<le> os_last_timer_id w"
    using t by (simp add: timers_tracked_def)
  from tracked_QueueDragNewTabCheck_commit[OF t, of pt]
  show c: "timers_of DragNewTabTimerProc_ptr (QueueDragNewTabCheck_commit pt w)
          = [drag_new_tab_timer (QueueDragNewTabCheck_commit pt w)]"
    by (simp add: timers_tracked_def handle_ids_def)
  from old show "drag_new_tab_timer w
          \<notin> set (timers_of DragNewTabTimerProc_ptr (QueueDragNewTabCheck_commit pt w))"
    unfolding c by simp
next
  assume t: "timers_tracked w" and tab: "tab \<noteq> None"
  have old: "drag_new_tab_restore_timer w \<le> os_last_timer_id w"
    using t by (simp add: timers_tracked_def)
  note q = QueueDragNewTabRestore_some[OF tab, of w]
  from tracked_QueueDragNewTabRestore[OF t, of tab] q
  show c: "timers_of DragNewTabRestoreTimerProc_ptr (QueueDragNewTabRestore tab w)
             = [drag_new_tab_restore_timer (QueueDragNewTabRestore tab w)]"
    by (simp add: timers_tracked_def handle_ids_def)
  from old q show "drag_new_tab_restore_timer w
             \<notin> set (timers_of DragNewTabRestoreTimerProc_ptr (QueueDragNewTabRestore tab w))"
    unfolding c by simp
next
  assume t: "timers_tracked w"
    and f: "timer_outstanding DragNewTabTimerProc_ptr tid w \<and>
         drag_new_tab_timer (DragNewTabTimerProc tid ob w) \<noteq> 0"
  from outstanding_handle[of w DragNewTabTimerProc_ptr tid] t f
  have tid: "tid = drag_new_tab_timer w" by simp
  have old: "drag_new_tab_timer w \<le> os_last_timer_id w"
    using t by (simp add: timers_tracked_def)
  from f have h: "drag_new_tab_timer (DragNewTabTimerProc tid ob w) = Suc (os_last_timer_id w)"
    by (intro poll_fire_new_handle) simp
  from tracked_DragNewTabTimerProc[OF t, of tid ob] f
  show c: "timers_of DragNewTabTimerProc_ptr (DragNewTabTimerProc tid ob w)
             = [drag_new_tab_timer (DragNewTabTimerProc tid ob w)]"
    by (simp add: timers_tracked_def handle_ids_def)
  from old h tid
  show "tid \<notin> set (timers_of DragNewTabTimerProc_ptr (DragNewTabTimerProc tid ob w))"
    unfolding c by simp
qed

theorem timers_at_most_one_witness:
  "length (timers_of DragNewTabTimerProc_ptr
     (run [EvLButtonDown \<lparr>pt_x = 100, pt_y = 10\<rparr>, EvLButtonUp (ex_drop 2),
           EvPollFire 1 ex_poll_front, EvRestoreFire 2 ex_restore_obs] initial_world)) \<le> 1
   \<and> length (timers_of DragNewTabRestoreTimerProc_ptr
     (run [EvLButtonDown \<lparr>pt_x = 100, pt_y = 10\<rparr>, EvLButtonUp (ex_drop 2),
           EvPollFire 1 ex_poll_front, EvRestoreFire 2 ex_restore_obs] initial_world)) \<le> 1
   \<and> timers_of DragNewTabTimerProc_ptr
       (QueueDragNewTabCheck_commit \<lparr>pt_x = 300, pt_y = 10\<rparr> (ex_queued 2))
       = [drag_new_tab_timer
           (QueueDragNewTabCheck_commit \<lparr>pt_x = 300, pt_y = 10\<rparr> (ex_queued 2))]
   \<and> timers_of DragNewTabRestoreTimerProc_ptr (QueueDragNewTabRestore (Some 3) ex_moved)
       = [drag_new_tab_restore_timer (QueueDragNewTabRestore (Some 3) ex_moved)]"
proof -
  let ?evs = "[EvLButtonDown \<lparr>pt_x = 100, pt_y = 10\<rparr>, EvLButtonUp (ex_drop 2),
           EvPollFire 1 ex_poll_front, EvRestoreFire 2 ex_restore_obs]"
  have q: "MouseProc_LBUTTONUP (ex_drop 2)
             (MouseProc_LBUTTONDOWN \<lparr>pt_x = 100, pt_y = 10\<rparr> initial_world) = ex_queued 2"
    by (simp add: ex_queued_def)
  have o1: "timer_outstanding DragNewTabTimerProc_ptr 1 (ex_queued 2)"
    by (simp add: ex_queued_2 timer_outstanding_def)
  have o2: "timer_outstanding DragNewTabRestoreTimerProc_ptr 2 ex_moved"
    by (simp add: ex_moved_eq timer_outstanding_def)
  have d: "deliverable ?evs initial_world"
    using o1 o2 by (simp add: q ex_moved_def)
  have t2: "timers_tracked (ex_queued 2)"
    by (simp add: ex_queued_2 timers_tracked_def timers_of_def handle_ids_def)
  have t3: "timers_tracked ex_moved"
    by (simp add: ex_moved_eq timers_tracked_def timers_of_def handle_ids_def)
  have s: "Some 3 \<noteq> (None :: NodePtr)"
    by simp
  from timers_at_most_one[of ?evs "ex_queued 2" "\<lparr>pt_x = 300, pt_y = 10\<rparr>" "Some 3" 1
      ex_poll_front] d t2
  have a: "length (timers_of DragNewTabTimerProc_ptr (run ?evs initial_world)) \<le> 1"
    and b: "length (timers_of DragNewTabRestoreTimerProc_ptr (run ?evs initial_world)) \<le> 1"
    and c: "timers_of DragNewTabTimerProc_ptr
       (QueueDragNewTabCheck_commit \<lparr>pt_x = 300, pt_y = 10\<rparr> (ex_queued 2))
       = [drag_new_tab_timer
           (QueueDragNewTabCheck_commit \<lparr>pt_x = 300, pt_y = 10\<rparr> (ex_queued 2))]"
    by blast+
  from timers_at_most_one[of ?evs ex_moved "\<lparr>pt_x = 300, pt_y = 10\<rparr>" "Some 3" 1
      ex_poll_front] t3 s
  have e: "timers_of DragNewTabRestoreTimerProc_ptr (QueueDragNewTabRestore (Some 3) ex_moved)
       = [drag_new_tab_restore_timer (QueueDragNewTabRestore (Some 3) ex_moved)]"
    by blast
  from a b c e show ?thesis by blast
qed

subsection \<open>Facts about the window handle of a session\<close>

text \<open>
  While a start snapshot is stored or a restore timer is set, the session has a window
  handle: the snapshot is only stored together with a non-null handle, the restore timer
  is only set by a poll fire that found the snapshot non-empty, and the handle is only
  cleared by the reset, which empties the snapshot and kills the restore timer.
\<close>

lemma InitDragNewTabState_bound:
  "session_bound (snd (InitDragNewTabState cfg h v sn w))"
  by (auto simp: InitDragNewTabState_def session_bound_def initial_state_def)

lemma session_bound_armed [simp]:
  "session_bound (w\<lparr>drag_new_tab_state := (drag_new_tab_state w)\<lparr>armed := a\<rparr>\<rparr>)
     = session_bound w"
  by (simp add: session_bound_def)

lemma MouseProc_MOUSEMOVE_bound:
  "session_bound w \<Longrightarrow> session_bound (MouseProc_MOUSEMOVE mo w)"
  by (simp add: MouseProc_MOUSEMOVE_def Let_def InitDragNewTabState_bound)

lemma MouseProc_LBUTTONDOWN_bound:
  "session_bound w \<Longrightarrow> session_bound (MouseProc_LBUTTONDOWN pt w)"
  by (simp add: MouseProc_LBUTTONDOWN_def Let_def session_bound_def)

lemma QueueDragNewTabCheck_commit_bound:
  "hwnd (drag_new_tab_state w) \<noteq> None \<Longrightarrow> session_bound (QueueDragNewTabCheck_commit pt w)"
  by (simp add: session_bound_def)

lemma QueueDragNewTabCheck_bound:
  assumes "session_bound w"
  shows "session_bound (QueueDragNewTabCheck cfg h v pt sn w)"
proof (cases "cfg = 1 \<or> cfg = 2")
  case False
  then show ?thesis
    by (simp add: QueueDragNewTabCheck_disabled session_bound_def initial_state_def)
next
  case en: True
  let ?w1 = "w\<lparr>drag_new_tab_state := (drag_new_tab_state w)\<lparr>mode := cfg\<rparr>\<rparr>"
  show ?thesis
  proof (cases "start_tabs (drag_new_tab_state w) = [] \<or> hwnd (drag_new_tab_state w) \<noteq> h")
    case False
    with assms have "hwnd (drag_new_tab_state ?w1) \<noteq> None"
      by (simp add: session_bound_def)
    from QueueDragNewTabCheck_commit_bound[OF this, of pt] False show ?thesis
      by (simp add: QueueDragNewTabCheck_enabled[OF en])
  next
    case True
    show ?thesis
    proof (cases "fst (InitDragNewTabState cfg h v sn ?w1)")
      case False
      with True InitDragNewTabState_bound[of cfg h v sn ?w1] show ?thesis
        by (simp add: QueueDragNewTabCheck_enabled[OF en])
    next
      case ok: True
      then have "h \<noteq> None \<and> v \<noteq> None"
        by (auto simp: InitDragNewTabState_def split: if_splits)
      then have hv: "h \<noteq> None" "v \<noteq> None" by simp_all
      from hv(1) have "hwnd (drag_new_tab_state (snd (InitDragNewTabState cfg h v sn ?w1)))
          \<noteq> None"
        by (simp add: InitDragNewTabState_ok[OF en hv])
      from QueueDragNewTabCheck_commit_bound[OF this, of pt] True ok show ?thesis
        by (simp add: QueueDragNewTabCheck_enabled[OF en])
    qed
  qed
qed

lemma MouseProc_LBUTTONUP_bound:
  assumes "session_bound w"
  shows "session_bound (MouseProc_LBUTTONUP mo w)"
  using assms QueueDragNewTabCheck_bound[OF assms, of "mo_config_mode mo" "mo_hwnd mo"
      "mo_top_container_view mo" "mo_pt mo" "mo_snapshot mo"]
  by (simp add: MouseProc_LBUTTONUP_def Let_def session_bound_def)

lemma poll_select_and_move_hwnd:
  "hwnd (drag_new_tab_state (poll_select_and_move ob nt w)) = hwnd (drag_new_tab_state w)"
  by (simp add: poll_select_and_move_cases)

lemma DragNewTabTimerProc_bound:
  assumes "session_bound w"
  shows "session_bound (DragNewTabTimerProc tid ob w)"
proof (cases "pending (drag_new_tab_state w)")
  case False
  with assms show ?thesis
    by (simp add: DragNewTabTimerProc_idle session_bound_def KillTimer_def)
next
  case p: True
  show ?thesis
  proof (cases "check_attempts (drag_new_tab_state w) \<le> 0 \<or>
         (mode (drag_new_tab_state w) \<noteq> 1 \<and> mode (drag_new_tab_state w) \<noteq> 2) \<or>
         po_top_container_view ob = None \<or> start_tabs (drag_new_tab_state w) = []")
    case True
    show ?thesis
      unfolding DragNewTabTimerProc_abandon[OF p True]
      by (simp add: session_bound_def initial_state_def)
  next
    case False
    then have c: "0 < check_attempts (drag_new_tab_state w)"
      and m: "mode (drag_new_tab_state w) = 1 \<or> mode (drag_new_tab_state w) = 2"
      and v: "po_top_container_view ob \<noteq> None" and s: "start_tabs (drag_new_tab_state w) \<noteq> []"
      by auto
    from s assms have h: "hwnd (drag_new_tab_state w) \<noteq> None"
      by (simp add: session_bound_def)
    have "hwnd (drag_new_tab_state (DragNewTabTimerProc tid ob w)) = hwnd (drag_new_tab_state w)"
      unfolding DragNewTabTimerProc_polling[OF p c m v s, of tid]
      by (simp add: poll_select_and_move_hwnd)
    with h show ?thesis by (simp add: session_bound_def)
  qed
qed

lemma DragNewTabRestoreTimerProc_bound:
  "session_bound w \<Longrightarrow> session_bound (DragNewTabRestoreTimerProc tid ro w)"
  by (simp add: session_bound_def DragNewTabRestoreTimerProc_handle)

lemma step_bound: "session_bound w \<Longrightarrow> session_bound (step ev w)"
  by (cases ev)
     (simp_all add: MouseProc_MOUSEMOVE_bound MouseProc_LBUTTONDOWN_bound
        MouseProc_LBUTTONUP_bound DragNewTabTimerProc_bound DragNewTabRestoreTimerProc_bound)

lemma run_bound: "session_bound w \<Longrightarrow> session_bound (run evs w)"
  by (induction evs arbitrary: w) (simp_all add: step_bound)

lemma bound_initial: "session_bound initial_world"
  by (simp add: session_bound_def initial_world_def initial_state_def)

lemma ex_restore_run:
  "run [EvLButtonDown \<lparr>pt_x = 100, pt_y = 10\<rparr>, EvLButtonUp (ex_drop 2),
        EvPollFire 1 ex_poll_front] initial_world = ex_moved"
  by (simp add: ex_queued_def ex_moved_def)

lemma ex_restore_deliverable:
  "deliverable [EvLButtonDown \<lparr>pt_x = 100, pt_y = 10\<rparr>, EvLButtonUp (ex_drop 2),
        EvPollFire 1 ex_poll_front] initial_world"
proof -
  have q: "MouseProc_LBUTTONUP (ex_drop 2)
             (MouseProc_LBUTTONDOWN \<lparr>pt_x = 100, pt_y = 10\<rparr> initial_world) = ex_queued 2"
    by (simp add: ex_queued_def)
  have o1: "timer_outstanding DragNewTabTimerProc_ptr 1 (ex_queued 2)"
    by (simp add: ex_queued_2 timer_outstanding_def)
  from o1 show ?thesis
    by (simp only: deliverable.simps step.simps enabled.simps q simp_thms)
qed

lemma ex_restore_lost_fire:
  "DragNewTabRestoreTimerProc 2 ex_restore_lost ex_moved =
     ex_moved\<lparr>drag_new_tab_restore_attempts := 3\<rparr>"
  by (simp add: DragNewTabRestoreTimerProc_def ex_moved_eq ex_restore_lost_def Let_def)

subsection \<open>Claim C6\<close>

text \<open>
  The claim as stated does not hold in its clause on the container. In the run below the
  restore timer has been set with its four attempts, and at its first fire the container
  of the session cannot be found any more (\<^verbatim>\<open>GetTopContainerView\<close> returns null). The
  fire does not cancel the timer: it consumes one attempt and returns, the timer is still
  outstanding under the same handle and the ticket is kept.
\<close>

theorem restore_timer_behaviour_counterexample:
  "ro_top_container_view ex_restore_lost = None
   \<and> deliverable [EvLButtonDown \<lparr>pt_x = 100, pt_y = 10\<rparr>, EvLButtonUp (ex_drop 2),
                   EvPollFire 1 ex_poll_front, EvRestoreFire 2 ex_restore_lost] initial_world
   \<and> timer_outstanding DragNewTabRestoreTimerProc_ptr 2
        (run [EvLButtonDown \<lparr>pt_x = 100, pt_y = 10\<rparr>, EvLButtonUp (ex_drop 2),
              EvPollFire 1 ex_poll_front, EvRestoreFire 2 ex_restore_lost] initial_world)
   \<and> drag_new_tab_restore_timer
        (run [EvLButtonDown \<lparr>pt_x = 100, pt_y = 10\<rparr>, EvLButtonUp (ex_drop 2),
              EvPollFire 1 ex_poll_front, EvRestoreFire 2 ex_restore_lost] initial_world) = 2
   \<and> drag_new_tab_restore_tab
        (run [EvLButtonDown \<lparr>pt_x = 100, pt_y = 10\<rparr>, EvLButtonUp (ex_drop 2),
              EvPollFire 1 ex_poll_front, EvRestoreFire 2 ex_restore_lost] initial_world)
       = Some 3
   \<and> drag_new_tab_restore_attempts
        (run [EvLButtonDown \<lparr>pt_x = 100, pt_y = 10\<rparr>, EvLButtonUp (ex_drop 2),
              EvPollFire 1 ex_poll_front, EvRestoreFire 2 ex_restore_lost] initial_world) = 3"
proof -
  have q: "MouseProc_LBUTTONUP (ex_drop 2)
             (MouseProc_LBUTTONDOWN \<lparr>pt_x = 100, pt_y = 10\<rparr> initial_world) = ex_queued 2"
    by (simp add: ex_queued_def)
  have f: "DragNewTabTimerProc 1 ex_poll_front (ex_queued 2) = ex_moved"
    by (simp add: ex_moved_def)
  have o1: "timer_outstanding DragNewTabTimerProc_ptr 1 (ex_queued 2)"
    by (simp add: ex_queued_2 timer_outstanding_def)
  have o2: "timer_outstanding DragNewTabRestoreTimerProc_ptr 2 ex_moved"
    by (simp add: ex_moved_eq timer_outstanding_def)
  have l: "ro_top_container_view ex_restore_lost = None"
    by (simp add: ex_restore_lost_def)
  have r: "run [EvLButtonDown \<lparr>pt_x = 100, pt_y = 10\<rparr>, EvLButtonUp (ex_drop 2),
              EvPollFire 1 ex_poll_front, EvRestoreFire 2 ex_restore_lost] initial_world
           = ex_moved\<lparr>drag_new_tab_restore_attempts := 3\<rparr>"
    by (simp only: run.simps step.simps q f ex_restore_lost_fire)
  have d: "deliverable [EvLButtonDown \<lparr>pt_x = 100, pt_y = 10\<rparr>, EvLButtonUp (ex_drop 2),
                   EvPollFire 1 ex_poll_front, EvRestoreFire 2 ex_restore_lost] initial_world"
    using o1 o2 by (simp only: deliverable.simps step.simps enabled.simps q f simp_thms)
  have a: "timer_outstanding DragNewTabRestoreTimerProc_ptr 2
        (ex_moved\<lparr>drag_new_tab_restore_attempts := 3\<rparr>)"
    and b: "drag_new_tab_restore_timer (ex_moved\<lparr>drag_new_tab_restore_attempts := 3\<rparr>) = 2"
    and c: "drag_new_tab_restore_tab (ex_moved\<lparr>drag_new_tab_restore_attempts := 3\<rparr>) = Some 3"
    and e: "drag_new_tab_restore_attempts (ex_moved\<lparr>drag_new_tab_restore_attempts := 3\<rparr>) = 3"
    by (simp_all add: ex_moved_eq timer_outstanding_def)
  from l d a b c e show ?thesis
    by (simp only: r simp_thms)
qed

text \<open>
  C6 (amended). The restore timer is set by \<^verbatim>\<open>QueueDragNewTabRestore\<close> with a period of
  80 ms and 4 attempts. Each fire that has an attempt left consumes one; when the session
  has a window handle, the container is found and a restore target is resolved, the fire
  re-reads the selection and sends the select command for the target exactly when the
  selection is not the target, and it sends nothing in every other case. The fire kills
  its own timer (and clears the handle and the ticket) when the attempts are exhausted at
  its start, when the session has no window handle, or when it runs to its end with its
  last attempt; in every other case the timer stays as it is. In particular the timer
  does not cancel itself when the container has become invalid: a fire whose container
  lookup fails, or that resolves no target, keeps the timer, the handle and the ticket,
  sends nothing and only consumes its attempt, so that such a timer ends by exhaustion.
  The cancellation on a missing window handle is never met by a fire the system can
  deliver: whenever a restore timer is outstanding after a deliverable sequence of entry
  points, it is the one the handle names and the session has a window handle. No fire
  creates a timer or touches the poll timer handle or the session. Over any sequence of
  host answers the timer runs at most 4 attempts: at most 4 select commands, at most 5
  fires (the fifth only cancels), and after 5 fires no restore timer is left.
\<close>

theorem restore_timer_behaviour:
  "issued (DragNewTabRestoreTimerProc tid ro w) =
     issued w @
       (if 0 < drag_new_tab_restore_attempts w \<and> hwnd (drag_new_tab_state w) \<noteq> None \<and>
           ro_top_container_view ro \<noteq> None \<and>
           ResolveRestoreTab (drag_new_tab_state w) (ro_tabs ro) \<noteq> None \<and>
           ro_selected_tab ro \<noteq> ResolveRestoreTab (drag_new_tab_state w) (ro_tabs ro)
        then [CmdSelectTab (ResolveRestoreTab (drag_new_tab_state w) (ro_tabs ro))] else [])
   \<and> drag_new_tab_restore_attempts (DragNewTabRestoreTimerProc tid ro w) =
       (if drag_new_tab_restore_attempts w \<le> 0 then drag_new_tab_restore_attempts w
        else drag_new_tab_restore_attempts w - 1)
   \<and> (if restore_fire_stops ro w
       then drag_new_tab_restore_timer (DragNewTabRestoreTimerProc tid ro w) = 0 \<and>
            drag_new_tab_restore_tab (DragNewTabRestoreTimerProc tid ro w) = None \<and>
            os_timers (DragNewTabRestoreTimerProc tid ro w)
              = filter (\<lambda>e. timer_id e \<noteq> tid) (os_timers w)
       else drag_new_tab_restore_timer (DragNewTabRestoreTimerProc tid ro w)
              = drag_new_tab_restore_timer w \<and>
            os_timers (DragNewTabRestoreTimerProc tid ro w) = os_timers w)
   \<and> (0 < drag_new_tab_restore_attempts w \<and> hwnd (drag_new_tab_state w) \<noteq> None \<and>
       (ro_top_container_view ro = None \<or>
        ResolveRestoreTab (drag_new_tab_state w) (ro_tabs ro) = None) \<longrightarrow>
        drag_new_tab_restore_timer (DragNewTabRestoreTimerProc tid ro w)
          = drag_new_tab_restore_timer w \<and>
        drag_new_tab_restore_tab (DragNewTabRestoreTimerProc tid ro w)
          = drag_new_tab_restore_tab w \<and>
        os_timers (DragNewTabRestoreTimerProc tid ro w) = os_timers w \<and>
        drag_new_tab_restore_attempts (DragNewTabRestoreTimerProc tid ro w)
          = drag_new_tab_restore_attempts w - 1 \<and>
        issued (DragNewTabRestoreTimerProc tid ro w) = issued w)
   \<and> (deliverable evs initial_world \<and>
       timer_outstanding DragNewTabRestoreTimerProc_ptr t (run evs initial_world) \<longrightarrow>
        drag_new_tab_restore_timer (run evs initial_world) = t \<and>
        hwnd (drag_new_tab_state (run evs initial_world)) \<noteq> None)
   \<and> drag_new_tab_timer (DragNewTabRestoreTimerProc tid ro w) = drag_new_tab_timer w
   \<and> os_last_timer_id (DragNewTabRestoreTimerProc tid ro w) = os_last_timer_id w
   \<and> set (os_timers (DragNewTabRestoreTimerProc tid ro w)) \<subseteq> set (os_timers w)
   \<and> drag_new_tab_state (DragNewTabRestoreTimerProc tid ro w) = drag_new_tab_state w
   \<and> (target \<noteq> None \<longrightarrow>
        drag_new_tab_restore_attempts (QueueDragNewTabRestore target u) = 4 \<and>
        drag_new_tab_restore_timer (QueueDragNewTabRestore target u) \<noteq> 0 \<and>
        \<lparr>timer_id = drag_new_tab_restore_timer (QueueDragNewTabRestore target u),
          timer_elapse = 80, timer_proc = DragNewTabRestoreTimerProc_ptr\<rparr>
          \<in> set (os_timers (QueueDragNewTabRestore target u)))
   \<and> (drag_new_tab_restore_attempts w \<le> 4 \<longrightarrow>
        restore_fire_count ros w \<le> 5 \<and>
        length (issued (restore_fires ros w)) \<le> length (issued w) + 4 \<and>
        (4 < length ros \<longrightarrow> drag_new_tab_restore_timer (restore_fires ros w) = 0))"
proof (intro conjI impI)
  show "issued (DragNewTabRestoreTimerProc tid ro w) =
     issued w @
       (if 0 < drag_new_tab_restore_attempts w \<and> hwnd (drag_new_tab_state w) \<noteq> None \<and>
           ro_top_container_view ro \<noteq> None \<and>
           ResolveRestoreTab (drag_new_tab_state w) (ro_tabs ro) \<noteq> None \<and>
           ro_selected_tab ro \<noteq> ResolveRestoreTab (drag_new_tab_state w) (ro_tabs ro)
        then [CmdSelectTab (ResolveRestoreTab (drag_new_tab_state w) (ro_tabs ro))] else [])"
    by (rule DragNewTabRestoreTimerProc_issued)
  show "drag_new_tab_restore_attempts (DragNewTabRestoreTimerProc tid ro w) =
       (if drag_new_tab_restore_attempts w \<le> 0 then drag_new_tab_restore_attempts w
        else drag_new_tab_restore_attempts w - 1)"
    by (rule DragNewTabRestoreTimerProc_attempts)
  show "if restore_fire_stops ro w
       then drag_new_tab_restore_timer (DragNewTabRestoreTimerProc tid ro w) = 0 \<and>
            drag_new_tab_restore_tab (DragNewTabRestoreTimerProc tid ro w) = None \<and>
            os_timers (DragNewTabRestoreTimerProc tid ro w)
              = filter (\<lambda>e. timer_id e \<noteq> tid) (os_timers w)
       else drag_new_tab_restore_timer (DragNewTabRestoreTimerProc tid ro w)
              = drag_new_tab_restore_timer w \<and>
            os_timers (DragNewTabRestoreTimerProc tid ro w) = os_timers w"
    by (simp add: DragNewTabRestoreTimerProc_handle DragNewTabRestoreTimerProc_timers
        DragNewTabRestoreTimerProc_ticket)
  show "set (os_timers (DragNewTabRestoreTimerProc tid ro w)) \<subseteq> set (os_timers w)"
    by (auto simp: DragNewTabRestoreTimerProc_timers)
next
  assume l: "0 < drag_new_tab_restore_attempts w \<and> hwnd (drag_new_tab_state w) \<noteq> None \<and>
       (ro_top_container_view ro = None \<or>
        ResolveRestoreTab (drag_new_tab_state w) (ro_tabs ro) = None)"
  then have ns: "\<not> restore_fire_stops ro w"
    by (auto simp: restore_fire_stops_def)
  from ns show "drag_new_tab_restore_timer (DragNewTabRestoreTimerProc tid ro w)
          = drag_new_tab_restore_timer w"
    by (simp add: DragNewTabRestoreTimerProc_handle)
  from ns show "drag_new_tab_restore_tab (DragNewTabRestoreTimerProc tid ro w)
          = drag_new_tab_restore_tab w"
    by (simp add: DragNewTabRestoreTimerProc_ticket)
  from ns show "os_timers (DragNewTabRestoreTimerProc tid ro w) = os_timers w"
    by (simp add: DragNewTabRestoreTimerProc_timers)
  from l show "drag_new_tab_restore_attempts (DragNewTabRestoreTimerProc tid ro w)
          = drag_new_tab_restore_attempts w - 1"
    by (simp add: DragNewTabRestoreTimerProc_attempts)
  from l show "issued (DragNewTabRestoreTimerProc tid ro w) = issued w"
    by (auto simp: DragNewTabRestoreTimerProc_issued)
next
  assume d: "deliverable evs initial_world \<and>
       timer_outstanding DragNewTabRestoreTimerProc_ptr t (run evs initial_world)"
  then have tr: "timers_tracked (run evs initial_world)"
    by (simp add: tracked_run[OF tracked_initial])
  from outstanding_handle[OF tr, of DragNewTabRestoreTimerProc_ptr t] d
  have h: "t \<noteq> 0 \<and> t = drag_new_tab_restore_timer (run evs initial_world)"
    by simp
  then show "drag_new_tab_restore_timer (run evs initial_world) = t"
    by simp
  from h run_bound[OF bound_initial, of evs]
  show "hwnd (drag_new_tab_state (run evs initial_world)) \<noteq> None"
    by (simp add: session_bound_def)
next
  assume "target \<noteq> None"
  from QueueDragNewTabRestore_some[OF this, of u]
  show "drag_new_tab_restore_attempts (QueueDragNewTabRestore target u) = 4"
    and "drag_new_tab_restore_timer (QueueDragNewTabRestore target u) \<noteq> 0"
    and "\<lparr>timer_id = drag_new_tab_restore_timer (QueueDragNewTabRestore target u),
          timer_elapse = 80, timer_proc = DragNewTabRestoreTimerProc_ptr\<rparr>
          \<in> set (os_timers (QueueDragNewTabRestore target u))"
    by (simp_all add: kDragNewTabRestoreAttempts_def)
next
  assume a: "drag_new_tab_restore_attempts w \<le> 4"
  from restore_fire_count_le[of ros w] a show "restore_fire_count ros w \<le> 5" by simp
  from restore_fires_issued_le[of ros w] a
  show "length (issued (restore_fires ros w)) \<le> length (issued w) + 4" by simp
  assume "4 < length ros"
  with a have "nat (drag_new_tab_restore_attempts w) < length ros" by simp
  then show "drag_new_tab_restore_timer (restore_fires ros w) = 0"
    by (rule restore_fires_stop)
qed simp_all

theorem restore_timer_behaviour_witness:
  "issued (DragNewTabRestoreTimerProc 2 ex_restore_obs ex_moved)
     = issued ex_moved @ [CmdSelectTab (Some 3)]
   \<and> drag_new_tab_restore_attempts (DragNewTabRestoreTimerProc 2 ex_restore_obs ex_moved) = 3
   \<and> drag_new_tab_restore_timer (DragNewTabRestoreTimerProc 2 ex_restore_obs ex_moved) = 2
   \<and> ro_top_container_view ex_restore_lost = None
   \<and> drag_new_tab_restore_timer (DragNewTabRestoreTimerProc 2 ex_restore_lost ex_moved) = 2
   \<and> drag_new_tab_restore_tab (DragNewTabRestoreTimerProc 2 ex_restore_lost ex_moved) = Some 3
   \<and> os_timers (DragNewTabRestoreTimerProc 2 ex_restore_lost ex_moved) = os_timers ex_moved
   \<and> drag_new_tab_restore_attempts (DragNewTabRestoreTimerProc 2 ex_restore_lost ex_moved) = 3
   \<and> issued (DragNewTabRestoreTimerProc 2 ex_restore_lost ex_moved) = issued ex_moved
   \<and> deliverable [EvLButtonDown \<lparr>pt_x = 100, pt_y = 10\<rparr>, EvLButtonUp (ex_drop 2),
                   EvPollFire 1 ex_poll_front] initial_world
   \<and> timer_outstanding DragNewTabRestoreTimerProc_ptr 2
       (run [EvLButtonDown \<lparr>pt_x = 100, pt_y = 10\<rparr>, EvLButtonUp (ex_drop 2),
             EvPollFire 1 ex_poll_front] initial_world)
   \<and> drag_new_tab_restore_timer
       (run [EvLButtonDown \<lparr>pt_x = 100, pt_y = 10\<rparr>, EvLButtonUp (ex_drop 2),
             EvPollFire 1 ex_poll_front] initial_world) = 2
   \<and> hwnd (drag_new_tab_state
       (run [EvLButtonDown \<lparr>pt_x = 100, pt_y = 10\<rparr>, EvLButtonUp (ex_drop 2),
             EvPollFire 1 ex_poll_front] initial_world)) \<noteq> None
   \<and> drag_new_tab_restore_attempts (QueueDragNewTabRestore (Some 3) (ex_queued 2)) = 4
   \<and> restore_fire_count (replicate 5 ex_restore_lost) ex_moved \<le> 5
   \<and> drag_new_tab_restore_timer (restore_fires (replicate 5 ex_restore_lost) ex_moved) = 0"
proof -
  let ?evs = "[EvLButtonDown \<lparr>pt_x = 100, pt_y = 10\<rparr>, EvLButtonUp (ex_drop 2),
               EvPollFire 1 ex_poll_front]"
  have r: "ResolveRestoreTab (drag_new_tab_state ex_moved) (ro_tabs ex_restore_obs) = Some 3"
    by (simp add: ex_moved_eq ex_restore_obs_def ResolveRestoreTab_def GetTabIndex_def
        GetTabByIndex_def)
  have c: "0 < drag_new_tab_restore_attempts ex_moved \<and>
      hwnd (drag_new_tab_state ex_moved) \<noteq> None \<and>
      ro_top_container_view ex_restore_obs \<noteq> None \<and> Some 3 \<noteq> (None :: NodePtr) \<and>
      ro_selected_tab ex_restore_obs \<noteq> Some 3"
    by (simp add: ex_moved_eq ex_restore_obs_def)
  have a: "\<not> drag_new_tab_restore_attempts ex_moved \<le> 0"
    and a4: "drag_new_tab_restore_attempts ex_moved \<le> 4"
    and a3: "drag_new_tab_restore_attempts ex_moved - 1 = 3"
    and h: "drag_new_tab_restore_timer ex_moved = 2"
    and k: "drag_new_tab_restore_tab ex_moved = Some 3"
    by (simp_all add: ex_moved_eq)
  have ns: "\<not> restore_fire_stops ex_restore_obs ex_moved"
    by (simp add: restore_fire_stops_def ex_moved_eq)
  have l: "4 < length (replicate 5 ex_restore_lost)"
    and t: "Some 3 \<noteq> (None :: NodePtr)"
    by simp_all
  have lost: "ro_top_container_view ex_restore_lost = None"
    by (simp add: ex_restore_lost_def)
  have g: "0 < drag_new_tab_restore_attempts ex_moved \<and>
      hwnd (drag_new_tab_state ex_moved) \<noteq> None \<and>
      (ro_top_container_view ex_restore_lost = None \<or>
       ResolveRestoreTab (drag_new_tab_state ex_moved) (ro_tabs ex_restore_lost) = None)"
    by (simp add: ex_moved_eq ex_restore_lost_def)
  have d: "deliverable ?evs initial_world"
    by (rule ex_restore_deliverable)
  have o: "timer_outstanding DragNewTabRestoreTimerProc_ptr 2 (run ?evs initial_world)"
    unfolding ex_restore_run by (simp add: ex_moved_eq timer_outstanding_def)
  note i1 = restore_timer_behaviour[where tid = 2 and ro = ex_restore_obs and w = ex_moved
      and target = "Some 3" and u = "ex_queued 2" and ros = "replicate 5 ex_restore_lost"
      and evs = ?evs and t = 2,
      unfolded r, unfolded if_P[OF c] if_not_P[OF a] if_not_P[OF ns] a3 h]
  from i1 a4 l t d o
  have p1: "issued (DragNewTabRestoreTimerProc 2 ex_restore_obs ex_moved)
        = issued ex_moved @ [CmdSelectTab (Some 3)]
      \<and> drag_new_tab_restore_attempts (DragNewTabRestoreTimerProc 2 ex_restore_obs ex_moved) = 3
      \<and> drag_new_tab_restore_timer (DragNewTabRestoreTimerProc 2 ex_restore_obs ex_moved) = 2
      \<and> drag_new_tab_restore_timer (run ?evs initial_world) = 2
      \<and> hwnd (drag_new_tab_state (run ?evs initial_world)) \<noteq> None
      \<and> drag_new_tab_restore_attempts (QueueDragNewTabRestore (Some 3) (ex_queued 2)) = 4
      \<and> restore_fire_count (replicate 5 ex_restore_lost) ex_moved \<le> 5
      \<and> drag_new_tab_restore_timer (restore_fires (replicate 5 ex_restore_lost) ex_moved) = 0"
    by blast
  note i2 = restore_timer_behaviour[where tid = 2 and ro = ex_restore_lost and w = ex_moved,
      THEN conjunct2, THEN conjunct2, THEN conjunct2, THEN conjunct1]
  from i2 g
  have p2: "drag_new_tab_restore_timer (DragNewTabRestoreTimerProc 2 ex_restore_lost ex_moved) = 2
      \<and> drag_new_tab_restore_tab (DragNewTabRestoreTimerProc 2 ex_restore_lost ex_moved) = Some 3
      \<and> os_timers (DragNewTabRestoreTimerProc 2 ex_restore_lost ex_moved) = os_timers ex_moved
      \<and> drag_new_tab_restore_attempts (DragNewTabRestoreTimerProc 2 ex_restore_lost ex_moved) = 3
      \<and> issued (DragNewTabRestoreTimerProc 2 ex_restore_lost ex_moved) = issued ex_moved"
    unfolding a3 h k by blast
  from p1 p2 lost d o show ?thesis
    by blast
qed

end
